(* ===== verification/Prelude.thy ===== *)
theory Prelude
  imports Main "HOL-Library.List_Lexorder" "HOL-Library.Char_ord" "HOL-Library.Multiset"
    "HOL-Library.Sublist"
begin

text \<open>
  Shared vocabulary of the development: the Python exceptions the source can raise
  without catching them, and the Python \<open>str\<close> operations that
  \<^verbatim>\<open>src/app.py\<close> uses (\<open>strip\<close>, \<open>split\<close> on a literal separator, \<open>join\<close>,
  \<open>isdigit\<close>, \<open>in\<close>, \<open>str(None)\<close>), written as executable HOL functions on
  \<^typ>\<open>string\<close>. Characters are bytes: a Python code point beyond ASCII is several
  \<^typ>\<open>char\<close>s (UTF-8), and \<open>isspace\<close>/\<open>isdigit\<close> are modelled on their ASCII
  part. String comparison is the lexicographic order of HOL-Library.List_Lexorder over the
  code order of HOL-Library.Char_ord, which is Python's \<open>str\<close> order (UTF-8 byte
  order is code point order). The round-trip laws of \<open>split\<close> and \<open>join\<close> proved
  here carry the context-assembly proofs.
\<close>

named_theorems py_str_simps "equations of the modelled Python string operations"

section \<open>Python errors\<close>

text \<open>Uncaught exceptions of the source, one constructor per exception class that can
  escape a modelled function.\<close>

datatype py_error =
    TypeError
  | AttributeError
  | JSONDecodeError
  | ParseError
  | RequestException
  | KeyError
  | AssertionError

section \<open>Python string operations\<close>

abbreviation py_nl :: string where
  "py_nl \<equiv> [CHR ''\<newline>'']"

text \<open>\<open>str.isspace\<close> on one ASCII character: space, \<open>\t \n \x0b \x0c \r\<close> and the
  separators \<open>\x1c\<close>--\<open>\x1f\<close>.\<close>

definition py_isspace :: "char \<Rightarrow> bool" where
  "py_isspace c = (let n = (of_char c :: nat) in n = 32 \<or> (9 \<le> n \<and> n \<le> 13) \<or> (28 \<le> n \<and> n \<le> 31))"

definition py_strip :: "string \<Rightarrow> string" where
  "py_strip s = rev (dropWhile py_isspace (rev (dropWhile py_isspace s)))"

text \<open>\<open>str.isdigit\<close>: non-empty and every character a digit.\<close>

definition py_isdigit :: "string \<Rightarrow> bool" where
  "py_isdigit s = (s \<noteq> [] \<and> list_all (\<lambda>c. CHR ''0'' \<le> c \<and> c \<le> CHR ''9'') s)"

text \<open>\<open>sub in s\<close>.\<close>

fun py_contains :: "string \<Rightarrow> string \<Rightarrow> bool" where
  "py_contains sub [] = (sub = [])"
| "py_contains sub (c # cs) = (take (length sub) (c # cs) = sub \<or> py_contains sub cs)"

text \<open>\<open>s.split(sep)\<close> for a non-empty literal separator: scan left to right, cut at
  each leftmost non-overlapping occurrence. The first argument of \<open>split_acc\<close> is the
  piece read so far, reversed. Every call site of the source passes a non-empty literal
  (\<open>','\<close>, \<open>'\n\n'\<close>, \<open>'Published: '\<close>, \<open>'\n'\<close>); Python's
  \<open>ValueError\<close> for an empty separator cannot occur there.\<close>

fun split_acc :: "string \<Rightarrow> string \<Rightarrow> string \<Rightarrow> string list" where
  "split_acc sep acc [] = [rev acc]"
| "split_acc sep acc (c # cs) =
     (if sep \<noteq> [] \<and> take (length sep) (c # cs) = sep
      then rev acc # split_acc sep [] (drop (length sep) (c # cs))
      else split_acc sep (c # acc) cs)"

definition py_split :: "string \<Rightarrow> string \<Rightarrow> string list" where
  "py_split sep s = split_acc sep [] s"

text \<open>\<open>sep.join(xs)\<close>.\<close>

fun py_join :: "string \<Rightarrow> string list \<Rightarrow> string" where
  "py_join sep [] = []"
| "py_join sep [x] = x"
| "py_join sep (x # y # zs) = x @ sep @ py_join sep (y # zs)"

text \<open>\<open>str(v)\<close> and f-string interpolation of a value that is a string or \<open>None\<close>.\<close>

fun py_str :: "string option \<Rightarrow> string" where
  "py_str None = ''None''"
| "py_str (Some s) = s"

text \<open>Truthiness of a string-or-\<open>None\<close> value.\<close>

fun py_truthy :: "string option \<Rightarrow> bool" where
  "py_truthy None = False"
| "py_truthy (Some s) = (s \<noteq> [])"

declare py_split_def [py_str_simps] py_isdigit_def [py_str_simps] py_strip_def [py_str_simps]
  py_isspace_def [py_str_simps]

section \<open>Lemmas on results\<close>

text \<open>\<open>map_sum id f r\<close> is the way a successful result is extended (a list
  comprehension continuing after an element); these two rules let \<open>simp\<close> see through
  it.\<close>

lemma map_sum_id_Inr [simp]: "map_sum id f r = Inr y \<longleftrightarrow> (\<exists>z. r = Inr z \<and> y = f z)"
  by (cases r) auto

lemma map_sum_id_Inl [simp]: "map_sum id f r = Inl e \<longleftrightarrow> r = Inl e"
  by (cases r) auto

section \<open>Lemmas on the string operations\<close>

lemma py_join_Cons:
  "py_join sep (x # xs) = (if xs = [] then x else x @ sep @ py_join sep xs)"
  by (cases xs) simp_all

lemma py_join_append_single:
  "xs \<noteq> [] \<Longrightarrow> py_join sep (xs @ [y]) = py_join sep xs @ sep @ y"
  by (induction xs) (auto simp: py_join_Cons)

lemma split_acc_nonempty [simp]: "split_acc sep acc s \<noteq> []"
  by (induction sep acc s rule: split_acc.induct) auto

lemma py_split_nonempty [simp]: "py_split sep s \<noteq> []"
  by (simp add: py_split_def)

lemma py_split_Nil [simp]: "py_split sep [] = [[]]"
  by (simp add: py_split_def)

text \<open>Round trip, one direction: joining the pieces gives the string back, whatever it
  contains.\<close>

lemma join_split_acc: "py_join sep (split_acc sep acc s) = rev acc @ s"
proof (induction sep acc s rule: split_acc.induct)
  case (1 sep acc)
  then show ?case by simp
next
  case (2 sep acc c cs)
  show ?case
  proof (cases "sep \<noteq> [] \<and> take (length sep) (c # cs) = sep")
    case True
    then have "py_join sep (split_acc sep acc (c # cs))
        = rev acc @ sep @ drop (length sep) (c # cs)"
      using "2.IH"(1) by (simp add: py_join_Cons)
    also have "\<dots> = rev acc @ c # cs"
      using True by (metis append_take_drop_id)
    finally show ?thesis .
  next
    case False
    then have "split_acc sep acc (c # cs) = split_acc sep (c # acc) cs"
      by (simp only: split_acc.simps(2) if_not_P if_False)
    then show ?thesis using "2.IH"(2) False by (simp del: split_acc.simps)
  qed
qed

lemma py_join_py_split [py_str_simps]: "py_join sep (py_split sep s) = s"
  by (simp add: py_split_def join_split_acc)

lemma take_length_append:
  assumes "take (length sub) xs = sub"
  shows "take (length sub) (xs @ ys) = sub"
proof -
  have "length (take (length sub) xs) = length sub" using assms by simp
  then have "length sub \<le> length xs" by simp
  then show ?thesis using assms by simp
qed

lemma py_contains_append: "py_contains sub xs \<Longrightarrow> py_contains sub (xs @ ys)"
proof (induction xs)
  case Nil
  then show ?case by (cases ys) simp_all
next
  case (Cons c cs)
  then show ?case using take_length_append [of sub "c # cs" ys] by auto
qed

lemma split_acc_no_sep:
  "\<not> py_contains sep b \<Longrightarrow> split_acc sep acc b = [rev acc @ b]"
  by (induction sep acc b rule: split_acc.induct) auto

lemma split_acc_block:
  assumes "sep \<noteq> []" and "\<not> py_contains sep (b @ butlast sep)"
  shows "split_acc sep acc (b @ sep @ r) = (rev acc @ b) # py_split sep r"
  using assms(2)
proof (induction b arbitrary: acc)
  case Nil
  from assms(1) obtain c cs where "sep @ r = c # cs" by (cases sep) auto
  moreover have "take (length sep) (sep @ r) = sep" by simp
  ultimately show ?case using assms(1)
    by (simp add: py_split_def) (metis append_eq_conv_conj)
next
  case (Cons c b)
  have len: "length sep \<le> length (c # b @ butlast sep)"
    using assms(1) by simp
  have split: "c # b @ sep @ r = (c # b @ butlast sep) @ [last sep] @ r"
    using assms(1) by simp
  have "take (length sep) (c # b @ sep @ r) = take (length sep) (c # b @ butlast sep)"
    unfolding split using len by (simp only: take_append) simp
  moreover have "take (length sep) (c # b @ butlast sep) \<noteq> sep"
    using Cons.prems by simp
  moreover have "\<not> py_contains sep (b @ butlast sep)"
    using Cons.prems by simp
  ultimately show ?case using Cons.IH [of "c # acc"] by simp
qed

text \<open>Round trip, other direction: splitting a join gives the blocks back when no
  occurrence of the separator can start inside a block, also not one that runs into the
  separator that follows it.\<close>

lemma py_split_py_join:
  assumes "sep \<noteq> []" and "bs \<noteq> []"
    and "list_all (\<lambda>b. \<not> py_contains sep (b @ butlast sep)) bs"
  shows "py_split sep (py_join sep bs) = bs"
  using assms(2,3)
proof (induction bs)
  case Nil
  then show ?case by simp
next
  case (Cons x xs)
  show ?case
  proof (cases "xs = []")
    case True
    with Cons.prems have "\<not> py_contains sep x" using py_contains_append by auto
    with True show ?thesis by (simp add: py_split_def split_acc_no_sep)
  next
    case False
    with Cons.prems have x: "\<not> py_contains sep (x @ butlast sep)"
      and IH: "py_split sep (py_join sep xs) = xs"
      using Cons.IH by auto
    have "py_split sep (py_join sep (x # xs)) = split_acc sep [] (x @ sep @ py_join sep xs)"
      using False by (simp add: py_split_def py_join_Cons)
    also have "\<dots> = x # xs"
      using split_acc_block [OF assms(1) x] IH by simp
    finally show ?thesis .
  qed
qed

text \<open>The first piece of a split: it extends what was read before it, and it runs past a
  character that cannot occur in the separator when the separator does not occur before
  that character.\<close>

lemma split_acc_hd_acc: "\<exists>p. hd (split_acc sep acc s) = rev acc @ p"
proof (induction sep acc s rule: split_acc.induct)
  case (1 sep acc)
  then show ?case by simp
next
  case (2 sep acc c cs)
  show ?case
  proof (cases "sep \<noteq> [] \<and> take (length sep) (c # cs) = sep")
    case True
    then show ?thesis by simp
  next
    case False
    with "2.IH"(2) obtain p where "hd (split_acc sep (c # acc) cs) = rev (c # acc) @ p" by blast
    with False show ?thesis by auto
  qed
qed

lemma take_sep_prefix:
  assumes "take (length sep) (x @ c # r) = sep" and "c \<notin> set sep"
  shows "take (length sep) x = sep"
proof (cases "length sep \<le> length x")
  case True
  then show ?thesis using assms(1) by simp
next
  case False
  then have "take (length sep) (x @ c # r) = x @ c # take (length sep - length x - 1) r"
    by (simp add: take_Cons' Suc_diff_Suc)
  with assms have "c \<in> set sep" by (metis in_set_conv_decomp)
  with assms(2) show ?thesis by simp
qed

lemma split_acc_first_piece:
  assumes "c \<notin> set sep" and "sep \<noteq> []" and "\<not> py_contains sep x"
  shows "\<exists>rest. hd (split_acc sep acc (x @ c # r)) = rev acc @ x @ c # rest"
  using assms(3)
proof (induction x arbitrary: acc)
  case Nil
  have "take (length sep) (c # r) \<noteq> sep"
    using assms(1,2) by (cases sep) auto
  then have "split_acc sep acc (c # r) = split_acc sep (c # acc) r" by simp
  moreover obtain p where "hd (split_acc sep (c # acc) r) = rev (c # acc) @ p"
    using split_acc_hd_acc by blast
  ultimately show ?case by auto
next
  case (Cons d x)
  have "take (length sep) ((d # x) @ c # r) \<noteq> sep"
  proof
    assume "take (length sep) ((d # x) @ c # r) = sep"
    then have "take (length sep) (d # x) = sep" using assms(1) by (rule take_sep_prefix)
    with Cons.prems show False by simp
  qed
  then have "split_acc sep acc (d # x @ c # r) = split_acc sep (d # acc) (x @ c # r)" by simp
  moreover have "\<not> py_contains sep x" using Cons.prems by simp
  ultimately show ?case using Cons.IH [of "d # acc"] by auto
qed

lemma py_contains_single: "py_contains [c] x \<longleftrightarrow> c \<in> set x"
  by (induction x) auto


lemma py_split_sep_block:
  "sep \<noteq> [] \<Longrightarrow> \<not> py_contains sep (x @ butlast sep) \<Longrightarrow> py_split sep (x @ sep @ r) = x # py_split sep r"
  using split_acc_block [of sep x "[]" r] by (simp add: py_split_def)

lemma py_contains_infix: "py_contains s (x @ s @ y)"
proof (induction x)
  case Nil
  then show ?case by (cases s; cases y) simp_all
next
  case (Cons c x)
  then show ?case by simp
qed

text \<open>Splitting at a one-character separator gives one piece more than the separator
  occurs.\<close>

lemma split_acc_single_length: "length (split_acc [c] acc s) = Suc (count_list s c)"
  by (induction s arbitrary: acc) auto

lemma py_split_single_length: "length (py_split [c] s) = Suc (count_list s c)"
  by (simp add: py_split_def split_acc_single_length)

end
