(* ===== verification/Streaming.thy ===== *)
theory Streaming
  imports Prelude
begin

text \<open>
  The streaming handler of \<^verbatim>\<open>src/app.py\<close>: class \<^verbatim>\<open>EventHandler\<close>
  (lines 116--140) and the draining of one assistant run by \<^verbatim>\<open>stream.until_done()\<close>
  (lines 156--165, and again at 458--465 and 479--486). The handler object is a record;
  each callback is a function from the handler to the updated handler; the events the
  server sends during one run are a list consumed in arrival order. The placeholder
  (a Streamlit \<^verbatim>\<open>st.empty()\<close>) is modelled by the sequence of texts rendered into it,
  \<open>None\<close> when the handler has no placeholder. The lemmas show that the text
  returned is the concatenation of the text deltas in arrival order, that the first-chunk
  special case computes the same as a plain append, and that the placeholder shows every
  prefix of the answer in turn, never retracting text.
\<close>

section \<open>The handler object and its callbacks\<close>

record event_handler =
  text_accumulated :: string
  placeholder :: "string list option"
  first_chunk :: bool

text \<open>Events a run stream delivers to the handler. \<open>Other_event\<close> stands for every
  event whose callback the class does not override (run steps, message creation, status
  changes): the base class ignores them.\<close>

datatype stream_event =
    Text_created string
  | Text_delta string
  | Text_done string
  | Other_event

definition EventHandler_init :: "string list option \<Rightarrow> event_handler" where
  "EventHandler_init ph = \<lparr>text_accumulated = [], placeholder = ph, first_chunk = True\<rparr>"

text \<open>\<^verbatim>\<open>on_text_delta\<close>: the first chunk replaces the (empty) text, later chunks are
  appended; then, if there is a placeholder, the whole text so far is rendered into it.\<close>

definition on_text_delta :: "event_handler \<Rightarrow> string \<Rightarrow> event_handler" where
  "on_text_delta h d =
     (let h1 = (if first_chunk h then h\<lparr>text_accumulated := d, first_chunk := False\<rparr>
                else h\<lparr>text_accumulated := text_accumulated h @ d\<rparr>)
      in case placeholder h1 of
           None \<Rightarrow> h1
         | Some rs \<Rightarrow> h1\<lparr>placeholder := Some (rs @ [text_accumulated h1])\<rparr>)"

text \<open>\<^verbatim>\<open>on_text_created\<close> and \<^verbatim>\<open>on_text_done\<close> only log.\<close>

fun handle_event :: "event_handler \<Rightarrow> stream_event \<Rightarrow> event_handler" where
  "handle_event h (Text_created t) = h"
| "handle_event h (Text_delta d) = on_text_delta h d"
| "handle_event h (Text_done t) = h"
| "handle_event h Other_event = h"

text \<open>\<^verbatim>\<open>stream.until_done()\<close>: deliver every event of the run, in order.\<close>

definition until_done :: "event_handler \<Rightarrow> stream_event list \<Rightarrow> event_handler" where
  "until_done h es = foldl handle_event h es"

text \<open>\<^verbatim>\<open>run_assistant\<close> without its thread effects (those are in theory Turns):
  a fresh handler, the stream drained, the accumulated text returned.\<close>

definition stream_text :: "string list option \<Rightarrow> stream_event list \<Rightarrow> string" where
  "stream_text ph es = text_accumulated (until_done (EventHandler_init ph) es)"

section \<open>Specification of the stream\<close>

text \<open>The text deltas of a run, in arrival order.\<close>

fun deltas :: "stream_event list \<Rightarrow> string list" where
  "deltas [] = []"
| "deltas (Text_delta d # es) = d # deltas es"
| "deltas (e # es) = deltas es"

text \<open>The texts a placeholder should show: after each delta, all text so far.\<close>

fun delta_renders :: "string \<Rightarrow> string list \<Rightarrow> string list" where
  "delta_renders acc [] = []"
| "delta_renders acc (d # ds) = (acc @ d) # delta_renders (acc @ d) ds"

text \<open>The handler invariant: while no chunk has arrived, the text is empty.\<close>

definition handler_inv :: "event_handler \<Rightarrow> bool" where
  "handler_inv h = (if first_chunk h then text_accumulated h = [] else True)"

text \<open>The plain accumulator the first-chunk special case should agree with: always
  append, then render.\<close>

definition append_delta :: "event_handler \<Rightarrow> string \<Rightarrow> event_handler" where
  "append_delta h d =
     (let h1 = h\<lparr>text_accumulated := text_accumulated h @ d, first_chunk := False\<rparr>
      in case placeholder h1 of
           None \<Rightarrow> h1
         | Some rs \<Rightarrow> h1\<lparr>placeholder := Some (rs @ [text_accumulated h1])\<rparr>)"

section \<open>Lemmas\<close>

lemma handler_inv_init [simp]: "handler_inv (EventHandler_init ph)"
  by (simp add: handler_inv_def EventHandler_init_def)

lemma on_text_delta_text:
  "handler_inv h \<Longrightarrow> text_accumulated (on_text_delta h d) = text_accumulated h @ d"
  by (simp add: on_text_delta_def handler_inv_def Let_def split: option.split)

lemma on_text_delta_placeholder:
  "handler_inv h \<Longrightarrow>
   placeholder (on_text_delta h d) = map_option (\<lambda>rs. rs @ [text_accumulated h @ d]) (placeholder h)"
  by (simp add: on_text_delta_def handler_inv_def Let_def split: option.split)

lemma on_text_delta_inv: "handler_inv (on_text_delta h d)"
  by (simp add: on_text_delta_def handler_inv_def Let_def split: option.split)

lemma handle_event_inv: "handler_inv h \<Longrightarrow> handler_inv (handle_event h e)"
  by (cases e) (simp_all add: on_text_delta_inv)

lemma until_done_Nil [simp]: "until_done h [] = h"
  by (simp add: until_done_def)

lemma until_done_Cons: "until_done h (e # es) = until_done (handle_event h e) es"
  by (simp add: until_done_def)

lemma until_done_inv: "handler_inv h \<Longrightarrow> handler_inv (until_done h es)"
  by (induction es arbitrary: h) (simp_all add: until_done_Cons handle_event_inv)

lemma until_done_text:
  "handler_inv h \<Longrightarrow>
   text_accumulated (until_done h es) = text_accumulated h @ concat (deltas es)"
proof (induction es arbitrary: h)
  case Nil
  then show ?case by (simp add: until_done_def)
next
  case (Cons e es)
  have inv: "handler_inv (handle_event h e)" using Cons.prems by (rule handle_event_inv)
  show ?case
    using Cons.IH [OF inv] Cons.prems
    by (cases e) (simp_all add: until_done_Cons on_text_delta_text)
qed

lemma until_done_placeholder:
  "handler_inv h \<Longrightarrow>
   placeholder (until_done h es)
     = map_option (\<lambda>rs. rs @ delta_renders (text_accumulated h) (deltas es)) (placeholder h)"
proof (induction es arbitrary: h)
  case Nil
  then show ?case by (simp add: until_done_def option.map_ident)
next
  case (Cons e es)
  have inv: "handler_inv (handle_event h e)" using Cons.prems by (rule handle_event_inv)
  show ?case
    using Cons.IH [OF inv] Cons.prems
    by (cases e)
       (simp_all add: until_done_Cons on_text_delta_text on_text_delta_placeholder option.map_comp o_def)
qed

lemma delta_renders_prefixes:
  "delta_renders acc ds = map (\<lambda>k. acc @ concat (take k ds)) [1..<Suc (length ds)]"
proof (induction ds arbitrary: acc)
  case Nil
  then show ?case by simp
next
  case (Cons d ds)
  have "[1..<Suc (length (d # ds))] = 1 # map Suc [1..<Suc (length ds)]"
    by (simp add: upt_conv_Cons map_Suc_upt del: upt_Suc)
  then show ?case using Cons.IH [of "acc @ d"] by simp
qed

lemma delta_renders_chain:
  "sorted_wrt prefix (acc # delta_renders acc ds)"
proof (induction ds arbitrary: acc)
  case Nil
  then show ?case by simp
next
  case (Cons d ds)
  have "sorted_wrt prefix ((acc @ d) # delta_renders (acc @ d) ds)" by (rule Cons.IH)
  moreover have "prefix acc (acc @ d)" by simp
  ultimately show ?case using prefix_order.trans [of acc "acc @ d"] by auto
qed

section \<open>Properties of the stream handler\<close>

text \<open>C5. The text \<^verbatim>\<open>run_assistant\<close> returns is the concatenation of the run's text
  deltas in arrival order; creation, completion and other events add nothing.\<close>

theorem stream_text_concat: "stream_text ph es = concat (deltas es)"
  using until_done_text [OF handler_inv_init [of ph], of es]
  by (simp add: stream_text_def EventHandler_init_def)

text \<open>C6. A handler with a placeholder renders, after the \<open>k\<close>-th delta, the
  concatenation of the first \<open>k\<close> deltas: the live answer grows by appending only and
  is never revised.\<close>

theorem placeholder_shows_prefixes:
  "placeholder (until_done (EventHandler_init (Some [])) es)
     = Some (map (\<lambda>k. concat (take k (deltas es))) [1..<Suc (length (deltas es))])"
  using until_done_placeholder [OF handler_inv_init [of "Some []"], of es]
  by (simp add: EventHandler_init_def delta_renders_prefixes)

text \<open>C7. In every state the handler can be in, the first-chunk branch of
  \<^verbatim>\<open>on_text_delta\<close> (assignment instead of \<^verbatim>\<open>+=\<close>) computes the same as always
  appending.\<close>

theorem on_text_delta_is_append:
  assumes "handler_inv h"
  shows "on_text_delta h d = append_delta h d"
  using assms
  by (simp add: on_text_delta_def append_delta_def handler_inv_def Let_def split: option.split)

theorem on_text_delta_is_append_witness:
  "handler_inv (EventHandler_init None) \<and>
   on_text_delta (EventHandler_init None) ''x'' = append_delta (EventHandler_init None) ''x''"
  using on_text_delta_is_append [OF handler_inv_init [of None], of "''x''"] by simp

end
