(* ===== verification/Turns.thy ===== *)
theory Turns
  imports Streaming
begin

text \<open>
  The turn sequencer of \<^verbatim>\<open>src/app.py\<close>: \<^verbatim>\<open>add_message_to_thread\<close>
  (lines 172--189), which polls the thread's runs until none is queued or in progress and
  then appends the message, and \<^verbatim>\<open>run_assistant\<close> (lines 153--165), which starts a
  run and drains its stream. Two levels:
  \<^item> the functions: the polling loop is \<open>wait_idle\<close>, a
    \<^theory_text>\<open>partial_function (option)\<close> over the answers the server gives to the
    successive \<^verbatim>\<open>runs.list\<close> calls (\<open>obs k\<close> is the answer to the \<open>k\<close>-th call),
    so that a loop that never sees an idle thread is \<open>None\<close>;
  \<^item> the protocol: the server (runs advancing on their own) and the Streamlit script
    (which may be interrupted by a rerun at any point, leaving its run going on the server)
    as an inductive step relation \<open>sys_step\<close> over the thread's runs, messages and the
    script's position, with the reachable states.
  The lemmas characterise when the loop returns and what it returns, and prove by rule
  induction that in every reachable state at most one run is active and that a message is
  created only while no run is active, and that from every polling state the server can
  end the active runs so that the script's next listing lets its message through.
\<close>

section \<open>Runs, messages and the thread\<close>

text \<open>The statuses of an Assistants API run.\<close>

datatype run_status =
    Queued | In_progress | Requires_action | Cancelling | Cancelled | Failed | Completed
  | Incomplete | Expired

text \<open>The loop's test \<^verbatim>\<open>run.status in ["queued", "in_progress"]\<close>.\<close>

definition run_active :: "run_status \<Rightarrow> bool" where
  "run_active s = (s = Queued \<or> s = In_progress)"

text \<open>\<^verbatim>\<open>next((run for run in runs if ...), None)\<close>.\<close>

definition find_active :: "run_status list \<Rightarrow> run_status option" where
  "find_active rs = find run_active rs"

datatype role = User | Assistant

record thread =
  messages :: "(role \<times> string) list"
  runs :: "run_status list"

section \<open>The polling loop and the two thread operations\<close>

text \<open>Lines 173--181: list the runs; while one is active, sleep and list again. The
  result is the index of the listing that found no active run.\<close>

partial_function (option) wait_idle :: "(nat \<Rightarrow> run_status list) \<Rightarrow> nat \<Rightarrow> nat option" where
  "wait_idle obs k = (if find_active (obs k) = None then Some k else wait_idle obs (Suc k))"

text \<open>\<^verbatim>\<open>add_message_to_thread\<close>: the loop, then \<^verbatim>\<open>messages.create\<close>. The thread's
  runs become those of the last listing. The result carries the number of the listing
  that let the message through.\<close>

definition add_message_to_thread ::
  "(nat \<Rightarrow> run_status list) \<Rightarrow> thread \<Rightarrow> string \<Rightarrow> role \<Rightarrow> (nat \<times> thread) option" where
  "add_message_to_thread obs th content role =
     map_option (\<lambda>k. (k, th\<lparr>runs := obs k, messages := messages th @ [(role, content)]\<rparr>))
       (wait_idle obs 0)"

text \<open>\<^verbatim>\<open>run_assistant\<close>: a run is created and streamed to its end; \<open>es\<close> are the events
  the server sends and \<open>st\<close> the status the run ends in. A completed run leaves the
  assistant's reply in the thread. The text returned is what the handler accumulated.\<close>

definition run_assistant ::
  "thread \<Rightarrow> string list option \<Rightarrow> stream_event list \<Rightarrow> run_status \<Rightarrow> string \<times> thread" where
  "run_assistant th ph es st =
     (let txt = stream_text ph es
      in (txt, th\<lparr>runs := st # runs th,
                 messages := messages th @ (if st = Completed then [(Assistant, txt)] else [])\<rparr>))"

section \<open>The protocol: script and server interleaved\<close>

text \<open>Where the script is with respect to the thread: outside any turn, inside the
  polling loop with the message to add, past a listing that found no active run but before
  the message is created, after creating it, or draining the run it started (the newest
  run, at the head of the list, as \<^verbatim>\<open>runs.list\<close> orders them).\<close>

datatype script_pc =
    Idle
  | Polling string
  | Cleared string
  | Appended
  | Streaming

record sys =
  sys_runs :: "run_status list"
  sys_msgs :: "(role \<times> string) list"
  pc :: script_pc

definition run_terminal :: "run_status \<Rightarrow> bool" where
  "run_terminal s = (s = Cancelled \<or> s = Failed \<or> s = Completed \<or> s = Incomplete \<or> s = Expired)"

definition sys_init :: sys where
  "sys_init = \<lparr>sys_runs = [], sys_msgs = [], pc = Idle\<rparr>"

inductive sys_step :: "sys \<Rightarrow> sys \<Rightarrow> bool" where
  begin_turn: "pc s = Idle \<Longrightarrow> sys_step s (s\<lparr>pc := Polling c\<rparr>)"
| poll_busy: "pc s = Polling c \<Longrightarrow> find_active (sys_runs s) \<noteq> None \<Longrightarrow> sys_step s s"
| poll_clear: "pc s = Polling c \<Longrightarrow> find_active (sys_runs s) = None \<Longrightarrow>
     sys_step s (s\<lparr>pc := Cleared c\<rparr>)"
| create_message: "pc s = Cleared c \<Longrightarrow>
     sys_step s (s\<lparr>sys_msgs := sys_msgs s @ [(User, c)], pc := Appended\<rparr>)"
| start_run: "pc s = Appended \<Longrightarrow>
     sys_step s (s\<lparr>sys_runs := Queued # sys_runs s, pc := Streaming\<rparr>)"
| stream_done: "pc s = Streaming \<Longrightarrow> sys_runs s \<noteq> [] \<Longrightarrow> run_terminal (hd (sys_runs s)) \<Longrightarrow>
     sys_step s (s\<lparr>pc := Idle\<rparr>)"
| interrupt: "sys_step s (s\<lparr>pc := Idle\<rparr>)"
| server_start: "i < length (sys_runs s) \<Longrightarrow> sys_runs s ! i = Queued \<Longrightarrow>
     sys_step s (s\<lparr>sys_runs := (sys_runs s)[i := In_progress]\<rparr>)"
| server_end: "i < length (sys_runs s) \<Longrightarrow> run_active (sys_runs s ! i) \<Longrightarrow> run_terminal st \<Longrightarrow>
     sys_step s (s\<lparr>sys_runs := (sys_runs s)[i := st],
                   sys_msgs := sys_msgs s @ (if st = Completed then [(Assistant, t)] else [])\<rparr>)"

inductive reachable :: "sys \<Rightarrow> bool" where
  init: "reachable sys_init"
| step: "reachable s \<Longrightarrow> sys_step s t \<Longrightarrow> reachable t"

inductive_cases sys_stepE: "sys_step s t"

text \<open>The protocol invariant: at most one active run; none while the script is between a
  clear listing and the start of its run; while it streams, only its own run (the head)
  may be active.\<close>

definition active_count :: "run_status list \<Rightarrow> nat" where
  "active_count rs = length (filter run_active rs)"

definition sys_inv :: "sys \<Rightarrow> bool" where
  "sys_inv s =
     (active_count (sys_runs s) \<le> 1 \<and>
      (case pc s of
         Cleared c \<Rightarrow> active_count (sys_runs s) = 0
       | Appended \<Rightarrow> active_count (sys_runs s) = 0
       | Streaming \<Rightarrow> sys_runs s \<noteq> [] \<and> active_count (tl (sys_runs s)) = 0
       | _ \<Rightarrow> True))"

text \<open>What the server leaves when it ends every active run with success.\<close>

definition complete_all :: "run_status list \<Rightarrow> run_status list" where
  "complete_all rs = map (\<lambda>r. if run_active r then Completed else r) rs"

section \<open>Lemmas on the loop and the protocol\<close>

lemma wait_idle_Some:
  assumes "wait_idle obs k = Some r"
  shows "k \<le> r \<and> find_active (obs r) = None \<and> (\<forall>j. k \<le> j \<and> j < r \<longrightarrow> find_active (obs j) \<noteq> None)"
proof (rule wait_idle.raw_induct [where P = "\<lambda>obs k r. k \<le> r \<and> find_active (obs r) = None \<and>
      (\<forall>j. k \<le> j \<and> j < r \<longrightarrow> find_active (obs j) \<noteq> None)", OF _ assms])
  fix f obs k r
  assume IH: "\<And>obs k r. f obs k = Some r \<Longrightarrow> k \<le> r \<and> find_active (obs r) = None \<and>
      (\<forall>j. k \<le> j \<and> j < r \<longrightarrow> find_active (obs j) \<noteq> None)"
    and eq: "(if find_active (obs k) = None then Some k else f obs (Suc k)) = Some r"
  show "k \<le> r \<and> find_active (obs r) = None \<and> (\<forall>j. k \<le> j \<and> j < r \<longrightarrow> find_active (obs j) \<noteq> None)"
  proof (cases "find_active (obs k) = None")
    case True
    with eq show ?thesis by auto
  next
    case False
    with eq have "f obs (Suc k) = Some r" by simp
    then have r: "Suc k \<le> r \<and> find_active (obs r) = None \<and>
        (\<forall>j. Suc k \<le> j \<and> j < r \<longrightarrow> find_active (obs j) \<noteq> None)"
      by (rule IH)
    show ?thesis
    proof (intro conjI allI impI)
      show "k \<le> r" using r by simp
      show "find_active (obs r) = None" using r by simp
      fix j assume "k \<le> j \<and> j < r"
      then show "find_active (obs j) \<noteq> None"
        using r False by (cases "j = k") auto
    qed
  qed
qed

lemma wait_idle_returns:
  "k \<le> j \<Longrightarrow> find_active (obs j) = None \<Longrightarrow> \<exists>r. wait_idle obs k = Some r"
proof (induction "j - k" arbitrary: k)
  case 0
  then have "j = k" by simp
  with "0.prems" show ?case by (simp add: wait_idle.simps)
next
  case (Suc n)
  show ?case
  proof (cases "find_active (obs k) = None")
    case True
    then show ?thesis by (simp add: wait_idle.simps)
  next
    case False
    with Suc.prems have "Suc k \<le> j" by (cases "j = k") auto
    moreover have "n = j - Suc k" using Suc.hyps(2) by simp
    ultimately obtain r where "wait_idle obs (Suc k) = Some r"
      using Suc.hyps(1) Suc.prems(2) by blast
    with False show ?thesis by (simp add: wait_idle.simps)
  qed
qed

lemma active_count_zero_iff: "active_count rs = 0 \<longleftrightarrow> find_active rs = None"
  by (auto simp: active_count_def find_active_def filter_empty_conv find_None_iff)

lemma active_count_update_le:
  "i < length rs \<Longrightarrow> run_active (rs ! i) \<Longrightarrow> active_count (rs[i := v]) \<le> active_count rs"
proof (induction rs arbitrary: i)
  case Nil
  then show ?case by simp
next
  case (Cons x xs)
  then show ?case by (cases i) (auto simp: active_count_def)
qed

lemma active_at_head:
  "active_count (tl rs) = 0 \<Longrightarrow> i < length rs \<Longrightarrow> run_active (rs ! i) \<Longrightarrow> i = 0"
proof (cases rs)
  case (Cons x xs)
  assume "active_count (tl rs) = 0" "i < length rs" "run_active (rs ! i)"
  with Cons show "i = 0"
    by (cases i) (auto simp: active_count_def filter_empty_conv)
qed simp

lemma active_count_pos:
  "i < length rs \<Longrightarrow> run_active (rs ! i) \<Longrightarrow> 0 < active_count rs"
proof -
  assume "i < length rs" "run_active (rs ! i)"
  then have "rs ! i \<in> set (filter run_active rs)" by simp
  then show ?thesis unfolding active_count_def by (rule length_pos_if_in_set)
qed

lemma sys_inv_update_active:
  assumes inv: "sys_inv s" and i: "i < length (sys_runs s)" and act: "run_active (sys_runs s ! i)"
    and le: "active_count ((sys_runs s)[i := v]) \<le> active_count (sys_runs s)"
  shows "sys_inv (s\<lparr>sys_runs := (sys_runs s)[i := v], sys_msgs := m\<rparr>)"
proof (cases "pc s")
  case Streaming
  with inv have tl0: "active_count (tl (sys_runs s)) = 0" and ne: "sys_runs s \<noteq> []"
    by (simp_all add: sys_inv_def)
  from active_at_head [OF tl0 i act] have "i = 0" .
  then have "tl ((sys_runs s)[i := v]) = tl (sys_runs s)" using ne by (cases "sys_runs s") auto
  with Streaming inv le ne tl0 show ?thesis by (simp add: sys_inv_def)
qed (use inv le active_count_pos [OF i act] in \<open>auto simp: sys_inv_def\<close>)

lemma sys_step_inv: "sys_step s t \<Longrightarrow> sys_inv s \<Longrightarrow> sys_inv t"
proof (induction rule: sys_step.induct)
  case (begin_turn s c)
  then show ?case by (simp add: sys_inv_def)
next
  case (poll_busy s c)
  then show ?case by simp
next
  case (poll_clear s c)
  then show ?case by (simp add: sys_inv_def active_count_zero_iff)
next
  case (create_message s c)
  then show ?case by (simp add: sys_inv_def)
next
  case (start_run s)
  then show ?case by (simp add: sys_inv_def active_count_def run_active_def)
next
  case (stream_done s)
  then show ?case by (simp add: sys_inv_def)
next
  case (interrupt s)
  then show ?case by (simp add: sys_inv_def)
next
  case (server_start i s)
  have "active_count ((sys_runs s)[i := In_progress]) \<le> active_count (sys_runs s)"
    using server_start.hyps by (simp add: active_count_update_le run_active_def)
  from sys_inv_update_active [OF server_start.prems server_start.hyps(1) _ this, of "sys_msgs s"]
  show ?case using server_start.hyps by (simp add: run_active_def)
next
  case (server_end i s st t)
  from server_end.hyps have "active_count ((sys_runs s)[i := st]) \<le> active_count (sys_runs s)"
    by (simp add: active_count_update_le)
  from sys_inv_update_active [OF server_end.prems server_end.hyps(1,2) this] show ?case .
qed

lemma sys_inv_init: "sys_inv sys_init"
  by (simp add: sys_inv_def sys_init_def active_count_def)

lemma reachable_inv: "reachable s \<Longrightarrow> sys_inv s"
  by (induction rule: reachable.induct) (auto intro: sys_inv_init sys_step_inv)

lemma run_started_reachable:
  "reachable \<lparr>sys_runs = [Queued], sys_msgs = [(User, ''q'')], pc = Streaming\<rparr>"
proof -
  let ?s0 = "sys_init"
  have r1: "reachable (?s0\<lparr>pc := Polling ''q''\<rparr>)"
    by (rule reachable.step [OF reachable.init], rule sys_step.begin_turn) (simp add: sys_init_def)
  have r2: "reachable (?s0\<lparr>pc := Cleared ''q''\<rparr>)"
    using reachable.step [OF r1 sys_step.poll_clear [of "?s0\<lparr>pc := Polling ''q''\<rparr>" "''q''"]]
    by (simp add: sys_init_def find_active_def)
  have r3: "reachable \<lparr>sys_runs = [], sys_msgs = [(User, ''q'')], pc = Appended\<rparr>"
    using reachable.step [OF r2 sys_step.create_message [of "?s0\<lparr>pc := Cleared ''q''\<rparr>" "''q''"]]
    by (simp add: sys_init_def)
  show ?thesis
    using reachable.step [OF r3 sys_step.start_run] by simp
qed

lemma cleared_after_run_reachable:
  "reachable \<lparr>sys_runs = [Completed], sys_msgs = [(User, ''q''), (Assistant, ''a'')], pc = Cleared ''r''\<rparr>"
proof -
  have r1: "reachable \<lparr>sys_runs = [Queued], sys_msgs = [(User, ''q'')], pc = Streaming\<rparr>"
    by (rule run_started_reachable)
  have r2: "reachable \<lparr>sys_runs = [Queued], sys_msgs = [(User, ''q'')], pc = Idle\<rparr>"
    using reachable.step [OF r1 sys_step.interrupt] by simp
  have r3: "reachable \<lparr>sys_runs = [Completed], sys_msgs = [(User, ''q''), (Assistant, ''a'')], pc = Idle\<rparr>"
    using reachable.step [OF r2 sys_step.server_end [of 0 _ Completed "''a''"]]
    by (simp add: run_active_def run_terminal_def)
  have r4: "reachable \<lparr>sys_runs = [Completed], sys_msgs = [(User, ''q''), (Assistant, ''a'')], pc = Polling ''r''\<rparr>"
    using reachable.step [OF r3 sys_step.begin_turn [where c = "''r''"]] by simp
  show ?thesis
    using reachable.step [OF r4 sys_step.poll_clear [where c = "''r''"]]
    by (simp add: find_active_def run_active_def)
qed

lemma active_count_update_less:
  "i < length rs \<Longrightarrow> run_active (rs ! i) \<Longrightarrow> \<not> run_active v \<Longrightarrow>
   active_count (rs[i := v]) < active_count rs"
proof (induction rs arbitrary: i)
  case Nil
  then show ?case by simp
next
  case (Cons x xs)
  then show ?case by (cases i) (auto simp: active_count_def)
qed

lemma complete_all_update:
  "i < length rs \<Longrightarrow> run_active (rs ! i) \<Longrightarrow> complete_all (rs[i := Completed]) = complete_all rs"
  by (auto simp: complete_all_def map_update run_active_def intro!: nth_equalityI simp: nth_list_update)

lemma find_active_Some_index:
  "find_active rs \<noteq> None \<Longrightarrow> \<exists>i < length rs. run_active (rs ! i)"
  by (auto simp: find_active_def find_None_iff in_set_conv_nth)

lemma complete_all_idle: "find_active rs = None \<Longrightarrow> complete_all rs = rs"
  by (auto simp: complete_all_def find_active_def find_None_iff intro: map_idI)

section \<open>Properties of the turn sequencer\<close>

text \<open>C1. The polling loop of \<^verbatim>\<open>add_message_to_thread\<close> returns exactly when some
  listing from the current one on shows no queued or in-progress run, and then it returns
  the first such listing; when the server never shows an idle thread the loop never
  returns (\<open>None\<close>): the wait has no bound.\<close>

theorem wait_idle_first_idle_listing:
  "wait_idle obs k =
     (if \<exists>j. k \<le> j \<and> find_active (obs j) = None
      then Some (LEAST j. k \<le> j \<and> find_active (obs j) = None) else None)"
proof (cases "\<exists>j. k \<le> j \<and> find_active (obs j) = None")
  case True
  then obtain j where j: "k \<le> j" "find_active (obs j) = None" by blast
  then obtain r where r: "wait_idle obs k = Some r" using wait_idle_returns by blast
  from wait_idle_Some [OF r] have
    "k \<le> r" "find_active (obs r) = None" "\<forall>j. k \<le> j \<and> j < r \<longrightarrow> find_active (obs j) \<noteq> None"
    by auto
  then have "(LEAST j. k \<le> j \<and> find_active (obs j) = None) = r"
    by (intro Least_equality) (auto simp: not_less[symmetric])
  with r True show ?thesis by simp
next
  case False
  have "wait_idle obs k = None"
  proof (rule ccontr)
    assume "wait_idle obs k \<noteq> None"
    then obtain r where "wait_idle obs k = Some r" by blast
    from wait_idle_Some [OF this] False show False by blast
  qed
  with False show ?thesis by simp
qed

text \<open>C2. When \<^verbatim>\<open>add_message_to_thread\<close> returns, the message was appended at the
  end of the history, every earlier listing showed an active run, and the listing that
  let it through showed none.\<close>

theorem add_message_only_when_idle:
  assumes "add_message_to_thread obs th content role = Some (k, th')"
  shows "find_active (runs th') = None \<and> messages th' = messages th @ [(role, content)] \<and>
         (\<forall>j < k. find_active (obs j) \<noteq> None)"
proof -
  from assms have k: "wait_idle obs 0 = Some k"
    and th': "th' = th\<lparr>runs := obs k, messages := messages th @ [(role, content)]\<rparr>"
    by (auto simp: add_message_to_thread_def)
  from wait_idle_Some [OF k] th' show ?thesis by simp
qed

theorem add_message_only_when_idle_witness:
  "add_message_to_thread (\<lambda>k. if k < 2 then [In_progress] else [Completed])
      \<lparr>messages = [], runs = []\<rparr> ''q'' User
     = Some (2, \<lparr>messages = [(User, ''q'')], runs = [Completed]\<rparr>) \<and>
   find_active [Completed] = None \<and> find_active [In_progress] \<noteq> None"
proof -
  have eq: "add_message_to_thread (\<lambda>k. if k < 2 then [In_progress] else [Completed])
      \<lparr>messages = [], runs = []\<rparr> ''q'' User
     = Some (2, \<lparr>messages = [(User, ''q'')], runs = [Completed]\<rparr>)"
    by (simp add: add_message_to_thread_def wait_idle.simps find_active_def run_active_def)
  from add_message_only_when_idle [OF eq] eq show ?thesis
    by (simp add: find_active_def run_active_def)
qed

text \<open>C3. In every reachable state of the script/server protocol, reruns that abandon a
  streaming run included, at most one run of the thread is queued or in progress.\<close>

theorem at_most_one_active_run:
  assumes "reachable s"
  shows "active_count (sys_runs s) \<le> 1"
  using reachable_inv [OF assms] by (simp add: sys_inv_def)

theorem at_most_one_active_run_witness:
  "reachable \<lparr>sys_runs = [Queued], sys_msgs = [(User, ''q'')], pc = Streaming\<rparr> \<and>
   active_count [Queued] \<le> 1"
proof -
  have r: "reachable \<lparr>sys_runs = [Queued], sys_msgs = [(User, ''q'')], pc = Streaming\<rparr>"
    by (rule run_started_reachable)
  from at_most_one_active_run [OF r] r show ?thesis by simp
qed

text \<open>C4. Whenever the script is past a listing that showed no active run and is about to
  create its message, no run is active, although server steps and reruns interleave
  between the listing and \<^verbatim>\<open>messages.create\<close>: the message never joins a thread
  with a run in flight.\<close>

theorem create_message_only_when_idle:
  assumes "reachable s" and "pc s = Cleared c"
  shows "find_active (sys_runs s) = None"
  using reachable_inv [OF assms(1)] assms(2) by (simp add: sys_inv_def active_count_zero_iff)

theorem create_message_only_when_idle_witness:
  "reachable \<lparr>sys_runs = [Completed], sys_msgs = [(User, ''q''), (Assistant, ''a'')], pc = Cleared ''r''\<rparr> \<and>
   find_active [Completed] = None"
proof -
  have r: "reachable \<lparr>sys_runs = [Completed], sys_msgs = [(User, ''q''), (Assistant, ''a'')], pc = Cleared ''r''\<rparr>"
    by (rule cleared_after_run_reachable)
  from create_message_only_when_idle [OF r] r show ?thesis by simp
qed

text \<open>C26. Liveness of the wait: from any state in which the script is polling, the server
  can end the active runs (one step each) and the script's next listing then lets its
  message through; the loop of C1 is never stuck by the protocol itself, only by a server
  that never finishes a run.\<close>

theorem polling_can_clear:
  "pc s = Polling c \<Longrightarrow>
   \<exists>t. sys_step\<^sup>*\<^sup>* s t \<and> pc t = Cleared c \<and> sys_runs t = complete_all (sys_runs s)"
proof (induction "active_count (sys_runs s)" arbitrary: s rule: less_induct)
  case less
  show ?case
  proof (cases "find_active (sys_runs s) = None")
    case True
    have "sys_step s (s\<lparr>pc := Cleared c\<rparr>)" using less.prems True by (rule sys_step.poll_clear)
    with True show ?thesis by (intro exI [of _ "s\<lparr>pc := Cleared c\<rparr>"]) (simp add: complete_all_idle)
  next
    case False
    then obtain i where i: "i < length (sys_runs s)" "run_active (sys_runs s ! i)"
      using find_active_Some_index by blast
    let ?s = "s\<lparr>sys_runs := (sys_runs s)[i := Completed],
                sys_msgs := sys_msgs s @ (if Completed = Completed then [(Assistant, [])] else [])\<rparr>"
    have st: "sys_step s ?s"
      using i by (rule sys_step.server_end) (simp add: run_terminal_def)
    have "active_count (sys_runs ?s) < active_count (sys_runs s)"
      using i by (simp add: active_count_update_less run_active_def)
    moreover have "pc ?s = Polling c" using less.prems by simp
    ultimately obtain t where "sys_step\<^sup>*\<^sup>* ?s t" "pc t = Cleared c"
      "sys_runs t = complete_all (sys_runs ?s)"
      using less.hyps by blast
    with st i show ?thesis
      by (intro exI [of _ t]) (simp add: complete_all_update)
  qed
qed

theorem polling_can_clear_witness:
  "pc \<lparr>sys_runs = [In_progress, Completed], sys_msgs = [], pc = Polling ''q''\<rparr> = Polling ''q'' \<and>
   (\<exists>t. sys_step\<^sup>*\<^sup>* \<lparr>sys_runs = [In_progress, Completed], sys_msgs = [], pc = Polling ''q''\<rparr> t \<and>
        pc t = Cleared ''q'' \<and> sys_runs t = [Completed, Completed])"
  using polling_can_clear [of "\<lparr>sys_runs = [In_progress, Completed], sys_msgs = [], pc = Polling ''q''\<rparr>" "''q''"]
  by (simp add: complete_all_def run_active_def)

end
