(* ===== verification/Literature.thy ===== *)
theory Literature
  imports Prelude
begin

text \<open>
  The literature lookup of \<^verbatim>\<open>src/app.py\<close>: \<^verbatim>\<open>search_ncbi\<close> (lines 491--520) and
  \<^verbatim>\<open>fetch_article_details\<close> (lines 522--556). The network is a parameter
  \<open>net\<close>: the answer to \<^verbatim>\<open>requests.get(url)\<close>, an HTTP response or the exception it
  raises. A response body is what the two parsers see: a JSON document, an XML element
  tree, or text that is neither. Every function returns its result, with Python's
  uncaught exceptions as \<open>Inl\<close>, together with the URLs it requested, in order, so that
  the order and number of requests are part of the model. ElementTree's path queries
  (\<^verbatim>\<open>.//T\<close>, \<^verbatim>\<open>T\<close>, \<^verbatim>\<open>.//T[@a="v"]\<close>, \<^verbatim>\<open>.//P/T\<close>) are functions on the element
  tree in document order.
\<close>

section \<open>XML element trees and ElementTree's queries\<close>

text \<open>An element: tag, attributes, text (\<open>None\<close> when the element has no text before its
  first child), children.\<close>

datatype xml = Elem (el_tag: string) (el_attrs: "(string \<times> string) list")
  (el_text: "string option") (el_children: "xml list")

text \<open>All descendants, in document order (the element itself excluded).\<close>

fun descendants :: "xml \<Rightarrow> xml list" where
  "descendants (Elem t a x cs) = concat (map (\<lambda>c. c # descendants c) cs)"

text \<open>\<^verbatim>\<open>e.findall('.//T')\<close> and \<^verbatim>\<open>e.find('.//T')\<close>.\<close>

definition findall_desc :: "string \<Rightarrow> xml \<Rightarrow> xml list" where
  "findall_desc t e = filter (\<lambda>d. el_tag d = t) (descendants e)"

definition find_desc :: "string \<Rightarrow> xml \<Rightarrow> xml option" where
  "find_desc t e = find (\<lambda>d. el_tag d = t) (descendants e)"

text \<open>\<^verbatim>\<open>e.find('T')\<close>: the first child with that tag.\<close>

definition find_child :: "string \<Rightarrow> xml \<Rightarrow> xml option" where
  "find_child t e = find (\<lambda>c. el_tag c = t) (el_children e)"

text \<open>\<^verbatim>\<open>e.find('.//T[@k="v"]')\<close>.\<close>

definition find_desc_attr :: "string \<Rightarrow> string \<Rightarrow> string \<Rightarrow> xml \<Rightarrow> xml option" where
  "find_desc_attr t k v e = find (\<lambda>d. el_tag d = t \<and> map_of (el_attrs d) k = Some v) (descendants e)"

text \<open>\<^verbatim>\<open>e.find('.//P/T')\<close>: the first \<open>T\<close> child of a \<open>P\<close> descendant.\<close>

definition find_desc_child :: "string \<Rightarrow> string \<Rightarrow> xml \<Rightarrow> xml option" where
  "find_desc_child p t e =
     find (\<lambda>c. el_tag c = t) (concat (map el_children (filter (\<lambda>d. el_tag d = p) (descendants e))))"

section \<open>JSON values and HTTP responses\<close>

datatype json =
    JObject "(string \<times> json) list"
  | JArray "json list"
  | JString string
  | JNumber int
  | JBool bool
  | JNull

datatype body =
    Json_body json
  | Xml_body xml
  | Text_body string

record http_response =
  status_code :: int
  body :: body

type_synonym network = "string \<Rightarrow> py_error + http_response"

text \<open>\<^verbatim>\<open>response.json()\<close> and \<^verbatim>\<open>ElementTree.fromstring(response.content)\<close>.\<close>

fun json_of_body :: "body \<Rightarrow> py_error + json" where
  "json_of_body (Json_body j) = Inr j"
| "json_of_body _ = Inl JSONDecodeError"

fun xml_of_body :: "body \<Rightarrow> py_error + xml" where
  "xml_of_body (Xml_body x) = Inr x"
| "xml_of_body _ = Inl ParseError"

text \<open>\<^verbatim>\<open>v.get(k, default)\<close>: only a dict has \<^verbatim>\<open>get\<close>; of duplicate keys the
  JSON decoder keeps the last.\<close>

fun py_get :: "json \<Rightarrow> string \<Rightarrow> json \<Rightarrow> py_error + json" where
  "py_get (JObject kvs) k d = Inr (case map_of (rev kvs) k of None \<Rightarrow> d | Some v \<Rightarrow> v)"
| "py_get _ k d = Inl AttributeError"

text \<open>Truthiness of a decoded JSON value (\<^verbatim>\<open>if not id_list\<close>).\<close>

fun json_truthy :: "json \<Rightarrow> bool" where
  "json_truthy (JObject kvs) = (kvs \<noteq> [])"
| "json_truthy (JArray xs) = (xs \<noteq> [])"
| "json_truthy (JString s) = (s \<noteq> [])"
| "json_truthy (JNumber n) = (n \<noteq> 0)"
| "json_truthy (JBool b) = b"
| "json_truthy JNull = False"

fun json_strings :: "json list \<Rightarrow> py_error + string list" where
  "json_strings [] = Inr []"
| "json_strings (JString s # xs) = map_sum id (Cons s) (json_strings xs)"
| "json_strings (_ # xs) = Inl TypeError"

text \<open>The strings \<^verbatim>\<open>','.join(id_list)\<close> iterates over: the items of a list (all
  strings, else \<open>TypeError\<close>), the characters of a string, the keys of a dict.\<close>

fun json_iter_strs :: "json \<Rightarrow> py_error + string list" where
  "json_iter_strs (JArray xs) = json_strings xs"
| "json_iter_strs (JString s) = Inr (map (\<lambda>c. [c]) s)"
| "json_iter_strs (JObject kvs) = Inr (map fst kvs)"
| "json_iter_strs _ = Inl TypeError"

text \<open>\<^verbatim>\<open>str(n)\<close> for the \<^verbatim>\<open>retmax\<close> parameter.\<close>

fun nat_str :: "nat \<Rightarrow> string" where
  "nat_str n = (if n < 10 then [char_of (48 + n)] else nat_str (n div 10) @ [char_of (48 + n mod 10)])"

section \<open>Articles\<close>

text \<open>The dict \<^verbatim>\<open>fetch_article_details\<close> builds per article. Fields taken from an
  element's \<^verbatim>\<open>.text\<close> are \<open>None\<close> when the element exists but has no text.\<close>

record article =
  title :: "string option"
  abstract :: "string option"
  pmid :: "string option"
  published :: "string option"
  authors :: "string list"
  source :: string
  url :: string

text \<open>Lines 541--545: \<^verbatim>\<open>LastName.text + " " + ForeName.text\<close> for every author with
  both children; \<open>None + str\<close> raises \<open>TypeError\<close>.\<close>

fun author_names :: "xml list \<Rightarrow> py_error + string list" where
  "author_names [] = Inr []"
| "author_names (a # as) =
     (case (find_child ''LastName'' a, find_child ''ForeName'' a) of
        (Some l, Some f) \<Rightarrow>
          (case (el_text l, el_text f) of
             (Some ls, Some fs) \<Rightarrow> map_sum id (Cons (ls @ '' '' @ fs)) (author_names as)
           | _ \<Rightarrow> Inl TypeError)
      | _ \<Rightarrow> author_names as)"

text \<open>Lines 537--554: one \<^verbatim>\<open>PubmedArticle\<close> element to its dict.\<close>

definition pubmed_url :: "xml option \<Rightarrow> string" where
  "pubmed_url pid = (case pid of None \<Rightarrow> ''No URL''
     | Some el \<Rightarrow> ''https://pubmed.ncbi.nlm.nih.gov/'' @ py_str (el_text el) @ ''/'')"

definition text_or :: "string \<Rightarrow> xml option \<Rightarrow> string option" where
  "text_or dflt el = (case el of None \<Rightarrow> Some dflt | Some e \<Rightarrow> el_text e)"

definition parse_article :: "xml \<Rightarrow> py_error + article" where
  "parse_article a =
     (let t = find_desc ''ArticleTitle'' a;
          ab = find_desc ''AbstractText'' a;
          pid = find_desc_attr ''ArticleId'' ''IdType'' ''pubmed'' a;
          pd = find_desc_child ''PubDate'' ''Year'' a
      in case author_names (findall_desc ''Author'' a) of
           Inl e \<Rightarrow> Inl e
         | Inr au \<Rightarrow> Inr \<lparr>title = text_or ''No title'' t, abstract = text_or ''No abstract'' ab,
                         pmid = text_or ''No ID'' pid, published = text_or ''No date'' pd,
                         authors = au, source = ''PubMed'', url = pubmed_url pid\<rparr>)"

text \<open>The loop of lines 536--554: the first exception ends the whole batch.\<close>

fun parse_articles :: "xml list \<Rightarrow> py_error + article list" where
  "parse_articles [] = Inr []"
| "parse_articles (a # as) =
     (case parse_article a of
        Inl e \<Rightarrow> Inl e
      | Inr x \<Rightarrow> map_sum id (Cons x) (parse_articles as))"

section \<open>The two requests\<close>

definition efetch_url :: "string \<Rightarrow> string list \<Rightarrow> string" where
  "efetch_url base ids = base @ ''efetch.fcgi?db=pubmed&id='' @ py_join '','' ids @ ''&retmode=xml''"

definition esearch_url :: "string \<Rightarrow> string \<Rightarrow> nat \<Rightarrow> string" where
  "esearch_url base query n =
     base @ ''esearch.fcgi?db=pubmed&term='' @ query @ ''&retmode=json&retmax='' @ nat_str n
       @ ''&sort=relevance''"

text \<open>\<^verbatim>\<open>fetch_article_details\<close>: no request for a falsy id list; the URL is built
  (and \<^verbatim>\<open>join\<close> may raise) before the request; a status other than 200 gives no
  articles; otherwise the XML is parsed and every \<^verbatim>\<open>PubmedArticle\<close> converted.\<close>

definition fetch_article_details ::
  "network \<Rightarrow> string \<Rightarrow> json \<Rightarrow> (py_error + article list) \<times> string list" where
  "fetch_article_details net base id_list =
     (if \<not> json_truthy id_list then (Inr [], [])
      else case json_iter_strs id_list of
        Inl e \<Rightarrow> (Inl e, [])
      | Inr ids \<Rightarrow>
          (let u = efetch_url base ids
           in (case net u of
                 Inl e \<Rightarrow> Inl e
               | Inr r \<Rightarrow>
                   if status_code r \<noteq> 200 then Inr []
                   else (case xml_of_body (body r) of
                           Inl e \<Rightarrow> Inl e
                         | Inr root \<Rightarrow> parse_articles (findall_desc ''PubmedArticle'' root)),
               [u])))"

text \<open>\<^verbatim>\<open>response.json().get('esearchresult', {}).get('idlist', [])\<close>.\<close>

definition esearch_ids :: "http_response \<Rightarrow> py_error + json" where
  "esearch_ids r =
     (case json_of_body (body r) of
        Inl e \<Rightarrow> Inl e
      | Inr j \<Rightarrow> (case py_get j ''esearchresult'' (JObject []) of
                   Inl e \<Rightarrow> Inl e
                 | Inr j2 \<Rightarrow> py_get j2 ''idlist'' (JArray [])))"

text \<open>One search request and the fetch of its ids (lines 500--506, and 511--517 for
  the broader query). A status other than 200 leaves the articles empty.\<close>

definition search_attempt ::
  "network \<Rightarrow> string \<Rightarrow> string \<Rightarrow> nat \<Rightarrow> (py_error + article list) \<times> string list" where
  "search_attempt net base query n =
     (let u = esearch_url base query n
      in case net u of
           Inl e \<Rightarrow> (Inl e, [u])
         | Inr r \<Rightarrow>
             if status_code r = 200 then
               (case esearch_ids r of
                  Inl e \<Rightarrow> (Inl e, [u])
                | Inr ids \<Rightarrow> (let (res, tr) = fetch_article_details net base ids in (res, u # tr)))
             else (Inr [], [u]))"

text \<open>\<^verbatim>\<open>search_ncbi\<close>: no request without keywords; the strict query (keywords joined
  by \<^verbatim>\<open>+\<close>) first; the broader one (joined by \<^verbatim>\<open>+OR+\<close>) only when the first gave no
  article.\<close>

definition search_ncbi ::
  "network \<Rightarrow> string \<Rightarrow> string list \<Rightarrow> nat \<Rightarrow> (py_error + article list) \<times> string list" where
  "search_ncbi net base keywords n =
     (if keywords = [] then (Inr [], [])
      else
        (let (r1, t1) = search_attempt net base (py_join ''+'' keywords) n
         in case r1 of
              Inl e \<Rightarrow> (Inl e, t1)
            | Inr arts \<Rightarrow>
                if arts \<noteq> [] then (Inr arts, t1)
                else (let (r2, t2) = search_attempt net base (py_join ''+OR+'' keywords) n
                      in (r2, t1 @ t2))))"

section \<open>Specification helpers and sample inputs\<close>

text \<open>An author entry on which line 542 raises: both name elements present, one without
  text.\<close>

definition author_name_missing :: "xml \<Rightarrow> bool" where
  "author_name_missing a =
     (case (find_child ''LastName'' a, find_child ''ForeName'' a) of
        (Some l, Some f) \<Rightarrow> el_text l = None \<or> el_text f = None
      | _ \<Rightarrow> False)"

text \<open>Sample inputs: a document whose second article has an author with an empty
  \<^verbatim>\<open><LastName/>\<close>; a search service that finds nothing; a network that is down.\<close>

definition doc_two :: xml where
  "doc_two = Elem ''PubmedArticleSet'' [] None
     [Elem ''PubmedArticle'' [] None
        [Elem ''ArticleTitle'' [] (Some ''T1'') [],
         Elem ''Author'' [] None [Elem ''LastName'' [] (Some ''Doe'') [], Elem ''ForeName'' [] (Some ''J'') []]],
      Elem ''PubmedArticle'' [] None
        [Elem ''ArticleTitle'' [] (Some ''T2'') [],
         Elem ''Author'' [] None [Elem ''LastName'' [] None [], Elem ''ForeName'' [] (Some ''A'') []]]]"

definition net_no_hits :: network where
  "net_no_hits u = Inr \<lparr>status_code = 200,
     body = Json_body (JObject [(''esearchresult'', JObject [(''idlist'', JArray [])])])\<rparr>"

definition net_down :: network where
  "net_down u = Inl RequestException"

text \<open>A service that answers every request with the given status and an empty body.\<close>

definition net_status :: "int \<Rightarrow> network" where
  "net_status c u = Inr \<lparr>status_code = c, body = Text_body []\<rparr>"

section \<open>Lemmas\<close>

lemma fetch_trace_len: "length (snd (fetch_article_details net base ids)) \<le> 1"
  by (simp add: fetch_article_details_def Let_def split: sum.split)

lemma fetch_trace_len_eq: "fetch_article_details net base ids = (r, tr) \<Longrightarrow> length tr \<le> 1"
  using fetch_trace_len [of net base ids] by simp

lemma search_attempt_trace:
  "snd (search_attempt net base q n) \<noteq> [] \<and>
   hd (snd (search_attempt net base q n)) = esearch_url base q n \<and>
   length (snd (search_attempt net base q n)) \<le> 2"
  by (auto simp: search_attempt_def Let_def split: sum.split prod.split dest: fetch_trace_len_eq)

lemma search_ncbi_trace_shape:
  assumes "keywords \<noteq> []"
  shows "snd (search_ncbi net base keywords n) =
           snd (search_attempt net base (py_join ''+'' keywords) n) @
           (if fst (search_attempt net base (py_join ''+'' keywords) n) = Inr []
            then snd (search_attempt net base (py_join ''+OR+'' keywords) n) else [])"
  using assms
  by (auto simp: search_ncbi_def Let_def split: sum.split prod.split)

lemma author_names_Cons_ok:
  "(\<exists>ns. author_names (a # as) = Inr ns) \<longleftrightarrow>
   \<not> author_name_missing a \<and> (\<exists>ns. author_names as = Inr ns)"
proof (cases "find_child ''LastName'' a")
  case None
  then show ?thesis by (simp add: author_name_missing_def)
next
  case (Some l)
  show ?thesis
  proof (cases "find_child ''ForeName'' a")
    case None
    with Some show ?thesis by (simp add: author_name_missing_def)
  next
    case (Some f)
    with \<open>find_child ''LastName'' a = Some l\<close> show ?thesis
      by (cases "el_text l"; cases "el_text f") (auto simp: author_name_missing_def)
  qed
qed

lemma author_names_ok:
  "(\<exists>ns. author_names as = Inr ns) \<longleftrightarrow> \<not> list_ex author_name_missing as"
  by (induction as) (simp_all add: author_names_Cons_ok del: author_names.simps(2))

lemma parse_article_ok:
  "(\<exists>x. parse_article a = Inr x) \<longleftrightarrow> \<not> list_ex author_name_missing (findall_desc ''Author'' a)"
  using author_names_ok [of "findall_desc ''Author'' a"]
  by (auto simp: parse_article_def Let_def split: sum.split)

lemma parse_articles_length: "parse_articles as = Inr arts \<Longrightarrow> length arts = length as"
  by (induction as arbitrary: arts) (auto split: sum.splits)

lemma parse_articles_ok:
  "(\<exists>arts. parse_articles as = Inr arts) \<longleftrightarrow>
   \<not> list_ex author_name_missing (concat (map (findall_desc ''Author'') as))"
proof (induction as)
  case Nil
  then show ?case by simp
next
  case (Cons a as)
  show ?case
    using Cons.IH parse_article_ok [of a] by (auto split: sum.split)
qed

lemma author_names_Inl: "author_names as = Inl e \<Longrightarrow> e = TypeError"
  by (induction as rule: author_names.induct) (auto split: option.splits prod.splits if_splits sum.splits)

lemma parse_article_Inl: "parse_article a = Inl e \<Longrightarrow> e = TypeError"
  by (auto simp: parse_article_def Let_def split: sum.splits dest: author_names_Inl)

lemma parse_articles_Inl: "parse_articles as = Inl e \<Longrightarrow> e = TypeError"
  by (induction as) (auto split: sum.splits dest: parse_article_Inl)

lemma find_desc_findall: "find_desc t e = (case findall_desc t e of [] \<Rightarrow> None | d # _ \<Rightarrow> Some d)"
proof -
  have "find P xs = (case filter P xs of [] \<Rightarrow> None | d # _ \<Rightarrow> Some d)" for P :: "xml \<Rightarrow> bool" and xs
    by (induction xs) auto
  then show ?thesis by (simp add: find_desc_def findall_desc_def)
qed

section \<open>Properties of the literature lookup\<close>

text \<open>C8. \<^verbatim>\<open>search_ncbi\<close> makes no request when there are no keywords, and otherwise
  between one and four (a search and a fetch, then at most the same again).\<close>

theorem search_requests_bounded:
  "length (snd (search_ncbi net base keywords n)) \<le> 4 \<and>
   (snd (search_ncbi net base keywords n) = [] \<longleftrightarrow> keywords = [])"
proof (cases "keywords = []")
  case True
  then show ?thesis by (simp add: search_ncbi_def)
next
  case False
  let ?a = "search_attempt net base (py_join ''+'' keywords) n"
  let ?b = "search_attempt net base (py_join ''+OR+'' keywords) n"
  have "length (snd ?a) \<le> 2" "length (snd ?b) \<le> 2" "snd ?a \<noteq> []"
    using search_attempt_trace by blast+
  with search_ncbi_trace_shape [OF False] False show ?thesis by auto
qed

text \<open>C9. With keywords, the first request is the strict search (keywords joined by
  \<^verbatim>\<open>+\<close>); requests after the strict attempt happen exactly when it produced no
  article, and they start with the broader search (keywords joined by \<^verbatim>\<open>+OR+\<close>).\<close>

theorem strict_query_first_fallback_only_when_empty:
  assumes "keywords \<noteq> []"
  shows "\<exists>t1 t2. snd (search_ncbi net base keywords n) = t1 @ t2 \<and>
     t1 \<noteq> [] \<and> hd t1 = esearch_url base (py_join ''+'' keywords) n \<and>
     (t2 \<noteq> [] \<longleftrightarrow> fst (search_attempt net base (py_join ''+'' keywords) n) = Inr []) \<and>
     (t2 = [] \<or> hd t2 = esearch_url base (py_join ''+OR+'' keywords) n)"
proof -
  let ?a = "search_attempt net base (py_join ''+'' keywords) n"
  let ?b = "search_attempt net base (py_join ''+OR+'' keywords) n"
  have a: "snd ?a \<noteq> []" "hd (snd ?a) = esearch_url base (py_join ''+'' keywords) n"
    using search_attempt_trace by blast+
  have b: "snd ?b \<noteq> []" "hd (snd ?b) = esearch_url base (py_join ''+OR+'' keywords) n"
    using search_attempt_trace by blast+
  show ?thesis
    by (rule exI [of _ "snd ?a"], rule exI [of _ "if fst ?a = Inr [] then snd ?b else []"])
       (use a b search_ncbi_trace_shape [OF assms] in auto)
qed

theorem strict_query_first_fallback_only_when_empty_witness:
  "[''a'', ''b''] \<noteq> [] \<and>
   (\<exists>t1 t2. snd (search_ncbi net_no_hits ''B/'' [''a'', ''b''] 10) = t1 @ t2 \<and>
     t1 \<noteq> [] \<and> hd t1 = esearch_url ''B/'' (py_join ''+'' [''a'', ''b'']) 10 \<and>
     (t2 \<noteq> [] \<longleftrightarrow> fst (search_attempt net_no_hits ''B/'' (py_join ''+'' [''a'', ''b'']) 10) = Inr []) \<and>
     (t2 = [] \<or> hd t2 = esearch_url ''B/'' (py_join ''+OR+'' [''a'', ''b'']) 10))"
  using strict_query_first_fallback_only_when_empty [of "[''a'', ''b'']" net_no_hits "''B/''" 10]
  by simp

text \<open>C10. An exception of \<^verbatim>\<open>requests.get\<close> is not caught: it leaves
  \<^verbatim>\<open>search_ncbi\<close> (and the request handler) instead of degrading to no results.\<close>

theorem request_exception_escapes:
  assumes "keywords \<noteq> []" and "net (esearch_url base (py_join ''+'' keywords) n) = Inl RequestException"
  shows "fst (search_ncbi net base keywords n) = Inl RequestException"
  using assms by (simp add: search_ncbi_def search_attempt_def Let_def)

theorem request_exception_escapes_witness:
  "[''a''] \<noteq> [] \<and> net_down (esearch_url ''B/'' (py_join ''+'' [''a'']) 10) = Inl RequestException \<and>
   fst (search_ncbi net_down ''B/'' [''a''] 10) = Inl RequestException"
  using request_exception_escapes [of "[''a'']" net_down "''B/''" 10] by (simp add: net_down_def)

text \<open>C11. When the fetched document has an author entry with a name element without
  text, in any \<^verbatim>\<open>PubmedArticle\<close>, \<^verbatim>\<open>fetch_article_details\<close> raises \<open>TypeError\<close>
  after its one request: the well-formed articles of the batch are lost with it.\<close>

theorem malformed_author_aborts_batch:
  assumes "json_truthy id_list" and "json_iter_strs id_list = Inr ids"
    and "net (efetch_url base ids) = Inr r" and "status_code r = 200" and "body r = Xml_body root"
    and "list_ex author_name_missing (concat (map (findall_desc ''Author'') (findall_desc ''PubmedArticle'' root)))"
  shows "fetch_article_details net base id_list = (Inl TypeError, [efetch_url base ids])"
proof -
  from assms(6) parse_articles_ok [of "findall_desc ''PubmedArticle'' root"] obtain e where
    "parse_articles (findall_desc ''PubmedArticle'' root) = Inl e"
    by (cases "parse_articles (findall_desc ''PubmedArticle'' root)") auto
  moreover from this have "e = TypeError" by (rule parse_articles_Inl)
  ultimately show ?thesis using assms(1-5) by (simp add: fetch_article_details_def Let_def)
qed

theorem malformed_author_aborts_batch_witness:
  "json_truthy (JArray [JString ''1'', JString ''2'']) \<and>
   json_iter_strs (JArray [JString ''1'', JString ''2'']) = Inr [''1'', ''2''] \<and>
   list_ex author_name_missing (concat (map (findall_desc ''Author'') (findall_desc ''PubmedArticle'' doc_two))) \<and>
   fetch_article_details (\<lambda>u. Inr \<lparr>status_code = 200, body = Xml_body doc_two\<rparr>) ''B/''
      (JArray [JString ''1'', JString ''2''])
   = (Inl TypeError, [efetch_url ''B/'' [''1'', ''2'']])"
proof -
  have t: "json_truthy (JArray [JString ''1'', JString ''2''])" by simp
  have i: "json_iter_strs (JArray [JString ''1'', JString ''2'']) = Inr [''1'', ''2'']" by simp
  have n: "(\<lambda>u. Inr \<lparr>status_code = 200, body = Xml_body doc_two\<rparr>) (efetch_url ''B/'' [''1'', ''2''])
           = (Inr \<lparr>status_code = 200, body = Xml_body doc_two\<rparr> :: py_error + http_response)" by simp
  have m: "list_ex author_name_missing (concat (map (findall_desc ''Author'') (findall_desc ''PubmedArticle'' doc_two)))"
    by (simp add: doc_two_def findall_desc_def author_name_missing_def find_child_def)
  from malformed_author_aborts_batch [OF t i n _ _ m] t i m show ?thesis by simp
qed

text \<open>C12. The conversion of the \<^verbatim>\<open>PubmedArticle\<close> elements succeeds, with exactly one
  article per element, if and only if no author entry has a name element without text.\<close>

theorem parse_articles_total:
  "(\<exists>arts. parse_articles as = Inr arts \<and> length arts = length as) \<longleftrightarrow>
   \<not> list_ex author_name_missing (concat (map (findall_desc ''Author'') as))"
  using parse_articles_ok [of as] parse_articles_length [of as] by blast

text \<open>C13. With a single keyword the broader query is the strict one: when the strict
  attempt finds nothing, the fallback repeats exactly the same requests.\<close>

theorem single_keyword_fallback_repeats_request:
  assumes "fst (search_attempt net base k n) = Inr []"
  shows "snd (search_ncbi net base [k] n) = snd (search_attempt net base k n) @ snd (search_attempt net base k n)"
  using search_ncbi_trace_shape [of "[k]" net base n] assms by simp

theorem single_keyword_fallback_repeats_request_witness:
  "fst (search_attempt net_no_hits ''B/'' ''a'' 10) = Inr [] \<and>
   snd (search_ncbi net_no_hits ''B/'' [''a''] 10)
     = [esearch_url ''B/'' ''a'' 10, esearch_url ''B/'' ''a'' 10]"
proof -
  have a: "search_attempt net_no_hits ''B/'' ''a'' 10 = (Inr [], [esearch_url ''B/'' ''a'' 10])"
    by (simp add: search_attempt_def net_no_hits_def esearch_ids_def fetch_article_details_def)
  from single_keyword_fallback_repeats_request [of net_no_hits "''B/''" "''a''" 10] a
  show ?thesis by simp
qed

text \<open>C27. A structured abstract (several \<^verbatim>\<open>AbstractText\<close> sections, as PubMed gives
  for Background/Methods/Results/Conclusions) is reduced to its first section: for every
  article, the abstract is the text of the first \<^verbatim>\<open>AbstractText\<close> element in document
  order, whatever the later sections hold.\<close>

theorem structured_abstract_first_section_only:
  assumes "parse_article a = Inr x" and "findall_desc ''AbstractText'' a = s # ss"
  shows "abstract x = el_text s"
  using assms by (auto simp: parse_article_def Let_def find_desc_findall text_or_def split: sum.splits)

theorem structured_abstract_first_section_only_witness:
  "parse_article (Elem ''PubmedArticle'' [] None [Elem ''Abstract'' [] None
       [Elem ''AbstractText'' [] (Some ''Background'') [], Elem ''AbstractText'' [] (Some ''Results'') []]])
     = Inr \<lparr>title = Some ''No title'', abstract = Some ''Background'', pmid = Some ''No ID'',
            published = Some ''No date'', authors = [], source = ''PubMed'', url = ''No URL''\<rparr> \<and>
   findall_desc ''AbstractText'' (Elem ''PubmedArticle'' [] None [Elem ''Abstract'' [] None
       [Elem ''AbstractText'' [] (Some ''Background'') [], Elem ''AbstractText'' [] (Some ''Results'') []]])
     = [Elem ''AbstractText'' [] (Some ''Background'') [], Elem ''AbstractText'' [] (Some ''Results'') []] \<and>
   abstract \<lparr>title = Some ''No title'', abstract = Some ''Background'', pmid = Some ''No ID'',
            published = Some ''No date'', authors = [], source = ''PubMed'', url = ''No URL''\<rparr>
     = el_text (Elem ''AbstractText'' [] (Some ''Background'') [])"
proof -
  have p: "parse_article (Elem ''PubmedArticle'' [] None [Elem ''Abstract'' [] None
       [Elem ''AbstractText'' [] (Some ''Background'') [], Elem ''AbstractText'' [] (Some ''Results'') []]])
     = Inr \<lparr>title = Some ''No title'', abstract = Some ''Background'', pmid = Some ''No ID'',
            published = Some ''No date'', authors = [], source = ''PubMed'', url = ''No URL''\<rparr>"
    by (simp add: parse_article_def find_desc_def findall_desc_def find_desc_attr_def find_desc_child_def
        Let_def text_or_def pubmed_url_def)
  have f: "findall_desc ''AbstractText'' (Elem ''PubmedArticle'' [] None [Elem ''Abstract'' [] None
       [Elem ''AbstractText'' [] (Some ''Background'') [], Elem ''AbstractText'' [] (Some ''Results'') []]])
     = [Elem ''AbstractText'' [] (Some ''Background'') [], Elem ''AbstractText'' [] (Some ''Results'') []]"
    by (simp add: findall_desc_def)
  from structured_abstract_first_section_only [OF p f] p f show ?thesis by simp
qed

text \<open>C38. A non-200 answer degrades instead of raising, as the spec requires: when every
  response has a status other than 200, the search makes the strict request, then the
  broader one, and returns no article.\<close>

theorem non_200_search_degrades:
  assumes "keywords \<noteq> []" and "\<And>u. \<exists>r. net u = Inr r \<and> status_code r \<noteq> 200"
  shows "search_ncbi net base keywords n =
           (Inr [], [esearch_url base (py_join ''+'' keywords) n, esearch_url base (py_join ''+OR+'' keywords) n])"
proof -
  have a: "search_attempt net base q n = (Inr [], [esearch_url base q n])" for q
  proof -
    from assms(2) obtain r where "net (esearch_url base q n) = Inr r" "status_code r \<noteq> 200" by blast
    then show ?thesis by (simp add: search_attempt_def)
  qed
  show ?thesis using assms(1) by (simp add: search_ncbi_def a)
qed

theorem non_200_search_degrades_witness:
  "[''a''] \<noteq> [] \<and> (\<forall>u. \<exists>r. net_status 503 u = Inr r \<and> status_code r \<noteq> 200) \<and>
   search_ncbi (net_status 503) ''B/'' [''a''] 10 =
     (Inr [], [esearch_url ''B/'' (py_join ''+'' [''a'']) 10, esearch_url ''B/'' (py_join ''+OR+'' [''a'']) 10])"
proof -
  have k: "[''a''] \<noteq> []" by simp
  have n: "\<exists>r. net_status 503 u = Inr r \<and> status_code r \<noteq> 200" for u by (simp add: net_status_def)
  note c = non_200_search_degrades [where net = "net_status 503" and base = "''B/''" and n = 10, OF k n]
  from k n c show ?thesis by blast
qed

end
