(* ===== verification/Context.thy ===== *)
theory Context
  imports Literature
begin

text \<open>
  The context assembler of \<^verbatim>\<open>src/app.py\<close>: the context block the request handler
  builds from the fetched articles (lines 644--648: eligible articles only, one fixed
  template per article, blocks joined by a blank line, a fixed sentence when there is
  none), and what \<^verbatim>\<open>generate_prompt\<close> does with it (lines 383--404: split it at blank
  lines, sort the blocks by \<^verbatim>\<open>safe_sort_key\<close> with \<^verbatim>\<open>sorted(..., reverse=True)\<close>,
  join them again). Python's \<^verbatim>\<open>sorted\<close> with \<^verbatim>\<open>reverse=True\<close> is the stable sort in
  non-increasing key order (equal keys keep their input order); it is modelled by
  insertion, \<open>py_sorted_desc\<close>. Keys are strings and compare as strings. The lemmas
  show the sort correct and stable, relate the sorted context to the articles sorted by
  their publication year (a refinement that holds when no field contains a blank line),
  and pin down what happens when a field does, when a year is not four digits long, or
  when a title starts with inline markup.
\<close>

section \<open>The context block\<close>

text \<open>The f-string of line 645.\<close>

definition format_article :: "article \<Rightarrow> string" where
  "format_article a =
     ''Title: '' @ py_str (title a) @ py_nl @
     ''Authors: '' @ py_join '', '' (authors a) @ py_nl @
     ''Published: '' @ py_str (published a) @ py_nl @
     ''Abstract: '' @ py_str (abstract a)"

text \<open>The filter of line 647: title, abstract and authors truthy.\<close>

definition eligible :: "article \<Rightarrow> bool" where
  "eligible a = (py_truthy (title a) \<and> py_truthy (abstract a) \<and> authors a \<noteq> [])"

definition no_articles_msg :: string where
  "no_articles_msg = ''No specific articles found. Please provide a general response based on your knowledge.''"

abbreviation blank_line :: string where
  "blank_line \<equiv> py_nl @ py_nl"

text \<open>Lines 644--648: \<^verbatim>\<open>"\n\n".join(...) or "No specific articles found..."\<close>.\<close>

definition build_context :: "article list \<Rightarrow> string" where
  "build_context arts =
     (let c = py_join blank_line (map format_article (filter eligible arts))
      in if c = [] then no_articles_msg else c)"

section \<open>The sort of generate_prompt\<close>

text \<open>\<^verbatim>\<open>safe_sort_key\<close> (lines 387--398): the text after the first
  \<^verbatim>\<open>"Published: "\<close> up to the next line break if it is all digits, else \<^verbatim>\<open>'0'\<close>.
  Nothing in the \<^verbatim>\<open>try\<close> block can raise (the split always yields a first piece), so
  the \<^verbatim>\<open>except\<close> branch is dead.\<close>

definition safe_sort_key :: "string \<Rightarrow> string" where
  "safe_sort_key art =
     (let parts = py_split ''Published: '' art
      in if 1 < length parts
         then (let date_part = hd (py_split py_nl (parts ! 1))
               in if py_isdigit date_part then date_part else ''0'')
         else ''0'')"

text \<open>\<^verbatim>\<open>sorted(xs, key=f, reverse=True)\<close>: each element, from the last to the first, is
  inserted before the first element whose key is not greater.\<close>

fun insort_desc :: "('a \<Rightarrow> 'k::linorder) \<Rightarrow> 'a \<Rightarrow> 'a list \<Rightarrow> 'a list" where
  "insort_desc f x [] = [x]"
| "insort_desc f x (y # ys) = (if f y \<le> f x then x # y # ys else y # insort_desc f x ys)"

definition py_sorted_desc :: "('a \<Rightarrow> 'k::linorder) \<Rightarrow> 'a list \<Rightarrow> 'a list" where
  "py_sorted_desc f xs = foldr (insort_desc f) xs []"

text \<open>Lines 385--404: split at blank lines, sort, join.\<close>

definition sort_context :: "string \<Rightarrow> string" where
  "sort_context context =
     py_join blank_line (py_sorted_desc safe_sort_key (py_split blank_line context))"

section \<open>Specification of the assembled context\<close>

text \<open>The part of the block before its \<^verbatim>\<open>Published: \<close> line; the key the sort should
  use, read from the article itself; and the condition under which the text-level sort
  sees the article structure: no blank line inside the block (nor one formed with the
  separator that follows it), the template's \<^verbatim>\<open>Published: \<close> the first one, and a
  publication field on one line.\<close>

definition article_header :: "article \<Rightarrow> string" where
  "article_header a = ''Title: '' @ py_str (title a) @ py_nl @ ''Authors: '' @ py_join '', '' (authors a) @ py_nl"

definition year_key :: "article \<Rightarrow> string" where
  "year_key a = (let p = py_str (published a) in if py_isdigit p then p else ''0'')"

definition block_ok :: "article \<Rightarrow> bool" where
  "block_ok a =
     (\<not> py_contains blank_line (format_article a @ py_nl) \<and>
      \<not> py_contains ''Published: '' (article_header a @ butlast ''Published: '') \<and>
      \<not> py_contains ''Published: '' (py_str (published a)) \<and>
      CHR ''\<newline>'' \<notin> set (py_str (published a)))"


text \<open>Sample blocks and articles.\<close>

text \<open>A PubMed record whose title starts with inline markup
  (\<^verbatim>\<open><ArticleTitle><i>u</i> ...</ArticleTitle>\<close>): the element has no text before its
  first child.\<close>

definition title_with_markup :: "string \<Rightarrow> xml" where
  "title_with_markup u = Elem ''PubmedArticle'' [] None
     [Elem ''ArticleTitle'' [] None [Elem ''i'' [] (Some u) []],
      Elem ''AbstractText'' [] (Some ''A'') [],
      Elem ''Author'' [] None [Elem ''LastName'' [] (Some ''Doe'') [], Elem ''ForeName'' [] (Some ''J'') []]]"

definition sample_block :: "string \<Rightarrow> string \<Rightarrow> string \<Rightarrow> string" where
  "sample_block t p ab =
     ''Title: '' @ t @ py_nl @ ''Authors: X Y'' @ py_nl @ ''Published: '' @ p @ py_nl @ ''Abstract: '' @ ab"

definition sample_block_nodate :: string where
  "sample_block_nodate = ''Title: D'' @ py_nl @ ''Authors: X Y'' @ py_nl @ ''Abstract: z''"

definition sample_article :: "string \<Rightarrow> string \<Rightarrow> article" where
  "sample_article t y = \<lparr>title = Some t, abstract = Some ''z'', pmid = Some ''1'', published = Some y,
     authors = [''X Y''], source = ''PubMed'', url = ''https://pubmed.ncbi.nlm.nih.gov/1/''\<rparr>"

section \<open>Lemmas\<close>

lemma mset_insort_desc: "mset (insort_desc f x xs) = add_mset x (mset xs)"
  by (induction xs) auto

lemma set_insort_desc: "set (insort_desc f x xs) = insert x (set xs)"
  by (metis mset_insort_desc set_mset_add_mset_insert set_mset_mset)

lemma mset_py_sorted_desc: "mset (py_sorted_desc f xs) = mset xs"
  by (induction xs) (simp_all add: py_sorted_desc_def mset_insort_desc)

lemma sorted_insort_desc:
  "sorted_wrt (\<lambda>a b. f b \<le> f a) xs \<Longrightarrow> sorted_wrt (\<lambda>a b. f b \<le> f a) (insort_desc f x xs)"
  by (induction xs) (auto simp: set_insort_desc)

lemma sorted_py_sorted_desc: "sorted_wrt (\<lambda>a b. f b \<le> f a) (py_sorted_desc f xs)"
  by (induction xs) (simp_all add: py_sorted_desc_def sorted_insort_desc)

lemma filter_insort_desc:
  "filter (\<lambda>y. f y = k) (insort_desc f x xs)
     = (if f x = k then x # filter (\<lambda>y. f y = k) xs else filter (\<lambda>y. f y = k) xs)"
  by (induction xs) auto

lemma filter_py_sorted_desc:
  "filter (\<lambda>y. f y = k) (py_sorted_desc f xs) = filter (\<lambda>y. f y = k) xs"
  by (induction xs) (simp_all add: py_sorted_desc_def filter_insort_desc)

lemma insort_desc_map:
  "insort_desc g (h x) (map h ys) = map h (insort_desc (\<lambda>y. g (h y)) x ys)"
  by (induction ys) auto

lemma py_sorted_desc_map: "py_sorted_desc g (map h xs) = map h (py_sorted_desc (\<lambda>y. g (h y)) xs)"
  by (induction xs) (simp_all add: py_sorted_desc_def insort_desc_map)

lemma insort_desc_cong:
  "list_all (\<lambda>y. f y = g y) (x # ys) \<Longrightarrow> insort_desc f x ys = insort_desc g x ys"
  by (induction ys) auto

lemma py_sorted_desc_cong:
  "list_all (\<lambda>y. f y = g y) xs \<Longrightarrow> py_sorted_desc f xs = py_sorted_desc g xs"
proof (induction xs)
  case Nil
  then show ?case by (simp add: py_sorted_desc_def)
next
  case (Cons x xs)
  have "list_all (\<lambda>y. f y = g y) (x # py_sorted_desc g xs)"
    using Cons.prems by (simp add: list_all_iff mset_py_sorted_desc flip: set_mset_mset)
  then show ?case using Cons by (simp add: py_sorted_desc_def insort_desc_cong)
qed

lemma format_article_parts:
  "format_article a = article_header a @ ''Published: '' @
     py_str (published a) @ CHR ''\<newline>'' # ''Abstract: '' @ py_str (abstract a)"
  by (simp add: format_article_def article_header_def)

lemma safe_sort_key_format:
  assumes "block_ok a"
  shows "safe_sort_key (format_article a) = year_key a"
proof -
  let ?P = "article_header a" and ?pub = "py_str (published a)"
  let ?R = "''Abstract: '' @ py_str (abstract a)"
  have ok: "\<not> py_contains ''Published: '' (?P @ butlast ''Published: '')"
    "\<not> py_contains ''Published: '' ?pub" "CHR ''\<newline>'' \<notin> set ?pub"
    using assms by (simp_all add: block_ok_def)
  have parts: "py_split ''Published: '' (format_article a)
      = ?P # py_split ''Published: '' (?pub @ CHR ''\<newline>'' # ?R)"
    unfolding format_article_parts by (rule py_split_sep_block) (use ok in simp_all)
  obtain rest where rest: "hd (py_split ''Published: '' (?pub @ CHR ''\<newline>'' # ?R))
      = ?pub @ CHR ''\<newline>'' # rest"
    using split_acc_first_piece [of "CHR ''\<newline>''" "''Published: ''" ?pub "[]" ?R] ok(2)
    by (auto simp: py_split_def)
  have "py_split py_nl (?pub @ CHR ''\<newline>'' # rest) = ?pub # py_split py_nl rest"
    using py_split_sep_block [of py_nl ?pub rest] ok(3) by (simp add: py_contains_single)
  then have d: "hd (py_split py_nl (?pub @ CHR ''\<newline>'' # rest)) = ?pub" by simp
  have p1: "py_split ''Published: '' (format_article a) ! 1 = ?pub @ CHR ''\<newline>'' # rest"
    using parts rest by (simp add: hd_conv_nth)
  have len: "1 < length (py_split ''Published: '' (format_article a))"
    using parts by (simp add: Suc_le_eq)
  show ?thesis
    unfolding safe_sort_key_def Let_def using len p1 d by (simp add: year_key_def Let_def)
qed

lemma format_article_nonempty [simp]: "format_article a \<noteq> []"
  by (simp add: format_article_def)

lemma py_join_nonempty: "xs \<noteq> [] \<Longrightarrow> list_all (\<lambda>x. x \<noteq> []) xs \<Longrightarrow> py_join sep xs \<noteq> []"
  by (induction xs) (auto simp: py_join_Cons)

lemma build_context_blocks:
  assumes "filter eligible arts \<noteq> []"
  shows "build_context arts = py_join blank_line (map format_article (filter eligible arts))"
  using assms py_join_nonempty [of "map format_article (filter eligible arts)" blank_line]
  by (simp add: build_context_def list_all_iff)

lemma build_context_head:
  "filter eligible arts \<noteq> [] \<Longrightarrow> hd (build_context arts) = CHR ''T''"
  by (cases "filter eligible arts") (simp_all add: build_context_blocks py_join_Cons format_article_def)

lemma sort_context_build_context:
  assumes "filter eligible arts \<noteq> []" and "list_all block_ok (filter eligible arts)"
  shows "sort_context (build_context arts)
           = py_join blank_line (map format_article (py_sorted_desc year_key (filter eligible arts)))"
proof -
  let ?E = "filter eligible arts"
  have blocks: "py_split blank_line (build_context arts) = map format_article ?E"
    using assms py_split_py_join [of blank_line "map format_article ?E"]
    by (simp add: build_context_blocks list_all_iff block_ok_def)
  have keys: "list_all (\<lambda>a. safe_sort_key (format_article a) = year_key a) ?E"
    using assms(2) by (simp add: list_all_iff safe_sort_key_format)
  have "sort_context (build_context arts)
      = py_join blank_line (py_sorted_desc safe_sort_key (map format_article ?E))"
    unfolding sort_context_def blocks ..
  also have "\<dots> = py_join blank_line (map format_article (py_sorted_desc year_key ?E))"
    unfolding py_sorted_desc_map py_sorted_desc_cong [OF keys] ..
  finally show ?thesis .
qed

lemma sample_articles_eligible:
  "filter eligible [sample_article ''A'' ''2019'', sample_article ''B'' ''2023'']
     = [sample_article ''A'' ''2019'', sample_article ''B'' ''2023'']"
  by (simp add: eligible_def sample_article_def)

lemma sample_articles_block_ok:
  "list_all block_ok [sample_article ''A'' ''2019'', sample_article ''B'' ''2023'']"
  by (simp add: block_ok_def format_article_def article_header_def sample_article_def)

lemma parse_title_with_markup:
  "parse_article (title_with_markup u) = Inr \<lparr>title = None, abstract = Some ''A'', pmid = Some ''No ID'',
     published = Some ''No date'', authors = [''Doe J''], source = ''PubMed'', url = ''No URL''\<rparr>"
  by (simp add: parse_article_def title_with_markup_def find_desc_def findall_desc_def find_child_def
      find_desc_attr_def find_desc_child_def Let_def text_or_def pubmed_url_def)

section \<open>Properties of the context assembler\<close>

text \<open>The model of \<^verbatim>\<open>sorted(reverse=True)\<close> is a stable sort in non-increasing key
  order: a permutation, sorted, keeping the input order of equal keys.\<close>

lemma py_sorted_desc_correct:
  "mset (py_sorted_desc f xs) = mset xs \<and>
   sorted_wrt (\<lambda>a b. f b \<le> f a) (py_sorted_desc f xs) \<and>
   (\<forall>k. filter (\<lambda>y. f y = k) (py_sorted_desc f xs) = filter (\<lambda>y. f y = k) xs)"
  by (simp add: mset_py_sorted_desc sorted_py_sorted_desc filter_py_sorted_desc)

text \<open>C14. Refinement: when no eligible article has a blank line in its block or a
  stray \<^verbatim>\<open>Published: \<close> before its date, the sorted context is the eligible articles,
  stable-sorted by the year key read from their \<^verbatim>\<open>published\<close> field, formatted and
  joined: the text-level split/sort/join works on whole articles.\<close>

theorem sort_context_refines:
  assumes "filter eligible arts \<noteq> []" and "list_all block_ok (filter eligible arts)"
  shows "sort_context (build_context arts)
           = py_join blank_line (map format_article (py_sorted_desc year_key (filter eligible arts)))"
  using sort_context_build_context [OF assms] .

theorem sort_context_refines_witness:
  "filter eligible [sample_article ''A'' ''2019'', sample_article ''B'' ''2023''] \<noteq> [] \<and>
   list_all block_ok (filter eligible [sample_article ''A'' ''2019'', sample_article ''B'' ''2023'']) \<and>
   sort_context (build_context [sample_article ''A'' ''2019'', sample_article ''B'' ''2023''])
     = py_join blank_line (map format_article [sample_article ''B'' ''2023'', sample_article ''A'' ''2019''])"
proof -
  have s: "py_sorted_desc year_key [sample_article ''A'' ''2019'', sample_article ''B'' ''2023'']
      = [sample_article ''B'' ''2023'', sample_article ''A'' ''2019'']"
    by (simp add: py_sorted_desc_def year_key_def sample_article_def py_str_simps)
  from sort_context_refines [of "[sample_article ''A'' ''2019'', sample_article ''B'' ''2023'']"]
    sample_articles_eligible sample_articles_block_ok s
  show ?thesis by simp
qed

text \<open>C15. The context is the fixed "no specific articles" sentence exactly when no
  article is eligible.\<close>

theorem build_context_sentinel:
  "build_context arts = no_articles_msg \<longleftrightarrow> filter eligible arts = []"
proof
  assume eq: "build_context arts = no_articles_msg"
  show "filter eligible arts = []"
  proof (rule ccontr)
    assume "filter eligible arts \<noteq> []"
    then have "hd (build_context arts) = CHR ''T''" by (rule build_context_head)
    with eq show False by (simp add: no_articles_msg_def)
  qed
next
  assume "filter eligible arts = []"
  then show "build_context arts = no_articles_msg" by (simp add: build_context_def)
qed

text \<open>C16. Keys compare as strings, not as numbers: of two eligible articles whose years
  are digit strings, the one whose year is the greater string comes first, whatever the
  numbers, so a block published in 999 is put before one published in 2023, although the
  prompt announces newest first.\<close>

theorem year_keys_compare_as_strings:
  assumes "eligible a" and "eligible b" and "block_ok a" and "block_ok b"
    and "published a = Some ya" and "published b = Some yb" and "py_isdigit ya" and "py_isdigit yb"
    and "yb < ya"
  shows "sort_context (build_context [b, a]) = py_join blank_line [format_article a, format_article b]"
proof -
  have k: "year_key a = ya" "year_key b = yb" using assms(5-8) by (simp_all add: year_key_def)
  have "py_sorted_desc year_key [b, a] = [a, b]"
    using assms(9) by (simp add: py_sorted_desc_def k)
  with sort_context_build_context [of "[b, a]"] assms(1-4) show ?thesis by simp
qed

theorem year_keys_compare_as_strings_witness:
  "eligible (sample_article ''B'' ''999'') \<and> eligible (sample_article ''A'' ''2023'') \<and>
   block_ok (sample_article ''B'' ''999'') \<and> block_ok (sample_article ''A'' ''2023'') \<and>
   published (sample_article ''B'' ''999'') = Some ''999'' \<and> published (sample_article ''A'' ''2023'') = Some ''2023'' \<and>
   py_isdigit ''999'' \<and> py_isdigit ''2023'' \<and> ''2023'' < ''999'' \<and>
   sort_context (build_context [sample_article ''A'' ''2023'', sample_article ''B'' ''999''])
     = py_join blank_line [format_article (sample_article ''B'' ''999''), format_article (sample_article ''A'' ''2023'')]"
proof -
  have e: "eligible (sample_article ''B'' ''999'')" "eligible (sample_article ''A'' ''2023'')"
    by (simp_all add: eligible_def sample_article_def)
  have b: "block_ok (sample_article ''B'' ''999'')" "block_ok (sample_article ''A'' ''2023'')"
    by (simp_all add: block_ok_def sample_article_def format_article_def article_header_def)
  have p: "published (sample_article ''B'' ''999'') = Some ''999''"
    "published (sample_article ''A'' ''2023'') = Some ''2023''" by (simp_all add: sample_article_def)
  have d: "py_isdigit ''999''" "py_isdigit ''2023''" by (simp_all add: py_isdigit_def)
  have l: "''2023'' < ''999''" by simp
  from year_keys_compare_as_strings [OF e b p d l] e b p d l show ?thesis by simp
qed

text \<open>An example of an abstract with a blank line being cut in two by the split: its tail
  becomes a block of its own with key \<^verbatim>\<open>'0'\<close>, and the sort moves an older article
  between the article and the tail of its abstract.\<close>

lemma blank_line_in_abstract_detaches_tail:
  "sort_context (py_join blank_line
      [sample_block ''A'' ''2019'' (''x'' @ blank_line @ ''y''), sample_block ''B'' ''2018'' ''z''])
   = py_join blank_line [sample_block ''A'' ''2019'' ''x'', sample_block ''B'' ''2018'' ''z'', ''y'']"
  by (simp add: sort_context_def sample_block_def safe_sort_key_def py_sorted_desc_def py_str_simps)

text \<open>C28. A title that starts with inline markup is read as \<open>None\<close>
  (ElementTree's \<^verbatim>\<open>.text\<close> is the text before the first child): for every article
  whose first \<^verbatim>\<open>ArticleTitle\<close> element has no text, the parsed article has no title and
  is left out of the context, with its abstract and authors.\<close>

theorem title_markup_drops_article:
  assumes "parse_article a = Inr x" and "find_desc ''ArticleTitle'' a = Some t" and "el_text t = None"
  shows "title x = None \<and> \<not> eligible x"
  using assms by (auto simp: parse_article_def Let_def text_or_def eligible_def split: sum.splits)

theorem title_markup_drops_article_witness:
  "parse_article (title_with_markup ''In vitro'') = Inr \<lparr>title = None, abstract = Some ''A'', pmid = Some ''No ID'',
     published = Some ''No date'', authors = [''Doe J''], source = ''PubMed'', url = ''No URL''\<rparr> \<and>
   find_desc ''ArticleTitle'' (title_with_markup ''In vitro'') = Some (Elem ''ArticleTitle'' [] None [Elem ''i'' [] (Some ''In vitro'') []]) \<and>
   el_text (Elem ''ArticleTitle'' [] None [Elem ''i'' [] (Some ''In vitro'') []]) = None \<and>
   \<not> eligible \<lparr>title = None, abstract = Some ''A'', pmid = Some ''No ID'',
     published = Some ''No date'', authors = [''Doe J''], source = ''PubMed'', url = ''No URL''\<rparr>"
proof -
  have p: "parse_article (title_with_markup ''In vitro'') = Inr \<lparr>title = None, abstract = Some ''A'', pmid = Some ''No ID'',
     published = Some ''No date'', authors = [''Doe J''], source = ''PubMed'', url = ''No URL''\<rparr>"
    by (rule parse_title_with_markup)
  have f: "find_desc ''ArticleTitle'' (title_with_markup ''In vitro'')
      = Some (Elem ''ArticleTitle'' [] None [Elem ''i'' [] (Some ''In vitro'') []])"
    by (simp add: title_with_markup_def find_desc_def)
  have t: "el_text (Elem ''ArticleTitle'' [] None [Elem ''i'' [] (Some ''In vitro'') []]) = None" by simp
  from title_markup_drops_article [OF p f t] p f t show ?thesis by simp
qed

end
