(* ===== verification/Pipeline.thy ===== *)
theory Pipeline
  imports Turns Context
begin

text \<open>
  The request pipeline of \<^verbatim>\<open>src/app.py\<close>: \<^verbatim>\<open>optimize_question\<close> and
  \<^verbatim>\<open>extract_keywords\<close> (lines 343--372), \<^verbatim>\<open>generate_response\<close> with
  \<^verbatim>\<open>generate_prompt\<close> (lines 374--489), and the request handler at the end of the
  script (lines 615--664). The assistant is an environment \<open>assistant_env\<close>: for a
  thread history it gives the answers of the successive \<^verbatim>\<open>runs.list\<close> calls while the
  script waits to add a message, the events of the run started on that history, and the
  status the run ends in. One \<open>turn\<close> is \<^verbatim>\<open>add_message_to_thread\<close> followed by a
  streamed run (theory Turns); a turn that waits forever is \<open>None\<close>, and so is every
  function that makes it. The prompt templates are the source's literal texts, with their
  holes as parameters.
\<close>

section \<open>The assistant environment and one turn\<close>

record assistant_env =
  listings :: "(role \<times> string) list \<Rightarrow> nat \<Rightarrow> run_status list"
  reply :: "(role \<times> string) list \<Rightarrow> stream_event list"
  outcome :: "(role \<times> string) list \<Rightarrow> run_status"

text \<open>Lines 347--348 (and 363--364, 455--465, 476--486): append the task as a user
  message once no run is active, then stream a run on the thread.\<close>

definition turn ::
  "assistant_env \<Rightarrow> thread \<Rightarrow> string \<Rightarrow> string list option \<Rightarrow> (string \<times> thread) option" where
  "turn env th task ph =
     (case add_message_to_thread (listings env (messages th)) th task User of
        None \<Rightarrow> None
      | Some (k, th1) \<Rightarrow>
          Some (run_assistant th1 ph (reply env (messages th1)) (outcome env (messages th1))))"

section \<open>Query distillation\<close>

definition opt_task :: "string \<Rightarrow> string" where
  "opt_task q = ''Transform the question: '' @ q @
     '' to be a cohesive yet extremely simple question with a few simple, but extremely relevant keywords. Only, I REPEAT: ONLY, output the optimized revised question.''"

text \<open>\<^verbatim>\<open>optimize_question\<close>: the stripped reply, or the question itself when the reply is
  empty.\<close>

definition optimize_question :: "assistant_env \<Rightarrow> thread \<Rightarrow> string \<Rightarrow> (string \<times> thread) option" where
  "optimize_question env th question =
     (case turn env th (opt_task question) None of
        None \<Rightarrow> None
      | Some (txt, th1) \<Rightarrow> Some (if txt \<noteq> [] then py_strip txt else question, th1))"

text \<open>Lines 359--362: two adjacent f-strings, concatenated without a separator.\<close>

definition kw_task :: "string \<Rightarrow> string" where
  "kw_task oq = ''Extract the most essential academic keywords from the following research question. Choose the most relevant 4 keywords max. The choices of words will be going into an API call to search PubMed. Make sure the keywords are the most essential keywords for doing a search on PubMeds API'' @
     ''Research Question: '' @ oq @ ''. Output keywords separated by commas, ranked from most relevant to least relevant.''"

text \<open>\<^verbatim>\<open>extract_keywords\<close>: distil, then ask for keywords; split the reply at commas and
  strip each piece.\<close>

definition extract_keywords :: "assistant_env \<Rightarrow> thread \<Rightarrow> string \<Rightarrow> (string list \<times> thread) option" where
  "extract_keywords env th question =
     (case optimize_question env th question of
        None \<Rightarrow> None
      | Some (oq, th1) \<Rightarrow>
          (case turn env th1 (kw_task oq) None of
             None \<Rightarrow> None
           | Some (txt, th2) \<Rightarrow>
               Some (if txt \<noteq> [] then map py_strip (py_split '','' txt) else [], th2)))"

section \<open>Prompt templates\<close>

definition parent_prompt_1 :: string where
  "parent_prompt_1 =
     py_nl @
     ''        You are a helpful brilliant assistant serving low income families. You are a GPT-4o model with access to major journals. Your task is to answer simple parenting questions accurately and clearly for parents. Deliver a simple response to '' @
     [CHR 0x27]"

definition parent_prompt_2 :: string where
  "parent_prompt_2 =
     [CHR 0x27] @
     '', using the context below. '' @
     py_nl @
     py_nl @
     ''        IMPORTANT: You MUST cite information from EACH provided article that is relevant to the question. Prioritize information from the most recent studies. The articles are provided in order from newest to oldest. Give more weight to the findings from the newer studies, but don't ignore older studies if they provide crucial information.'' @
     py_nl @
     py_nl @
     ''        Cite the studies' authors and years immediately after presenting facts. Use the format (Author Year) for citations. Make sure you consider and cite at least one fact from each relevant article abstract provided in the context, with a focus on the most recent ones.'' @
     py_nl @
     py_nl @
     ''        Use natural language that is easy to understand. Don't use scientific terms. Don't use numbered lists. All answers should be simple. Assume an IQ of 120. Aim for approximately 150 words, focusing on practical advice that parents can easily apply. Synthesize information from the most relevant and recent research. Ensure your answer is grounded in solid research while being accessible. Remember: simple language, I repeat: simple language.'' @
     py_nl @
     py_nl @
     ''        Prioritize articles by published date and ensure all articles are taken into account before answering the question. This is of the utmost importance. '' @
     py_nl @
     ''        '' @
     py_nl @
     ''        Context (ordered from newest to oldest):'' @
     py_nl @
     ''        ''"

definition parent_prompt_3 :: string where
  "parent_prompt_3 =
     py_nl @
     py_nl @
     ''        Before outputting your response, verify that you've cited each relevant article provided in the context, with emphasis on the most recent ones. Your response MUST include at least one citation from each article that is relevant to the question. If an article is not relevant to the specific question, explain briefly why you didn't include it.'' @
     py_nl @
     py_nl @
     ''        After your main response, provide a brief summary of how many articles you cited and why you may not have cited certain articles (if any).'' @
     py_nl @
     py_nl @
     ''        Remember: DO NOT USE SCIENTIFIC JARGON'' @
     py_nl @
     py_nl @
     ''        Before outputting, validate that you answered the user's question with a direct and clear response to THEIR question. Answering the question ''"

definition parent_prompt_4 :: string where
  "parent_prompt_4 =
     '' is the most important aspect of this app.[IMPORTANT]!. For example, if the user asks about baby formula, DO NOT mention breastfeeding. That's not what they are asking about.'' @
     py_nl @
     ''        '' @
     py_nl @
     ''        IMPORTANT: You MUST cite information from EACH provided article that is relevant to the question. The articles are provided in order of relevance to the question. Give more weight to the findings from the more relevant studies, but don't ignore less relevant studies if they provide crucial information.'' @
     py_nl @
     ''        ''"

text \<open>The \<^verbatim>\<open>"Parent"\<close> template of lines 407--430, its holes filled with the distilled question and the sorted context.\<close>

definition parent_prompt :: "string \<Rightarrow> string \<Rightarrow> string" where
  "parent_prompt q ctx = parent_prompt_1 @ q @ parent_prompt_2 @ ctx @ parent_prompt_3 @ q @ parent_prompt_4"

definition doctor_prompt_1 :: string where
  "doctor_prompt_1 =
     py_nl @
     ''        You are Brilliance, a GPT-4o model with access to major journals. Your sole task is to accurately, and I repeat: accurately, answer the user's question with empirical data. You will emulate a wide beam search when considering your choice of words. This is the most important thing to remember. Deliver a brilliant and detailed, scientifically validated response to '' @
     [CHR 0x27]"

definition doctor_prompt_2 :: string where
  "doctor_prompt_2 =
     [CHR 0x27] @
     '', using the context below. '' @
     py_nl @
     py_nl @
     ''        IMPORTANT: Prioritize information from the most recent studies. The articles are provided in order from newest to oldest. Give more weight to the findings from the newer studies, but don't ignore older studies if they provide crucial information or historical context.'' @
     py_nl @
     py_nl @
     ''        Cite the studies' authors and years immediately after presenting facts. Clarify the mechanisms of action when discussing medicine. Craft the answer in natural, flowing language, avoiding numbered lists or subtopic breakdowns. Synthesize information from recent and cutting-edge research, emphasizing groundbreaking discoveries and their practical implications. Highlight innovative theories or advancements that could revolutionize our understanding, focusing on the unique aspects of the research question within the latest context. '' @
     py_nl @
     py_nl @
     ''        Reference the original question frequently, aiming for approximately 1000 words. Include accurate data, values, variables, and relevant names or places. Be specific, avoid generalizations, and eschew repetitive phrasing. Aim to leave the reader with a profound understanding, using a natural academic tone suitable for an audience with an IQ of 200. Extrapolate and synthesize groundbreaking insights. '' @
     py_nl @
     py_nl @
     ''        Ensure the question is completely and accurately answered, considering the data from the context provided, with emphasis on the most recent findings. Make sure your results show groundbreaking findings. Remember to synthesize responses with citations in parentheses. Just use relevant author names and year in the prompt.'' @
     py_nl @
     ''        Context (ordered from newest to oldest):'' @
     py_nl @
     ''        ''"

definition doctor_prompt_3 :: string where
  "doctor_prompt_3 =
     py_nl @
     ''        Before outputting your response, verify that you've cited each relevant article provided in the context, with emphasis on the most recent ones. Only cite articles that are directly relevant to answering the user's question. If an article is not relevant to the specific question, you do not need to cite it.'' @
     py_nl @
     py_nl @
     ''        Prioritize articles by published date and ensure all articles are taken into account before answering the question. This is of the utmost importance. '' @
     py_nl @
     ''        '' @
     py_nl @
     ''        IMPORTANT: Prioritize information from the most relevant studies. The articles are provided in order of relevance to the question. Give more weight to the findings from the more relevant studies, but don't ignore less relevant studies if they provide crucial information or historical context.'' @
     py_nl @
     ''        ''"

text \<open>The \<^verbatim>\<open>"Doctor/Researcher"\<close> template of lines 431--448.\<close>

definition doctor_prompt :: "string \<Rightarrow> string \<Rightarrow> string" where
  "doctor_prompt q ctx = doctor_prompt_1 @ q @ doctor_prompt_2 @ ctx @ doctor_prompt_3"

definition text_message_prompt_1 :: string where
  "text_message_prompt_1 =
     py_nl @
     ''    Convert the following response into a concise text message of 450 characters or less. '' @
     py_nl @
     ''    Remove all citations and speak in simple language. Make it casual and friendly, as if texting a friend. Use 2 emojis at the end of the text message. Always, I repeat: ALWAYS say this at the end: This is not medical advice, this is research. Always check with your doctor before making any choices based on this response.'' @
     py_nl @
     ''    Don't use medical jargon.'' @
     py_nl @
     ''    Original response:'' @
     py_nl @
     ''    ''"

definition text_message_prompt_2 :: string where
  "text_message_prompt_2 =
     py_nl @
     ''    ''"

text \<open>The summary request of lines 469--475.\<close>

definition text_message_prompt :: "string \<Rightarrow> string" where
  "text_message_prompt r = text_message_prompt_1 @ r @ text_message_prompt_2"

text \<open>\<^verbatim>\<open>generate_prompt\<close> (lines 383--450): sort the context, fill the template of the
  complexity level; \<^verbatim>\<open>prompts.get(length, prompts["Parent"])\<close> falls back to the
  parent template.\<close>

definition generate_prompt :: "string \<Rightarrow> string \<Rightarrow> string \<Rightarrow> string" where
  "generate_prompt oq len context =
     (let sc = sort_context context
      in if len = ''Doctor/Researcher'' then doctor_prompt oq sc else parent_prompt oq sc)"

section \<open>Answer synthesis\<close>

text \<open>\<^verbatim>\<open>generate_response\<close>: nothing for a blank question; the fixed sentence for a blank
  context; distil the question again, stream the answer into the page's placeholder, then
  ask for the text-message version.\<close>

definition generate_response ::
  "assistant_env \<Rightarrow> thread \<Rightarrow> string \<Rightarrow> string \<Rightarrow> string \<Rightarrow> ((string \<times> string) \<times> thread) option" where
  "generate_response env th question len context =
     (if py_strip question = [] then Some (([], []), th)
      else
        (let ctx = (if py_strip context = [] then no_articles_msg else context)
         in case optimize_question env th question of
              None \<Rightarrow> None
            | Some (oq, th1) \<Rightarrow>
                (case turn env th1 (generate_prompt oq len ctx) (Some []) of
                   None \<Rightarrow> None
                 | Some (response, th2) \<Rightarrow>
                     (case turn env th2 (text_message_prompt response) None of
                        None \<Rightarrow> None
                      | Some (tm, th3) \<Rightarrow> Some ((response, tm), th3)))))"

section \<open>The request handler\<close>

text \<open>What the page shows after a rerun of the script: nothing requested, the empty-input
  warning, an exception that escaped, or the answer, its text-message version and the
  article cards, with whether the no-articles warning was shown.\<close>

datatype page =
    No_request
  | Empty_warning
  | Raised py_error
  | Answer string string "article list" bool

text \<open>Lines 615--664. The flag \<^verbatim>\<open>enter_pressed\<close> is set by the text input's callback
  (lines 289--290) and reset only when a non-empty question is processed. The result is the
  page, the new flag, the thread and the URLs requested.\<close>

definition handle_request ::
  "assistant_env \<Rightarrow> network \<Rightarrow> string \<Rightarrow> thread \<Rightarrow> bool \<Rightarrow> bool \<Rightarrow> string \<Rightarrow> string
   \<Rightarrow> (page \<times> bool \<times> thread \<times> string list) option" where
  "handle_request env net base th generate enter user_input sel =
     (if \<not> (generate \<or> enter) then Some (No_request, enter, th, [])
      else if user_input = [] then Some (Empty_warning, enter, th, [])
      else
        (case extract_keywords env th user_input of
           None \<Rightarrow> None
         | Some (kws, th1) \<Rightarrow>
             (let n = (if sel = ''Parent'' then 10 else 15)
              in case search_ncbi net base kws n of
                   (Inl e, tr) \<Rightarrow> Some (Raised e, False, th1, tr)
                 | (Inr arts, tr) \<Rightarrow>
                     (case generate_response env th1 user_input sel (build_context arts) of
                        None \<Rightarrow> None
                      | Some ((full, tm), th2) \<Rightarrow> Some (Answer full tm arts (arts = []), False, th2, tr)))))"

section \<open>Specification helpers and sample environments\<close>

text \<open>The user messages of a stretch of history, in order.\<close>

definition user_msgs :: "(role \<times> string) list \<Rightarrow> string list" where
  "user_msgs ms = map snd (filter (\<lambda>m. fst m = User) ms)"

text \<open>An assistant that always replies with the same text, on a thread that is always
  idle; an empty thread.\<close>

definition env_const :: "string \<Rightarrow> assistant_env" where
  "env_const s = \<lparr>listings = (\<lambda>h k. []), reply = (\<lambda>h. [Text_delta s]), outcome = (\<lambda>h. Completed)\<rparr>"

definition thread0 :: thread where
  "thread0 = \<lparr>messages = [], runs = []\<rparr>"

text \<open>A PubMed record with every field the parser reads, and a search service that
  finds two of them.\<close>

definition sample_pubmed_article :: "string \<Rightarrow> string \<Rightarrow> xml" where
  "sample_pubmed_article t y = Elem ''PubmedArticle'' [] None
     [Elem ''ArticleTitle'' [] (Some t) [], Elem ''AbstractText'' [] (Some ''z'') [],
      Elem ''ArticleId'' [(''IdType'', ''pubmed'')] (Some ''1'') [],
      Elem ''PubDate'' [] None [Elem ''Year'' [] (Some y) []],
      Elem ''Author'' [] None [Elem ''LastName'' [] (Some ''X'') [], Elem ''ForeName'' [] (Some ''Y'') []]]"

definition net_two_hits :: network where
  "net_two_hits u =
     (if py_contains ''esearch'' u
      then Inr \<lparr>status_code = 200, body = Json_body (JObject [(''esearchresult'',
             JObject [(''idlist'', JArray [JString ''1'', JString ''2''])])])\<rparr>
      else Inr \<lparr>status_code = 200, body = Xml_body (Elem ''PubmedArticleSet'' [] None
             [sample_pubmed_article ''A'' ''2019'', sample_pubmed_article ''B'' ''2023''])\<rparr>)"

section \<open>Lemmas\<close>

lemma user_msgs_append [simp]: "user_msgs (xs @ ys) = user_msgs xs @ user_msgs ys"
  by (simp add: user_msgs_def)

lemma user_msgs_Cons_User [simp]: "user_msgs ((User, t) # xs) = t # user_msgs xs"
  by (simp add: user_msgs_def)

lemma stream_text_deltas: "stream_text ph es = concat (deltas es)"
  using until_done_text [OF handler_inv_init [of ph], of es]
  by (simp add: stream_text_def EventHandler_init_def)

lemma turn_Some:
  assumes "turn env th task ph = Some (txt, th')"
  shows "\<exists>a. messages th' = messages th @ (User, task) # a \<and> user_msgs a = [] \<and>
           txt = concat (deltas (reply env (messages th @ [(User, task)])))"
proof -
  from assms obtain k th1 where
    add: "add_message_to_thread (listings env (messages th)) th task User = Some (k, th1)"
    and run: "run_assistant th1 ph (reply env (messages th1)) (outcome env (messages th1)) = (txt, th')"
    by (auto simp: turn_def split: option.splits)
  from add have m1: "messages th1 = messages th @ [(User, task)]"
    by (auto simp: add_message_to_thread_def)
  let ?st = "outcome env (messages th1)"
  from run have "txt = stream_text ph (reply env (messages th1))"
    and "messages th' = messages th1 @ (if ?st = Completed then [(Assistant, txt)] else [])"
    by (auto simp: run_assistant_def Let_def)
  with m1 show ?thesis
    by (intro exI [of _ "if ?st = Completed then [(Assistant, txt)] else []"])
       (simp add: stream_text_deltas user_msgs_def)
qed

lemma optimize_question_Some:
  assumes "optimize_question env th q = Some (oq, th')"
  shows "\<exists>a. messages th' = messages th @ (User, opt_task q) # a \<and> user_msgs a = [] \<and>
           oq = (let txt = concat (deltas (reply env (messages th @ [(User, opt_task q)])))
                 in if txt \<noteq> [] then py_strip txt else q)"
  using assms turn_Some [of env th "opt_task q" None]
  by (auto simp: optimize_question_def Let_def split: option.splits)

lemma extract_keywords_Some:
  assumes "extract_keywords env th q = Some (kws, th')"
  shows "\<exists>a oq. messages th' = messages th @ a \<and> user_msgs a = [opt_task q, kw_task oq]"
proof -
  from assms obtain oq th1 r where
    o: "optimize_question env th q = Some (oq, th1)" and
    t: "turn env th1 (kw_task oq) None = Some (r, th')"
    by (auto simp: extract_keywords_def split: option.splits)
  from optimize_question_Some [OF o] obtain a1 where
    "messages th1 = messages th @ (User, opt_task q) # a1" "user_msgs a1 = []" by blast
  moreover from turn_Some [OF t] obtain a2 where
    "messages th' = messages th1 @ (User, kw_task oq) # a2" "user_msgs a2 = []" by blast
  ultimately show ?thesis
    by (intro exI [of _ "(User, opt_task q) # a1 @ (User, kw_task oq) # a2"] exI [of _ oq]) simp
qed

lemma extract_keywords_text:
  assumes "extract_keywords env th q = Some (kws, th')"
  shows "\<exists>oq th1. optimize_question env th q = Some (oq, th1) \<and>
     kws = (if concat (deltas (reply env (messages th1 @ [(User, kw_task oq)]))) \<noteq> [] then map py_strip (py_split '','' (concat (deltas (reply env (messages th1 @ [(User, kw_task oq)]))))) else [])"
proof -
  from assms obtain oq th1 r where
    o: "optimize_question env th q = Some (oq, th1)" and
    t: "turn env th1 (kw_task oq) None = Some (r, th')" and
    k: "kws = (if r \<noteq> [] then map py_strip (py_split '','' r) else [])"
    by (auto simp: extract_keywords_def split: option.splits)
  from turn_Some [OF t] have "r = concat (deltas (reply env (messages th1 @ [(User, kw_task oq)])))" by blast
  with o k show ?thesis by auto
qed

lemma list_all_dropWhile: "list_all P (dropWhile P s) \<longleftrightarrow> list_all P s"
  by (induction s) auto

lemma py_strip_Nil_iff: "py_strip s = [] \<longleftrightarrow> list_all py_isspace s"
proof -
  have "py_strip s = [] \<longleftrightarrow> list_all py_isspace (rev (dropWhile py_isspace s))"
    by (simp add: py_strip_def dropWhile_eq_Nil_conv list_all_iff)
  also have "\<dots> \<longleftrightarrow> list_all py_isspace s"
    by (simp add: list_all_dropWhile list_all_rev)
  finally show ?thesis .
qed

lemma build_context_not_blank: "py_strip (build_context arts) \<noteq> []"
proof (cases "filter eligible arts = []")
  case True
  then show ?thesis
    by (simp add: build_context_def py_strip_Nil_iff no_articles_msg_def py_isspace_def)
next
  case False
  then have "hd (build_context arts) = CHR ''T''" by (rule build_context_head)
  moreover have "build_context arts \<noteq> []"
    by (simp add: build_context_def no_articles_msg_def Let_def)
  ultimately show ?thesis
    by (cases "build_context arts") (simp_all add: py_strip_Nil_iff py_isspace_def)
qed

lemma generate_response_Some:
  assumes "py_strip q \<noteq> []" and "py_strip context \<noteq> []"
    and "generate_response env th q len context = Some ((r, tm), th')"
  shows "\<exists>a oq. messages th' = messages th @ a \<and>
           user_msgs a = [opt_task q, generate_prompt oq len context, text_message_prompt r]"
proof -
  from assms obtain oq th1 th2 where
    o: "optimize_question env th q = Some (oq, th1)" and
    t1: "turn env th1 (generate_prompt oq len context) (Some []) = Some (r, th2)" and
    t2: "turn env th2 (text_message_prompt r) None = Some (tm, th')"
    by (auto simp: generate_response_def Let_def split: option.splits)
  from optimize_question_Some [OF o] obtain a1 where
    "messages th1 = messages th @ (User, opt_task q) # a1" "user_msgs a1 = []" by blast
  moreover from turn_Some [OF t1] obtain a2 where
    "messages th2 = messages th1 @ (User, generate_prompt oq len context) # a2" "user_msgs a2 = []" by blast
  moreover from turn_Some [OF t2] obtain a3 where
    "messages th' = messages th2 @ (User, text_message_prompt r) # a3" "user_msgs a3 = []" by blast
  ultimately show ?thesis
    by (intro exI [of _ "(User, opt_task q) # a1 @ (User, generate_prompt oq len context) # a2 @
        (User, text_message_prompt r) # a3"] exI [of _ oq]) simp
qed

lemma generate_response_context:
  assumes "py_strip context \<noteq> []"
  shows "generate_response env th q len context =
     (if py_strip q = [] then Some (([], []), th)
      else case optimize_question env th q of
             None \<Rightarrow> None
           | Some (oq, th1) \<Rightarrow>
               (case turn env th1 (generate_prompt oq len context) (Some []) of
                  None \<Rightarrow> None
                | Some (response, th2) \<Rightarrow>
                    (case turn env th2 (text_message_prompt response) None of
                       None \<Rightarrow> None
                     | Some (tm, th3) \<Rightarrow> Some ((response, tm), th3))))"
  using assms by (simp add: generate_response_def)

lemma handle_request_answer_msgs:
  assumes "py_strip user_input \<noteq> []"
    and "handle_request env net base th g e user_input sel = Some (Answer full tm arts w, e', th', tr)"
  shows "\<exists>a oq1 oq2. messages th' = messages th @ a \<and>
           user_msgs a = [opt_task user_input, kw_task oq1, opt_task user_input,
                          generate_prompt oq2 sel (build_context arts), text_message_prompt full]"
proof -
  from assms(1) have ne: "user_input \<noteq> []" by (auto simp: py_strip_def)
  from assms(2) ne obtain kws th1 where
    k: "extract_keywords env th user_input = Some (kws, th1)" and
    s: "fst (search_ncbi net base kws (if sel = ''Parent'' then 10 else 15)) = Inr arts" and
    gr: "generate_response env th1 user_input sel (build_context arts) = Some ((full, tm), th')"
    by (auto simp: handle_request_def Let_def split: if_splits option.splits prod.splits sum.splits)
  from extract_keywords_Some [OF k] obtain a1 oq1 where
    "messages th1 = messages th @ a1" "user_msgs a1 = [opt_task user_input, kw_task oq1]" by blast
  moreover from generate_response_Some [OF assms(1) build_context_not_blank gr] obtain a2 oq2 where
    "messages th' = messages th1 @ a2"
    "user_msgs a2 = [opt_task user_input, generate_prompt oq2 sel (build_context arts), text_message_prompt full]"
    by blast
  ultimately show ?thesis by (intro exI [of _ "a1 @ a2"] exI) simp
qed


section \<open>Properties of the request pipeline\<close>

text \<open>C17. A question of only blanks passes the handler's \<^verbatim>\<open>user_input == ""\<close> test:
  it is distilled and turned into keywords (two assistant turns) and searched for, and only
  then does \<^verbatim>\<open>generate_response\<close> return an empty answer and summary.\<close>

theorem blank_question_still_queries:
  assumes "user_input \<noteq> []" and "py_strip user_input = []"
    and "handle_request env net base th g e user_input sel = Some (Answer full tm arts w, e', th', tr)"
  shows "full = [] \<and> tm = [] \<and>
         (\<exists>a oq. messages th' = messages th @ a \<and> user_msgs a = [opt_task user_input, kw_task oq])"
proof -
  from assms obtain kws th1 where
    k: "extract_keywords env th user_input = Some (kws, th1)" and
    gr: "generate_response env th1 user_input sel (build_context arts) = Some ((full, tm), th')"
    by (auto simp: handle_request_def Let_def split: if_splits option.splits prod.splits sum.splits)
  from gr assms(2) have "full = [] \<and> tm = [] \<and> th' = th1"
    by (simp add: generate_response_def)
  with extract_keywords_Some [OF k] show ?thesis by auto
qed

theorem blank_question_still_queries_witness:
  "'' '' \<noteq> [] \<and> py_strip '' '' = [] \<and>
   (\<exists>th' tr. handle_request (env_const ''kw'') net_no_hits ''B/'' thread0 True False '' '' ''Parent''
       = Some (Answer [] [] [] True, False, th', tr) \<and> tr \<noteq> [] \<and>
     (\<exists>a oq. messages th' = messages thread0 @ a \<and> user_msgs a = [opt_task '' '', kw_task oq]))"
proof -
  have h: "handle_request (env_const ''kw'') net_no_hits ''B/'' thread0 True False '' '' ''Parent''
     = Some (Answer [] [] [] True, False,
         \<lparr>messages = [(User, opt_task '' ''), (Assistant, ''kw''), (User, kw_task ''kw''), (Assistant, ''kw'')],
          runs = [Completed]\<rparr>,
         [esearch_url ''B/'' ''kw'' 10, esearch_url ''B/'' ''kw'' 10])"
    by (simp add: handle_request_def extract_keywords_def optimize_question_def turn_def
      add_message_to_thread_def wait_idle.simps run_assistant_def Let_def stream_text_deltas env_const_def
      thread0_def find_active_def py_str_simps search_ncbi_def search_attempt_def net_no_hits_def
      esearch_ids_def fetch_article_details_def generate_response_def)
  have b: "'' '' \<noteq> []" "py_strip '' '' = []" by (simp_all add: py_str_simps)
  from blank_question_still_queries [OF b h] h b show ?thesis by auto
qed

text \<open>C18. An answered request makes exactly five assistant turns, in this order: distil
  the question, extract keywords, distil the question again (the answer does not reuse the
  first distillation), answer from the prompt built on the context of the fetched
  articles, summarise the answer.\<close>

theorem answer_takes_five_turns:
  assumes "py_strip user_input \<noteq> []"
    and "handle_request env net base th g e user_input sel = Some (Answer full tm arts w, e', th', tr)"
  shows "\<exists>a oq1 oq2. messages th' = messages th @ a \<and>
           user_msgs a = [opt_task user_input, kw_task oq1, opt_task user_input,
                          generate_prompt oq2 sel (build_context arts), text_message_prompt full]"
  using handle_request_answer_msgs [OF assms] .

theorem answer_takes_five_turns_witness:
  "py_strip ''q'' \<noteq> [] \<and>
   (\<exists>th' tr. handle_request (env_const ''kw'') net_no_hits ''B/'' thread0 True False ''q'' ''Parent''
       = Some (Answer ''kw'' ''kw'' [] True, False, th', tr) \<and>
     (\<exists>a oq1 oq2. messages th' = messages thread0 @ a \<and>
        user_msgs a = [opt_task ''q'', kw_task oq1, opt_task ''q'',
                       generate_prompt oq2 ''Parent'' (build_context []), text_message_prompt ''kw'']))"
proof -
  have h: "handle_request (env_const ''kw'') net_no_hits ''B/'' thread0 True False ''q'' ''Parent''
     = Some (Answer ''kw'' ''kw'' [] True, False,
         \<lparr>messages = [(User, opt_task ''q''), (Assistant, ''kw''), (User, kw_task ''kw''), (Assistant, ''kw''),
            (User, opt_task ''q''), (Assistant, ''kw''),
            (User, generate_prompt ''kw'' ''Parent'' (build_context [])), (Assistant, ''kw''),
            (User, text_message_prompt ''kw''), (Assistant, ''kw'')],
          runs = [Completed]\<rparr>,
         [esearch_url ''B/'' ''kw'' 10, esearch_url ''B/'' ''kw'' 10])"
    by (simp add: handle_request_def extract_keywords_def optimize_question_def turn_def
      add_message_to_thread_def wait_idle.simps run_assistant_def Let_def stream_text_deltas env_const_def
      thread0_def find_active_def py_str_simps search_ncbi_def search_attempt_def net_no_hits_def
      esearch_ids_def fetch_article_details_def generate_response_def build_context_def no_articles_msg_def)
  have q: "py_strip ''q'' \<noteq> []" by (simp add: py_str_simps)
  from answer_takes_five_turns [OF q h] h q show ?thesis by auto
qed

text \<open>C19. A reply of only blanks is truthy, so \<^verbatim>\<open>optimize_question\<close> returns its
  stripped form, the empty string, instead of falling back to the question: whatever the
  question and the thread, a non-empty all-blank reply empties the distilled question.\<close>

theorem blank_reply_empties_question:
  assumes "optimize_question env th q = Some (oq, th')"
    and "concat (deltas (reply env (messages th @ [(User, opt_task q)]))) \<noteq> []"
    and "list_all py_isspace (concat (deltas (reply env (messages th @ [(User, opt_task q)]))))"
  shows "oq = []"
  using optimize_question_Some [OF assms(1)] assms(2,3) by (auto simp: Let_def py_strip_Nil_iff)

theorem blank_reply_empties_question_witness:
  "optimize_question (env_const '' '') thread0 ''q''
     = Some ([], \<lparr>messages = [(User, opt_task ''q''), (Assistant, '' '')], runs = [Completed]\<rparr>) \<and>
   concat (deltas (reply (env_const '' '') (messages thread0 @ [(User, opt_task ''q'')]))) \<noteq> [] \<and>
   list_all py_isspace (concat (deltas (reply (env_const '' '') (messages thread0 @ [(User, opt_task ''q'')]))))"
proof -
  have o: "optimize_question (env_const '' '') thread0 ''q''
     = Some ([], \<lparr>messages = [(User, opt_task ''q''), (Assistant, '' '')], runs = [Completed]\<rparr>)"
    by (simp add: optimize_question_def turn_def add_message_to_thread_def wait_idle.simps
      run_assistant_def Let_def stream_text_deltas env_const_def thread0_def find_active_def py_str_simps)
  have n: "concat (deltas (reply (env_const '' '') (messages thread0 @ [(User, opt_task ''q'')]))) \<noteq> []"
    by (simp add: env_const_def)
  have w: "list_all py_isspace (concat (deltas (reply (env_const '' '') (messages thread0 @ [(User, opt_task ''q'')]))))"
    by (simp add: env_const_def py_isspace_def)
  from blank_reply_empties_question [OF o n w] o n w show ?thesis by simp
qed

text \<open>C20. \<^verbatim>\<open>extract_keywords\<close> keeps every comma-separated piece of the reply to
  the keyword request: there are exactly one more keywords than the reply has commas, so
  nothing enforces the four-keyword maximum the prompt asks for.\<close>

theorem keywords_not_limited_to_four:
  assumes "extract_keywords env th q = Some (kws, th')"
  shows "\<exists>oq th1. optimize_question env th q = Some (oq, th1) \<and>
     (let txt = concat (deltas (reply env (messages th1 @ [(User, kw_task oq)])))
      in length kws = (if txt = [] then 0 else Suc (count_list txt (CHR '',''))))"
proof -
  from extract_keywords_text [OF assms] obtain oq th1 where
    o: "optimize_question env th q = Some (oq, th1)" and
    k: "kws = (if concat (deltas (reply env (messages th1 @ [(User, kw_task oq)]))) \<noteq> [] then map py_strip (py_split '','' (concat (deltas (reply env (messages th1 @ [(User, kw_task oq)]))))) else [])"
    by blast
  have "length kws = (if concat (deltas (reply env (messages th1 @ [(User, kw_task oq)]))) = [] then 0 else Suc (count_list (concat (deltas (reply env (messages th1 @ [(User, kw_task oq)])))) (CHR '','')))"
    unfolding k by (simp add: py_split_single_length)
  with o show ?thesis unfolding Let_def by blast
qed

theorem keywords_not_limited_to_four_witness:
  "extract_keywords (env_const ''a, b, c, d, e'') thread0 ''q''
     = Some ([''a'', ''b'', ''c'', ''d'', ''e''],
             \<lparr>messages = [(User, opt_task ''q''), (Assistant, ''a, b, c, d, e''),
                          (User, kw_task ''a, b, c, d, e''), (Assistant, ''a, b, c, d, e'')],
              runs = [Completed]\<rparr>) \<and>
   (\<exists>oq th1. optimize_question (env_const ''a, b, c, d, e'') thread0 ''q'' = Some (oq, th1) \<and>
     (let txt = concat (deltas (reply (env_const ''a, b, c, d, e'') (messages th1 @ [(User, kw_task oq)])))
      in length [''a'', ''b'', ''c'', ''d'', ''e''] = (if txt = [] then 0 else Suc (count_list txt (CHR '','')))))"
proof -
  have e: "extract_keywords (env_const ''a, b, c, d, e'') thread0 ''q''
     = Some ([''a'', ''b'', ''c'', ''d'', ''e''],
             \<lparr>messages = [(User, opt_task ''q''), (Assistant, ''a, b, c, d, e''),
                          (User, kw_task ''a, b, c, d, e''), (Assistant, ''a, b, c, d, e'')],
              runs = [Completed]\<rparr>)"
    by (simp add: extract_keywords_def optimize_question_def turn_def add_message_to_thread_def wait_idle.simps
      run_assistant_def Let_def stream_text_deltas env_const_def thread0_def find_active_def py_str_simps)
  from keywords_not_limited_to_four [OF e] e show ?thesis by blast
qed

text \<open>C21. The keyword request runs the instruction into the question: whenever
  \<^verbatim>\<open>extract_keywords\<close> returns, one of the messages it added to the thread reads
  \<^verbatim>\<open>PubMeds APIResearch Question: \<close>, because the two adjacent f-strings of lines
  360--361 have no separator.\<close>

theorem keyword_task_missing_separator:
  assumes "extract_keywords env th q = Some (kws, th')"
  shows "\<exists>a m. messages th' = messages th @ a \<and> m \<in> set (user_msgs a) \<and>
           py_contains ''PubMeds APIResearch Question: '' m"
proof -
  from extract_keywords_Some [OF assms] obtain a oq where
    a: "messages th' = messages th @ a" "user_msgs a = [opt_task q, kw_task oq]" by blast
  have "kw_task oq = ''Extract the most essential academic keywords from the following research question. Choose the most relevant 4 keywords max. The choices of words will be going into an API call to search PubMed. Make sure the keywords are the most essential keywords for doing a search on ''
      @ ''PubMeds APIResearch Question: '' @ oq @ ''. Output keywords separated by commas, ranked from most relevant to least relevant.''"
    by (simp add: kw_task_def)
  then have "py_contains ''PubMeds APIResearch Question: '' (kw_task oq)" by (simp only: py_contains_infix)
  with a show ?thesis by (intro exI [of _ a] exI [of _ "kw_task oq"]) simp
qed

theorem keyword_task_missing_separator_witness:
  "extract_keywords (env_const ''kw'') thread0 ''q''
     = Some ([''kw''], \<lparr>messages = [(User, opt_task ''q''), (Assistant, ''kw''), (User, kw_task ''kw''), (Assistant, ''kw'')],
                       runs = [Completed]\<rparr>) \<and>
   (\<exists>a m. [(User, opt_task ''q''), (Assistant, ''kw''), (User, kw_task ''kw''), (Assistant, ''kw'')] = messages thread0 @ a \<and>
      m \<in> set (user_msgs a) \<and> py_contains ''PubMeds APIResearch Question: '' m)"
proof -
  have e: "extract_keywords (env_const ''kw'') thread0 ''q''
     = Some ([''kw''], \<lparr>messages = [(User, opt_task ''q''), (Assistant, ''kw''), (User, kw_task ''kw''), (Assistant, ''kw'')],
                       runs = [Completed]\<rparr>)"
    by (simp add: extract_keywords_def optimize_question_def turn_def add_message_to_thread_def wait_idle.simps
      run_assistant_def Let_def stream_text_deltas env_const_def thread0_def find_active_def py_str_simps)
  from keyword_task_missing_separator [OF e] e show ?thesis by simp
qed

text \<open>C24. \<^verbatim>\<open>optimize_question\<close> adds its task as the next user message and returns
  the stripped reply, or the question itself when the reply is empty; whatever the thread
  held before, the result depends only on the reply to this task and the question (the
  spec's idempotence).\<close>

theorem optimize_question_result:
  assumes "optimize_question env th q = Some (oq, th')"
  shows "(\<exists>a. messages th' = messages th @ (User, opt_task q) # a \<and> user_msgs a = []) \<and>
         oq = (if concat (deltas (reply env (messages th @ [(User, opt_task q)]))) \<noteq> [] then py_strip (concat (deltas (reply env (messages th @ [(User, opt_task q)])))) else q)"
  using optimize_question_Some [OF assms] by (auto simp: Let_def)

theorem optimize_question_result_witness:
  "optimize_question (env_const ''  x '') thread0 ''q''
     = Some (''x'', \<lparr>messages = [(User, opt_task ''q''), (Assistant, ''  x '')], runs = [Completed]\<rparr>) \<and>
   (\<exists>a. [(User, opt_task ''q''), (Assistant, ''  x '')] = messages thread0 @ (User, opt_task ''q'') # a \<and> user_msgs a = []) \<and>
   ''x'' = (if concat (deltas (reply (env_const ''  x '') (messages thread0 @ [(User, opt_task ''q'')]))) \<noteq> [] then py_strip (concat (deltas (reply (env_const ''  x '') (messages thread0 @ [(User, opt_task ''q'')])))) else ''q'')"
proof -
  have o: "optimize_question (env_const ''  x '') thread0 ''q''
     = Some (''x'', \<lparr>messages = [(User, opt_task ''q''), (Assistant, ''  x '')], runs = [Completed]\<rparr>)"
    by (simp add: optimize_question_def turn_def add_message_to_thread_def wait_idle.simps
      run_assistant_def Let_def stream_text_deltas env_const_def thread0_def find_active_def py_str_simps)
  from optimize_question_result [OF o] o show ?thesis by simp
qed

text \<open>C25. An exception that escapes the search (a request exception, or a malformed
  record) ends the request after the two distillation turns: no answer turn is made, and the
  Enter flag has already been reset, so the failure is not retried on the next rerun.\<close>

theorem search_exception_stops_after_keywords:
  assumes "user_input \<noteq> []"
    and "handle_request env net base th g e user_input sel = Some (Raised err, e', th', tr)"
  shows "e' = False \<and> (\<exists>a oq. messages th' = messages th @ a \<and> user_msgs a = [opt_task user_input, kw_task oq])"
proof -
  from assms obtain kws where
    k: "extract_keywords env th user_input = Some (kws, th')" and f: "e' = False"
    by (auto simp: handle_request_def Let_def split: if_splits option.splits prod.splits sum.splits)
  from extract_keywords_Some [OF k] f show ?thesis by simp
qed

theorem search_exception_stops_after_keywords_witness:
  "''q'' \<noteq> [] \<and>
   (\<exists>th' tr. handle_request (env_const ''kw'') net_down ''B/'' thread0 False True ''q'' ''Parent''
       = Some (Raised RequestException, False, th', tr) \<and>
     (\<exists>a oq. messages th' = messages thread0 @ a \<and> user_msgs a = [opt_task ''q'', kw_task oq]))"
proof -
  have h: "handle_request (env_const ''kw'') net_down ''B/'' thread0 False True ''q'' ''Parent''
     = Some (Raised RequestException, False,
         \<lparr>messages = [(User, opt_task ''q''), (Assistant, ''kw''), (User, kw_task ''kw''), (Assistant, ''kw'')],
          runs = [Completed]\<rparr>, [esearch_url ''B/'' ''kw'' 10])"
    by (simp add: handle_request_def extract_keywords_def optimize_question_def turn_def
      add_message_to_thread_def wait_idle.simps run_assistant_def Let_def stream_text_deltas env_const_def
      thread0_def find_active_def py_str_simps search_ncbi_def search_attempt_def net_down_def)
  have q: "''q'' \<noteq> []" by simp
  from search_exception_stops_after_keywords [OF q h] h q show ?thesis by blast
qed

end
