(* ===== verification/Presentation.thy ===== *)
theory Presentation
  imports Pipeline
begin

text \<open>
  The part of the page the request handler fills in (\<^verbatim>\<open>src/app.py\<close> lines 638--664)
  and the article cards of \<^verbatim>\<open>display_article_card\<close> (lines 558--612). The page is
  the list of elements the script emits, in order (\<open>ui_elem\<close>): markdown with its
  \<^verbatim>\<open>unsafe_allow_html\<close> flag, subheaders, warnings, error boxes, the traceback
  Streamlit shows for an exception that escapes the script, and the input controls
  (text input, button, empty slot, component frame, expander, radio). The style sheet and the card
  are the literal texts of the source, with the article's fields in their holes. The
  lemmas show which text of an article reaches the page, and that it reaches it as raw
  HTML.
\<close>

section \<open>Page elements\<close>

datatype ui_elem =
    Markdown string bool
  | Subheader string
  | Warning string
  | Error_box string
  | Exception_box py_error
  | Text_input string nat
  | Button string
  | Empty_slot
  | Html_frame string nat
  | Expander string "ui_elem list"
  | Radio "string list"

section \<open>The article card\<close>

text \<open>The style sheet of lines 566--598, emitted before every card.\<close>

definition css_styles :: string where
  "css_styles =
     py_nl @
     ''    <style>'' @
     py_nl @
     ''    .article-card {'' @
     py_nl @
     ''        background-color: #f9f9f9;'' @
     py_nl @
     ''        padding: 20px;'' @
     py_nl @
     ''        border-radius: 10px;'' @
     py_nl @
     ''        margin-bottom: 20px;'' @
     py_nl @
     ''        border: 1px solid #ddd;'' @
     py_nl @
     ''        box-shadow: 0 4px 8px rgba(0,0,0,0.1);'' @
     py_nl @
     ''        transition: transform 0.2s ease-in-out;'' @
     py_nl @
     ''    }'' @
     py_nl @
     ''    .article-card:hover {'' @
     py_nl @
     ''        transform: translateY(-5px);'' @
     py_nl @
     ''    }'' @
     py_nl @
     ''    .article-title {'' @
     py_nl @
     ''        font-size: 1.5em;'' @
     py_nl @
     ''        color: #333;'' @
     py_nl @
     ''        font-weight: bold;'' @
     py_nl @
     ''        text-decoration: none;'' @
     py_nl @
     ''        margin-bottom: 10px;'' @
     py_nl @
     ''        display: block;'' @
     py_nl @
     ''    }'' @
     py_nl @
     ''    .article-title:hover {'' @
     py_nl @
     ''        text-decoration: underline;'' @
     py_nl @
     ''    }'' @
     py_nl @
     ''    .article-authors, .article-details {'' @
     py_nl @
     ''        color: #777;'' @
     py_nl @
     ''    }'' @
     py_nl @
     ''    .article-details p {'' @
     py_nl @
     ''        margin: 5px 0;'' @
     py_nl @
     ''    }'' @
     py_nl @
     ''    </style>'' @
     py_nl @
     ''    ''"

text \<open>The card of lines 602--612, its holes filled from the article and the first lines of
  the abstract.\<close>

definition article_card_1 :: string where
  "article_card_1 = py_nl @ ''    <div class='article-card'>'' @ py_nl @ ''        <a href='' @ [CHR 0x22]"

definition article_card_2 :: string where
  "article_card_2 = [CHR 0x22] @ '' class='article-title'>''"

definition article_card_3 :: string where
  "article_card_3 = ''</a>'' @ py_nl @ ''        <div class='article-authors'>Authors: ''"

definition article_card_4 :: string where
  "article_card_4 = ''</div>'' @ py_nl @ ''        <div class='article-details'>'' @ py_nl @
     ''            <p>Published: ''"

definition article_card_5 :: string where
  "article_card_5 = ''</p>'' @ py_nl @ ''            <p>Source: ''"

definition article_card_6 :: string where
  "article_card_6 = ''</p>'' @ py_nl @ ''            <p>''"

definition article_card_7 :: string where
  "article_card_7 = ''</p>'' @ py_nl @ ''        </div>'' @ py_nl @ ''    </div>'' @ py_nl @ ''    ''"

definition article_card :: "article \<Rightarrow> string \<Rightarrow> string" where
  "article_card a first_3_lines =
     article_card_1 @ url a @ article_card_2 @ py_str (title a) @ article_card_3 @
     py_join '', '' (authors a) @ article_card_4 @ py_str (published a) @ article_card_5 @
     source a @ article_card_6 @ first_3_lines @ article_card_7"

text \<open>Lines 559--564: the abstract, or \<^verbatim>\<open>'No abstract'\<close> when it is not a string
  (\<open>None\<close>), cut at its third line break.\<close>

definition first_3_lines :: "article \<Rightarrow> string" where
  "first_3_lines a =
     (let ab = (case abstract a of None \<Rightarrow> ''No abstract'' | Some s \<Rightarrow> s)
      in py_join py_nl (take 3 (py_split py_nl ab)))"

text \<open>\<^verbatim>\<open>display_article_card\<close>: two \<^verbatim>\<open>st.markdown\<close> calls, both with
  \<^verbatim>\<open>unsafe_allow_html=True\<close>.\<close>

definition display_article_card :: "article \<Rightarrow> ui_elem list" where
  "display_article_card a = [Markdown css_styles True, Markdown (article_card a (first_3_lines a)) True]"

section \<open>The answer section of the page\<close>

text \<open>Line 640 (before the answer is generated), the error of line 376 for a blank
  question, and lines 650--664 after it. The answer and its summary are plain markdown; the
  streamed answer in the placeholder is replaced by the final one.\<close>

definition no_articles_warning :: string where
  "no_articles_warning = ''No specific articles found. The response will be based on general knowledge.''"

definition render_answer :: "string \<Rightarrow> string \<Rightarrow> string \<Rightarrow> article list \<Rightarrow> bool \<Rightarrow> ui_elem list" where
  "render_answer q full tm arts w =
     (if w then [Warning no_articles_warning] else []) @
     (if py_strip q = [] then [Error_box ''Please enter a valid research question.''] else []) @
     [Subheader [], Markdown full False, Subheader ''Text Message Version'', Markdown tm False,
      Subheader ''Considered Articles''] @
     concat (map display_article_card arts)"

text \<open>Lines 616--618 and the rest of the handler: what each outcome of
  \<open>handle_request\<close> adds to the page. The warning of line 618 ends in U+26A0 U+FE0F,
  written as its UTF-8 bytes; an escaping exception is shown by Streamlit as a traceback.\<close>

definition render_page :: "string \<Rightarrow> page \<Rightarrow> ui_elem list" where
  "render_page q p =
     (case p of
        No_request \<Rightarrow> []
      | Empty_warning \<Rightarrow>
          [Warning (''Please enter a message '' @ map char_of [0xE2::nat, 0x9A, 0xA0, 0xEF, 0xB8, 0x8F])]
      | Raised e \<Rightarrow> [Exception_box e]
      | Answer full tm arts w \<Rightarrow> render_answer q full tm arts w)"

text \<open>Raw HTML elements of a page.\<close>

fun raw_html :: "ui_elem \<Rightarrow> bool" where
  "raw_html (Markdown s b) = b"
| "raw_html _ = False"

section \<open>Lemmas\<close>

lemma article_card_parts:
  "\<exists>p1 p2 p3. article_card a f = p1 @ py_str (title a) @ p2 @ f @ p3"
  unfolding article_card_def
  by (rule exI [of _ "article_card_1 @ url a @ article_card_2"],
      rule exI [of _ "article_card_3 @ py_join '', '' (authors a) @ article_card_4 @ py_str (published a) @
                      article_card_5 @ source a @ article_card_6"],
      rule exI [of _ article_card_7]) simp

lemma display_article_card_raw: "filter raw_html (display_article_card a) = display_article_card a"
  by (simp add: display_article_card_def)

section \<open>Properties of the page\<close>

text \<open>C29. The card shows an abstract of at most three lines whole: cutting at the third
  line break and joining again gives the abstract back.\<close>

theorem card_abstract_roundtrip:
  assumes "abstract a = Some s" and "length (py_split py_nl s) \<le> 3"
  shows "first_3_lines a = s"
  using assms by (simp add: first_3_lines_def py_join_py_split)

theorem card_abstract_roundtrip_witness:
  "abstract (sample_article ''T'' ''2020'') = Some ''z'' \<and> length (py_split py_nl ''z'') \<le> 3 \<and>
   first_3_lines (sample_article ''T'' ''2020'') = ''z''"
proof -
  have a: "abstract (sample_article ''T'' ''2020'') = Some ''z''" by (simp add: sample_article_def)
  have l: "length (py_split py_nl ''z'') \<le> 3" by (simp add: py_split_def)
  from card_abstract_roundtrip [OF a l] a l show ?thesis by simp
qed

text \<open>C30. The article's title and the first lines of its abstract are put into the card
  as they came from PubMed, and the card is emitted with \<^verbatim>\<open>unsafe_allow_html=True\<close>:
  nothing is escaped, so markup in those fields (ElementTree has already decoded
  \<^verbatim>\<open>&lt;\<close> to \<^verbatim>\<open><\<close>) is interpreted by the browser.\<close>

theorem card_fields_raw_html:
  assumes "title a = Some t"
  shows "\<exists>h. Markdown h True \<in> set (display_article_card a) \<and> py_contains t h \<and>
             py_contains (first_3_lines a) h"
proof -
  obtain p1 p2 p3 where c: "article_card a (first_3_lines a) = p1 @ t @ p2 @ first_3_lines a @ p3"
    using article_card_parts [of a "first_3_lines a"] assms by auto
  have "py_contains t (p1 @ t @ (p2 @ first_3_lines a @ p3))" by (rule py_contains_infix)
  moreover have "py_contains (first_3_lines a) ((p1 @ t @ p2) @ first_3_lines a @ p3)"
    by (rule py_contains_infix)
  ultimately show ?thesis using c
    by (intro exI [of _ "article_card a (first_3_lines a)"]) (simp add: display_article_card_def)
qed

theorem card_fields_raw_html_witness:
  "title (sample_article ''T'' ''2020'') = Some ''T'' \<and>
   (\<exists>h. Markdown h True \<in> set (display_article_card (sample_article ''T'' ''2020'')) \<and> py_contains ''T'' h \<and>
        py_contains (first_3_lines (sample_article ''T'' ''2020'')) h)"
proof -
  have t: "title (sample_article ''T'' ''2020'') = Some ''T''" by (simp add: sample_article_def)
  from card_fields_raw_html [OF t] t show ?thesis by blast
qed

text \<open>C31. On an answer page the only raw-HTML elements are the cards, one pair per
  fetched article in search order, eligible for the context or not; the answer and its
  summary are rendered as plain markdown.\<close>

theorem answer_page_raw_html:
  "filter raw_html (render_page q (Answer full tm arts w)) = concat (map display_article_card arts)"
  by (simp add: render_page_def render_answer_def filter_concat comp_def display_article_card_raw)

text \<open>C32. An article without a title (its \<^verbatim>\<open>ArticleTitle\<close> had no text, for instance
  because it starts with inline markup, C28) is left out of the context but still gets a
  card, whose link text is the string \<^verbatim>\<open>None\<close>: \<^verbatim>\<open>article['title']\<close> is formatted
  by the f-string, not checked.\<close>

theorem untitled_article_card_shows_None:
  assumes "title x = None"
  shows "\<not> eligible x \<and>
     (\<exists>h p1 p2. Markdown h True \<in> set (display_article_card x) \<and> h = p1 @ ''None</a>'' @ p2)"
proof -
  let ?h = "article_card x (first_3_lines x)"
  have h: "?h = (article_card_1 @ url x @ article_card_2) @ ''None</a>'' @
      (drop 4 article_card_3 @ py_join '', '' (authors x) @ article_card_4 @ py_str (published x) @
       article_card_5 @ source x @ article_card_6 @ first_3_lines x @ article_card_7)"
    using assms by (simp add: article_card_def article_card_3_def)
  have m: "Markdown ?h True \<in> set (display_article_card x)" by (simp add: display_article_card_def)
  have e: "\<not> eligible x" using assms by (simp add: eligible_def)
  from e m h show ?thesis by blast
qed

theorem untitled_article_card_shows_None_witness:
  "parse_article (title_with_markup ''In vitro'') = Inr \<lparr>title = None, abstract = Some ''A'', pmid = Some ''No ID'', published = Some ''No date'',
             authors = [''Doe J''], source = ''PubMed'', url = ''No URL''\<rparr> \<and>
   title \<lparr>title = None, abstract = Some ''A'', pmid = Some ''No ID'', published = Some ''No date'',
             authors = [''Doe J''], source = ''PubMed'', url = ''No URL''\<rparr> = None \<and>
   \<not> eligible \<lparr>title = None, abstract = Some ''A'', pmid = Some ''No ID'', published = Some ''No date'',
             authors = [''Doe J''], source = ''PubMed'', url = ''No URL''\<rparr> \<and>
   (\<exists>h p1 p2. Markdown h True \<in> set (display_article_card \<lparr>title = None, abstract = Some ''A'', pmid = Some ''No ID'', published = Some ''No date'',
             authors = [''Doe J''], source = ''PubMed'', url = ''No URL''\<rparr>) \<and> h = p1 @ ''None</a>'' @ p2)"
proof -
  have p: "parse_article (title_with_markup ''In vitro'') = Inr \<lparr>title = None, abstract = Some ''A'', pmid = Some ''No ID'', published = Some ''No date'',
             authors = [''Doe J''], source = ''PubMed'', url = ''No URL''\<rparr>" by (rule parse_title_with_markup)
  have t: "title \<lparr>title = None, abstract = Some ''A'', pmid = Some ''No ID'', published = Some ''No date'',
             authors = [''Doe J''], source = ''PubMed'', url = ''No URL''\<rparr> = None" by simp
  from untitled_article_card_shows_None [OF t] p t show ?thesis by blast
qed

end
