(* ===== verification/Page.thy ===== *)
theory Page
  imports Presentation
begin

text \<open>
  The static part of the page of \<^verbatim>\<open>src/app.py\<close>, emitted on every run of the script:
  the three style sheets at the top (lines 14--96), the style sheet and title after the
  animation is loaded (lines 203--283), and the input controls (lines 291--330): the text
  input, the button, the empty slot the answer is streamed into, the Enter-key script in its
  \<^verbatim>\<open>components.html\<close> frame, and the complexity radio in its expander. The texts are the
  literal strings of the source. Also \<^verbatim>\<open>load_lottiefile\<close> (lines 191--201), which reads
  the animation through a file-system parameter, and \<^verbatim>\<open>startup\<close>, the module-level
  statements from the secrets to the animation (lines 98--201) that can stop the script.
\<close>

section \<open>Style sheets and title\<close>

text \<open>Lines 15--35: the style of the title, the container and the input.\<close>

definition css_main_title :: string where
  "css_main_title =
     py_nl @
     ''    <style>'' @
     py_nl @
     ''        .main-title {'' @
     py_nl @
     ''            margin-top: 40px;'' @
     py_nl @
     ''            margin-bottom: 20px;'' @
     py_nl @
     ''            font-size: 30px;'' @
     py_nl @
     ''            line-height: 1.2;'' @
     py_nl @
     ''            white-space: nowrap;'' @
     py_nl @
     ''        }'' @
     py_nl @
     ''        .input-area, .api-selection, .response-section {'' @
     py_nl @
     ''            margin-top: 20px;'' @
     py_nl @
     ''            margin-bottom: 20px;'' @
     py_nl @
     ''            padding: 20px;'' @
     py_nl @
     ''            border-radius: 10px;'' @
     py_nl @
     ''            background-color: #f9f9f9;'' @
     py_nl @
     ''        }'' @
     py_nl @
     ''        .custom-button {'' @
     py_nl @
     ''            margin-top: 10px;'' @
     py_nl @
     ''        }'' @
     py_nl @
     ''    </style>'' @
     py_nl"

text \<open>Lines 38--80: responsive style.\<close>

definition css_responsive :: string where
  "css_responsive =
     py_nl @
     ''    <style>'' @
     py_nl @
     ''        body {'' @
     py_nl @
     ''            background-color: #f0f2f6;'' @
     py_nl @
     ''        }'' @
     py_nl @
     ''        .main-title {'' @
     py_nl @
     ''            color: #4CAF50;'' @
     py_nl @
     ''        }'' @
     py_nl @
     ''        .input-area, .api-selection, .response-section {'' @
     py_nl @
     ''            background-color: #ffffff;'' @
     py_nl @
     ''            border: 1px solid #ddd;'' @
     py_nl @
     ''        }'' @
     py_nl @
     ''        .custom-button {'' @
     py_nl @
     ''            background-color: #4CAF50;'' @
     py_nl @
     ''            color: white;'' @
     py_nl @
     ''        }'' @
     py_nl @
     ''        .custom-button:hover {'' @
     py_nl @
     ''            background-color: #45a049;'' @
     py_nl @
     ''        }'' @
     py_nl @
     ''        .search-box {'' @
     py_nl @
     ''            width: 100%;'' @
     py_nl @
     ''            font-size: 18px;'' @
     py_nl @
     ''            padding: 10px;'' @
     py_nl @
     ''            border-radius: 5px;'' @
     py_nl @
     ''            border: 1px solid #ccc;'' @
     py_nl @
     ''            margin-bottom: 20px;'' @
     py_nl @
     ''        }'' @
     py_nl @
     ''        .options-container {'' @
     py_nl @
     ''            display: flex;'' @
     py_nl @
     ''            justify-content: space-between;'' @
     py_nl @
     ''            margin-bottom: 20px;'' @
     py_nl @
     ''        }'' @
     py_nl @
     ''        .section-title {'' @
     py_nl @
     ''            font-size: 1em;'' @
     py_nl @
     ''            font-weight: normal;'' @
     py_nl @
     ''            color: #333;'' @
     py_nl @
     ''        }'' @
     py_nl @
     ''        .options-container label {'' @
     py_nl @
     ''            font-size: 1em;'' @
     py_nl @
     ''            color: #333;'' @
     py_nl @
     ''        }'' @
     py_nl @
     ''    </style>'' @
     py_nl"

text \<open>Lines 83--96.\<close>

definition css_additional :: string where
  "css_additional =
     py_nl @
     ''    <style>'' @
     py_nl @
     ''        @media screen and (max-width: 600px) {'' @
     py_nl @
     ''            .main-title {'' @
     py_nl @
     ''                font-size: 25px;'' @
     py_nl @
     ''            }'' @
     py_nl @
     ''        }'' @
     py_nl @
     ''        @media screen and (min-width: 601px) {'' @
     py_nl @
     ''            .main-title {'' @
     py_nl @
     ''                font-size: 30px;'' @
     py_nl @
     ''            }'' @
     py_nl @
     ''        }'' @
     py_nl @
     ''    </style>'' @
     py_nl"

text \<open>Lines 203--280: layout of the columns and options.\<close>

definition css_layout :: string where
  "css_layout =
     py_nl @
     ''    <style>'' @
     py_nl @
     ''        @media screen and (max-width: 600px) {'' @
     py_nl @
     ''            .main-title {'' @
     py_nl @
     ''                font-size: 36px;'' @
     py_nl @
     ''            }'' @
     py_nl @
     ''        }'' @
     py_nl @
     ''        @media screen and (min-width: 601px) {'' @
     py_nl @
     ''            .main-title {'' @
     py_nl @
     ''                font-size: 40px;'' @
     py_nl @
     ''            }'' @
     py_nl @
     ''        }'' @
     py_nl @
     ''        .main-title {'' @
     py_nl @
     ''            font-family: 'Courier New', monospace;'' @
     py_nl @
     ''            color: #4CAF50;'' @
     py_nl @
     ''            text-align: center;'' @
     py_nl @
     ''            font-weight: bold;'' @
     py_nl @
     ''            background: linear-gradient(to right, blue, pink);'' @
     py_nl @
     ''            -webkit-background-clip: text;'' @
     py_nl @
     ''            color: transparent;'' @
     py_nl @
     ''            margin-top: 40px;'' @
     py_nl @
     ''        }'' @
     py_nl @
     ''        .disclaimer {'' @
     py_nl @
     ''            font-size: 14px;'' @
     py_nl @
     ''            color: #888888;'' @
     py_nl @
     ''            margin-bottom: 20px;'' @
     py_nl @
     ''            text-align: center;'' @
     py_nl @
     ''        }'' @
     py_nl @
     ''        .input-area {'' @
     py_nl @
     ''            font-family: 'Courier New', monospace;'' @
     py_nl @
     ''            margin-top: 22px;'' @
     py_nl @
     ''        }'' @
     py_nl @
     ''        .custom-button {'' @
     py_nl @
     ''            background-color: #4CAF50;'' @
     py_nl @
     ''            color: white;'' @
     py_nl @
     ''            border: none;'' @
     py_nl @
     ''            padding: 10px 20px;'' @
     py_nl @
     ''            font-size: 16px;'' @
     py_nl @
     ''            cursor: pointer;'' @
     py_nl @
     ''        }'' @
     py_nl @
     ''        .custom-button:hover {'' @
     py_nl @
     ''            background-color: #45a049;'' @
     py_nl @
     ''        }'' @
     py_nl @
     ''        .article-card {'' @
     py_nl @
     ''            background-color: #f9f9f9;'' @
     py_nl @
     ''            padding: 15px;'' @
     py_nl @
     ''            border-radius: 10px;'' @
     py_nl @
     ''            margin-bottom: 20px;'' @
     py_nl @
     ''            border: 1px solid #ddd;'' @
     py_nl @
     ''        }'' @
     py_nl @
     ''        .article-title {'' @
     py_nl @
     ''            font-size: 1.2em;'' @
     py_nl @
     ''            color: #333;'' @
     py_nl @
     ''            font-weight: bold;'' @
     py_nl @
     ''        }'' @
     py_nl @
     ''        .article-authors {'' @
     py_nl @
     ''            color: #777;'' @
     py_nl @
     ''        }'' @
     py_nl @
     ''        .article-details {'' @
     py_nl @
     ''            margin-top: 10px;'' @
     py_nl @
     ''            font-size: 0.9em;'' @
     py_nl @
     ''            color: #555;'' @
     py_nl @
     ''        }'' @
     py_nl @
     ''        .search-box {'' @
     py_nl @
     ''            width: 100%;'' @
     py_nl @
     ''            font-size: 18px;'' @
     py_nl @
     ''            padding: 10px;'' @
     py_nl @
     ''            border-radius: 5px;'' @
     py_nl @
     ''            border: 1px solid #ccc;'' @
     py_nl @
     ''            margin-bottom: 20px;'' @
     py_nl @
     ''        }'' @
     py_nl @
     ''        .options-container {'' @
     py_nl @
     ''            display: flex;'' @
     py_nl @
     ''            justify-content: space-between;'' @
     py_nl @
     ''            margin-bottom: 20px;'' @
     py_nl @
     ''        }'' @
     py_nl @
     ''    </style>'' @
     py_nl"

text \<open>Line 283.\<close>

definition title_html :: string where
  "title_html = ''<h1 class='' @ [CHR 0x27] @ ''main-title'' @ [CHR 0x27] @ ''>Parenting Assistance Demo</h1>''"

text \<open>Lines 306--316: the Enter-key script.\<close>

definition js_code :: string where
  "js_code =
     py_nl @
     ''<script>'' @
     py_nl @
     ''document.addEventListener('keydown', function(e) {'' @
     py_nl @
     ''    if (e.key == 'Enter') {'' @
     py_nl @
     ''        setTimeout(function() {'' @
     py_nl @
     ''            document.getElementsByTagName('button')[0].click();'' @
     py_nl @
     ''        }, 0);'' @
     py_nl @
     ''    }'' @
     py_nl @
     ''});'' @
     py_nl @
     ''</script>'' @
     py_nl"

section \<open>The page before the handler\<close>

text \<open>Lines 14--96: emitted before the secrets are read.\<close>

definition static_head :: "ui_elem list" where
  "static_head = [Markdown css_main_title True, Markdown css_responsive True, Markdown css_additional True]"

text \<open>Lines 203--330: the style sheet and title, then the controls. The text input has
  an empty collapsed label, its placeholder and at most 200 characters; the radio offers the
  two complexity levels, the first selected by default.\<close>

definition page_controls :: "ui_elem list" where
  "page_controls =
     [Markdown css_layout True, Markdown title_html True,
      Text_input ''Enter your research question here...'' 200, Button ''Generate'', Empty_slot,
      Html_frame js_code 0,
      Markdown (''<div class='' @ [CHR 0x27] @ ''options-container'' @ [CHR 0x27] @ ''>'') True,
      Expander ''Change Complexity to Doctor level:'' [Radio [''Parent'', ''Doctor/Researcher'']],
      Markdown ''</div>'' True]"

section \<open>Configuration\<close>

text \<open>\<^verbatim>\<open>st.secrets\<close>: sections of string values.\<close>

type_synonym secrets = "string \<Rightarrow> (string \<Rightarrow> string option) option"

record config =
  openai_api_key :: string
  ncbi_base_url :: string

text \<open>Lines 98--102: both look-ups (\<open>KeyError\<close> for a missing section or key), then both
  asserts (an empty string is falsy).\<close>

definition load_config :: "secrets \<Rightarrow> py_error + config" where
  "load_config sec =
     (case sec ''openai'' of None \<Rightarrow> Inl KeyError | Some oa \<Rightarrow>
      case oa ''api_key'' of None \<Rightarrow> Inl KeyError | Some k \<Rightarrow>
      case sec ''ncbi'' of None \<Rightarrow> Inl KeyError | Some nc \<Rightarrow>
      case nc ''base_url'' of None \<Rightarrow> Inl KeyError | Some b \<Rightarrow>
      if k = [] then Inl AssertionError
      else if b = [] then Inl AssertionError
      else Inr \<lparr>openai_api_key = k, ncbi_base_url = b\<rparr>)"

section \<open>Loading the animation and starting up\<close>

text \<open>The files the script can open: a missing file, a file whose opening or JSON decoding
  raises (an error other than \<^verbatim>\<open>FileNotFoundError\<close>), or its decoded JSON.\<close>

type_synonym file_system = "string \<Rightarrow> (py_error + json) option"

text \<open>Lines 191--199: a missing file shows an error and gives \<^verbatim>\<open>None\<close>; any other
  exception escapes. The result is the animation and the elements shown.\<close>

definition load_lottiefile :: "file_system \<Rightarrow> string \<Rightarrow> py_error + (json option \<times> ui_elem list)" where
  "load_lottiefile fs filepath =
     (case fs filepath of
        None \<Rightarrow> Inr (None, [Error_box (''File '' @ filepath @ '' not found.'')])
      | Some (Inl e) \<Rightarrow> Inl e
      | Some (Inr j) \<Rightarrow> Inr (Some j, []))"

text \<open>Lines 98--201 in order: the secrets and their asserts, then the animation (line 201).
  Logging and the client object (lines 104--114) cannot fail here and show nothing.\<close>

definition startup :: "file_system \<Rightarrow> secrets \<Rightarrow> py_error + (config \<times> json option \<times> ui_elem list)" where
  "startup fs sec =
     (case load_config sec of
        Inl e \<Rightarrow> Inl e
      | Inr cfg \<Rightarrow>
          (case load_lottiefile fs ''animation.json'' of
             Inl e \<Rightarrow> Inl e
           | Inr (anim, errs) \<Rightarrow> Inr (cfg, anim, errs)))"

section \<open>Specification helpers\<close>

text \<open>The value of \<^verbatim>\<open>st.secrets[s][k]\<close>, \<open>None\<close> when the section or the key is
  missing.\<close>

definition secret :: "secrets \<Rightarrow> string \<Rightarrow> string \<Rightarrow> string option" where
  "secret sec s k = (case sec s of None \<Rightarrow> None | Some m \<Rightarrow> m k)"

text \<open>A file system holding a malformed animation file, with valid secrets.\<close>

definition secrets_valid :: secrets where
  "secrets_valid s =
     (if s = ''openai'' then Some (\<lambda>k. if k = ''api_key'' then Some ''sk'' else None)
      else if s = ''ncbi'' then Some (\<lambda>k. if k = ''base_url'' then Some ''B/'' else None)
      else None)"

definition files_bad_json :: file_system where
  "files_bad_json p = (if p = ''animation.json'' then Some (Inl JSONDecodeError) else None)"

section \<open>Properties of start-up\<close>

text \<open>C23. Start-up fails exactly in these cases: with \<open>KeyError\<close> when
  \<^verbatim>\<open>openai.api_key\<close> or \<^verbatim>\<open>ncbi.base_url\<close> is missing; with \<open>AssertionError\<close> when
  both are present and one is empty; and, when both are non-empty, with whatever opening
  or decoding \<^verbatim>\<open>animation.json\<close> raises other than \<^verbatim>\<open>FileNotFoundError\<close>. A missing
  animation file is only reported, while a malformed one stops every run of the script,
  like a missing secret.\<close>

theorem startup_fatal_errors:
  "startup fs sec = Inl e \<longleftrightarrow>
     (e = KeyError \<and> (secret sec ''openai'' ''api_key'' = None \<or> secret sec ''ncbi'' ''base_url'' = None)) \<or>
     (e = AssertionError \<and> (\<exists>k b. secret sec ''openai'' ''api_key'' = Some k \<and>
        secret sec ''ncbi'' ''base_url'' = Some b \<and> (k = [] \<or> b = []))) \<or>
     ((\<exists>k b. secret sec ''openai'' ''api_key'' = Some k \<and> secret sec ''ncbi'' ''base_url'' = Some b \<and>
        k \<noteq> [] \<and> b \<noteq> []) \<and> fs ''animation.json'' = Some (Inl e))"
  by (auto simp: startup_def load_config_def load_lottiefile_def secret_def
      split: sum.splits option.splits if_splits)

theorem startup_fatal_errors_witness:
  "startup files_bad_json secrets_valid = Inl JSONDecodeError \<and>
   ((\<exists>k b. secret secrets_valid ''openai'' ''api_key'' = Some k \<and> secret secrets_valid ''ncbi'' ''base_url'' = Some b \<and>
        k \<noteq> [] \<and> b \<noteq> []) \<and> files_bad_json ''animation.json'' = Some (Inl JSONDecodeError))"
proof -
  have s: "secret secrets_valid ''openai'' ''api_key'' = Some ''sk''" "secret secrets_valid ''ncbi'' ''base_url'' = Some ''B/''"
    by (simp_all add: secret_def secrets_valid_def)
  have f: "files_bad_json ''animation.json'' = Some (Inl JSONDecodeError)" by (simp add: files_bad_json_def)
  from startup_fatal_errors [of files_bad_json secrets_valid JSONDecodeError] s f show ?thesis by auto
qed

end
