(* ===== verification/Session.thy ===== *)
theory Session
  imports Page "HOL-Library.Monad_Syntax"
begin

text \<open>
  The Streamlit session of \<^verbatim>\<open>src/app.py\<close>: every user action reruns the whole script
  against \<^verbatim>\<open>st.session_state\<close>. The theory models \<^verbatim>\<open>create_assistant\<close> and \<^verbatim>\<open>create_thread\<close> (lines
  142--151, 167--170), the session keys the script sets when they are missing (lines
  286--287, 333--341), the Enter callback of the text input (lines 289--299), and one rerun
  as the composition of these with the start-up and static page of theory Page, the
  request handler of theory Pipeline and the page of theory Presentation (\<open>rerun\<close>); a sequence of user actions is \<open>reruns\<close>. The lemmas
  show that the session is well formed after every rerun, that the assistant and the
  thread are created once and the thread's history only grows, that a failed start-up
  stops every rerun, and that the answer does not survive the next rerun.
\<close>

section \<open>The assistant and the thread\<close>

record assistant =
  asst_name :: string
  instructions :: string
  model :: string

text \<open>Lines 142--151.\<close>

definition create_assistant :: assistant where
  "create_assistant =
     \<lparr>asst_name = ''Research Assistant'',
      instructions = py_nl @ ''        You are a research assistant. Accuracy is of the utmost importance'' @
                     py_nl @ ''        '',
      model = ''gpt-4o-mini''\<rparr>"

text \<open>Lines 167--170: a new thread has no message and no run.\<close>

definition create_thread :: thread where
  "create_thread = \<lparr>messages = [], runs = []\<rparr>"

section \<open>The session state and one rerun\<close>

text \<open>\<^verbatim>\<open>st.session_state\<close>: the keys the script sets (\<open>None\<close> while absent) and the
  values of the two keyed widgets (the text input, default empty, and the radio, default
  its first option).\<close>

record session =
  ss_enter :: "bool option"
  ss_history :: "(string \<times> string) list option"
  ss_assistant :: "assistant option"
  ss_thread :: "thread option"
  ss_input :: string
  ss_level :: string

definition session_empty :: session where
  "session_empty = \<lparr>ss_enter = None, ss_history = None, ss_assistant = None, ss_thread = None,
     ss_input = [], ss_level = ''Parent''\<rparr>"

text \<open>The user actions that rerun the script: the first load, committing a new text in the
  input (Enter or leaving the field), the button, and the radio.\<close>

datatype ui_event =
    Page_load
  | Edit_text string
  | Click_generate
  | Choose_level string

text \<open>Streamlit stores the widget's new value and runs its callback before the rerun:
  \<^verbatim>\<open>on_enter_pressed\<close> (lines 289--290) for the text input.\<close>

fun apply_event :: "session \<Rightarrow> ui_event \<Rightarrow> session" where
  "apply_event s (Edit_text q) = s\<lparr>ss_input := q, ss_enter := Some True\<rparr>"
| "apply_event s (Choose_level l) = s\<lparr>ss_level := l\<rparr>"
| "apply_event s _ = s"

definition init_history :: "(string \<times> string) list" where
  "init_history = [(''system'', ''You are a helpful assistant.'')]"

text \<open>Lines 286--287 and 333--341: the keys set on the first run and kept afterwards.\<close>

definition init_session :: "session \<Rightarrow> session" where
  "init_session s =
     s\<lparr>ss_enter := Some (case ss_enter s of None \<Rightarrow> False | Some b \<Rightarrow> b),
       ss_history := Some (case ss_history s of None \<Rightarrow> init_history | Some h \<Rightarrow> h),
       ss_assistant := Some (case ss_assistant s of None \<Rightarrow> create_assistant | Some a \<Rightarrow> a),
       ss_thread := Some (case ss_thread s of None \<Rightarrow> create_thread | Some t \<Rightarrow> t)\<rparr>"

text \<open>One rerun: the event, the style sheets at the top, the start-up statements (an
  exception stops the script: Streamlit shows it), the style sheet, title and controls, the
  session keys, the widgets (\<^verbatim>\<open>generate\<close> is true only in the rerun the button caused),
  then the request handler. The result is the page in the order the script emits it, the
  session after the rerun and the URLs requested; \<open>None\<close> when a turn waits forever.\<close>

definition rerun ::
  "file_system \<Rightarrow> secrets \<Rightarrow> assistant_env \<Rightarrow> network \<Rightarrow> session \<Rightarrow> ui_event
   \<Rightarrow> (ui_elem list \<times> session \<times> string list) option" where
  "rerun fs sec env net s ev =
     (let s1 = apply_event s ev
      in case startup fs sec of
           Inl e \<Rightarrow> Some (static_head @ [Exception_box e], s1, [])
         | Inr (cfg, anim, errs) \<Rightarrow>
             (let s2 = init_session s1
              in do {
                   (p, e', th', tr) \<leftarrow> handle_request env net (ncbi_base_url cfg) (the (ss_thread s2))
                                        (ev = Click_generate) (the (ss_enter s2)) (ss_input s2) (ss_level s2);
                   Some (static_head @ errs @ page_controls @ render_page (ss_input s2) p,
                         s2\<lparr>ss_enter := Some e', ss_thread := Some th'\<rparr>, tr)
                 }))"

text \<open>A sequence of user actions; each rerun gives its page and its requests.\<close>

fun reruns ::
  "file_system \<Rightarrow> secrets \<Rightarrow> assistant_env \<Rightarrow> network \<Rightarrow> session \<Rightarrow> ui_event list
   \<Rightarrow> ((ui_elem list \<times> string list) list \<times> session) option" where
  "reruns fs sec env net s [] = Some ([], s)"
| "reruns fs sec env net s (ev # evs) = do {
     (p, s1, tr) \<leftarrow> rerun fs sec env net s ev;
     (ps, s2) \<leftarrow> reruns fs sec env net s1 evs;
     Some ((p, tr) # ps, s2)
   }"

section \<open>Specification helpers and sample secrets\<close>

text \<open>A session on which the handler can run: every key the script sets is present.\<close>

definition session_wf :: "session \<Rightarrow> bool" where
  "session_wf s = (ss_enter s \<noteq> None \<and> ss_history s \<noteq> None \<and> ss_assistant s \<noteq> None \<and> ss_thread s \<noteq> None)"

text \<open>A file system holding the animation, and secrets without the \<^verbatim>\<open>ncbi\<close>
  section.\<close>

definition files_ok :: file_system where
  "files_ok p = (if p = ''animation.json'' then Some (Inr (JObject [])) else None)"

definition secrets_no_ncbi :: secrets where
  "secrets_no_ncbi sec = (if sec = ''openai'' then Some (\<lambda>k. if k = ''api_key'' then Some ''sk'' else None) else None)"

section \<open>Lemmas\<close>

lemma generate_response_extends:
  assumes "generate_response env th q len (build_context arts) = Some (r, th')"
  shows "\<exists>a. messages th' = messages th @ a"
proof (cases "py_strip q = []")
  case True
  with assms show ?thesis by (simp add: generate_response_def)
next
  case False
  obtain full tm where "r = (full, tm)" by fastforce
  with generate_response_Some [OF False build_context_not_blank] assms show ?thesis by blast
qed

lemma handle_request_extends:
  assumes "handle_request env net base th g e q sel = Some (p, e', th', tr)"
  shows "\<exists>a. messages th' = messages th @ a"
proof -
  consider "\<not> (g \<or> e) \<or> q = []" | kws th1 where "g \<or> e" "q \<noteq> []"
      "extract_keywords env th q = Some (kws, th1)"
    using assms by (auto simp: handle_request_def split: option.splits if_splits)
  then show ?thesis
  proof cases
    case 1
    with assms show ?thesis by (auto simp: handle_request_def split: if_splits)
  next
    case 2
    from extract_keywords_Some [OF 2(3)] obtain a1 where a1: "messages th1 = messages th @ a1" by blast
    show ?thesis
    proof (cases "fst (search_ncbi net base kws (if sel = ''Parent'' then 10 else 15))")
      case (Inl err)
      with assms 2 a1 show ?thesis
        by (auto simp: handle_request_def Let_def split: prod.splits)
    next
      case (Inr arts)
      with assms 2 obtain r where
        "generate_response env th1 q sel (build_context arts) = Some (r, th')"
        by (auto simp: handle_request_def Let_def split: prod.splits option.splits)
      from generate_response_extends [OF this] a1 show ?thesis by auto
    qed
  qed
qed

lemma handle_request_enter_reset:
  "q \<noteq> [] \<Longrightarrow> handle_request env net base th g e q sel = Some (p, e', th', tr) \<Longrightarrow> \<not> e'"
  by (auto simp: handle_request_def Let_def split: if_splits option.splits prod.splits sum.splits)

lemma rerun_ok:
  assumes "startup fs sec = Inr (cfg, anim, errs)" and "rerun fs sec env net s ev = Some (p, s', tr)"
  shows "\<exists>pg e' th'.
     handle_request env net (ncbi_base_url cfg) (the (ss_thread (init_session (apply_event s ev))))
       (ev = Click_generate) (the (ss_enter (init_session (apply_event s ev))))
       (ss_input (apply_event s ev)) (ss_level (apply_event s ev)) = Some (pg, e', th', tr) \<and>
     p = static_head @ errs @ page_controls @ render_page (ss_input (apply_event s ev)) pg \<and>
     s' = (init_session (apply_event s ev))\<lparr>ss_enter := Some e', ss_thread := Some th'\<rparr>"
  using assms by (auto simp: rerun_def Let_def init_session_def bind_eq_Some_conv split: prod.splits)

lemma init_session_wf: "session_wf (init_session s)"
  by (simp add: session_wf_def init_session_def)

lemma init_session_id: "session_wf s \<Longrightarrow> init_session s = s"
  by (auto simp: session_wf_def init_session_def)

lemma apply_event_wf: "session_wf s \<Longrightarrow> session_wf (apply_event s ev)"
  by (cases ev) (simp_all add: session_wf_def)

lemma apply_event_keeps [simp]:
  "ss_history (apply_event s ev) = ss_history s" "ss_assistant (apply_event s ev) = ss_assistant s"
  "ss_thread (apply_event s ev) = ss_thread s"
  by (cases ev; simp)+

lemma startup_ok: "startup files_ok secrets_valid = Inr (\<lparr>openai_api_key = ''sk'', ncbi_base_url = ''B/''\<rparr>, Some (JObject []), [])"
  by (simp add: startup_def load_config_def secrets_valid_def load_lottiefile_def files_ok_def)

lemma rerun_keeps:
  assumes "startup fs sec = Inr (cfg, anim, errs)" and "session_wf s" and "rerun fs sec env net s ev = Some (p, s', tr)"
  shows "session_wf s' \<and> ss_assistant s' = ss_assistant s \<and> ss_history s' = ss_history s \<and>
         prefix (messages (the (ss_thread s))) (messages (the (ss_thread s')))"
proof -
  from rerun_ok [OF assms(1,3)] obtain pg e' th' where
    h: "handle_request env net (ncbi_base_url cfg) (the (ss_thread (init_session (apply_event s ev))))
       (ev = Click_generate) (the (ss_enter (init_session (apply_event s ev))))
       (ss_input (apply_event s ev)) (ss_level (apply_event s ev)) = Some (pg, e', th', tr)"
    and s': "s' = (init_session (apply_event s ev))\<lparr>ss_enter := Some e', ss_thread := Some th'\<rparr>"
    by blast
  have i: "init_session (apply_event s ev) = apply_event s ev"
    by (rule init_session_id [OF apply_event_wf [OF assms(2)]])
  from handle_request_extends [OF h] i s' init_session_wf [of "apply_event s ev"] show ?thesis
    by (auto simp: session_wf_def prefix_def)
qed

lemma reruns_keeps:
  "startup fs sec = Inr (cfg, anim, errs) \<Longrightarrow> session_wf s \<Longrightarrow> reruns fs sec env net s evs = Some (ps, s') \<Longrightarrow>
   session_wf s' \<and> ss_assistant s' = ss_assistant s \<and> ss_history s' = ss_history s \<and>
   prefix (messages (the (ss_thread s))) (messages (the (ss_thread s')))"
proof (induction evs arbitrary: s ps)
  case Nil
  then show ?case by simp
next
  case (Cons ev evs)
  from Cons.prems(3) obtain p s1 tr ps' where
    r: "rerun fs sec env net s ev = Some (p, s1, tr)" and rs: "reruns fs sec env net s1 evs = Some (ps', s')"
    by (auto simp: bind_eq_Some_conv split: prod.splits)
  from rerun_keeps [OF Cons.prems(1,2) r] have k: "session_wf s1 \<and> ss_assistant s1 = ss_assistant s \<and>
      ss_history s1 = ss_history s \<and> prefix (messages (the (ss_thread s))) (messages (the (ss_thread s1)))" .
  with Cons.IH [OF Cons.prems(1) _ rs] show ?case by (auto intro: prefix_order.trans)
qed

section \<open>Properties of the session\<close>

text \<open>C33. Whatever state the session was in, after a rerun with valid secrets every key
  the script relies on is set: the Enter flag, the history, the assistant and the thread.\<close>

theorem rerun_session_wf:
  assumes "startup fs sec = Inr (cfg, anim, errs)" and "rerun fs sec env net s ev = Some (p, s', tr)"
  shows "session_wf s'"
  using rerun_ok [OF assms] init_session_wf [of "apply_event s ev"] by (auto simp: session_wf_def)

theorem rerun_session_wf_witness:
  "startup files_ok secrets_valid = Inr (\<lparr>openai_api_key = ''sk'', ncbi_base_url = ''B/''\<rparr>, Some (JObject []), []) \<and>
   rerun files_ok secrets_valid (env_const ''kw'') net_no_hits session_empty Page_load
     = Some (static_head @ page_controls, init_session session_empty, []) \<and>
   session_wf (init_session session_empty)"
proof -
  have r: "rerun files_ok secrets_valid (env_const ''kw'') net_no_hits session_empty Page_load
     = Some (static_head @ page_controls, init_session session_empty, [])"
    by (simp add: rerun_def startup_ok init_session_def session_empty_def handle_request_def
        render_page_def)
  from rerun_session_wf [OF startup_ok r] r startup_ok show ?thesis by simp
qed

text \<open>C34. The assistant and the history are created only when the session has none, and
  kept otherwise: over any sequence of reruns, from any session, the assistant and the
  history at the end are those the session held, or, where it held none, the ones
  \<^verbatim>\<open>create_assistant\<close> and the initialisation of lines 333--335 give. So
  \<^verbatim>\<open>create_assistant\<close> runs at most once per session, and
  \<^verbatim>\<open>conversation_history\<close> keeps its first value for ever (the script never reads or
  extends it).\<close>

theorem assistant_created_once:
  assumes "startup fs sec = Inr (cfg, anim, errs)" and "reruns fs sec env net s (ev # evs) = Some (ps, s')"
  shows "ss_assistant s' = Some (case ss_assistant s of None \<Rightarrow> create_assistant | Some a \<Rightarrow> a) \<and>
         ss_history s' = Some (case ss_history s of None \<Rightarrow> init_history | Some h \<Rightarrow> h)"
proof -
  from assms(2) obtain p s1 tr ps' where
    r: "rerun fs sec env net s ev = Some (p, s1, tr)" and rs: "reruns fs sec env net s1 evs = Some (ps', s')"
    by (auto simp: bind_eq_Some_conv split: prod.splits)
  from rerun_ok [OF assms(1) r] have s1:
    "ss_assistant s1 = Some (case ss_assistant s of None \<Rightarrow> create_assistant | Some a \<Rightarrow> a)"
    "ss_history s1 = Some (case ss_history s of None \<Rightarrow> init_history | Some h \<Rightarrow> h)"
    by (auto simp: init_session_def)
  have "session_wf s1" using rerun_ok [OF assms(1) r] init_session_wf [of "apply_event s ev"]
    by (auto simp: session_wf_def)
  from reruns_keeps [OF assms(1) this rs] s1 show ?thesis by simp
qed

theorem assistant_created_once_witness:
  "startup files_ok secrets_valid = Inr (\<lparr>openai_api_key = ''sk'', ncbi_base_url = ''B/''\<rparr>, Some (JObject []), []) \<and>
   reruns files_ok secrets_valid (env_const ''kw'') net_no_hits (session_empty\<lparr>ss_assistant := Some (create_assistant\<lparr>model := ''gpt-4o''\<rparr>)\<rparr>) [Page_load, Page_load]
     = Some ([(static_head @ page_controls, []), (static_head @ page_controls, [])], init_session (session_empty\<lparr>ss_assistant := Some (create_assistant\<lparr>model := ''gpt-4o''\<rparr>)\<rparr>)) \<and>
   ss_assistant (init_session (session_empty\<lparr>ss_assistant := Some (create_assistant\<lparr>model := ''gpt-4o''\<rparr>)\<rparr>)) = Some (create_assistant\<lparr>model := ''gpt-4o''\<rparr>) \<and>
   ss_history (init_session (session_empty\<lparr>ss_assistant := Some (create_assistant\<lparr>model := ''gpt-4o''\<rparr>)\<rparr>)) = Some init_history"
proof -
  have r: "reruns files_ok secrets_valid (env_const ''kw'') net_no_hits (session_empty\<lparr>ss_assistant := Some (create_assistant\<lparr>model := ''gpt-4o''\<rparr>)\<rparr>) [Page_load, Page_load]
     = Some ([(static_head @ page_controls, []), (static_head @ page_controls, [])], init_session (session_empty\<lparr>ss_assistant := Some (create_assistant\<lparr>model := ''gpt-4o''\<rparr>)\<rparr>))"
    by (simp add: rerun_def startup_ok init_session_def session_empty_def handle_request_def
        render_page_def)
  from assistant_created_once [OF startup_ok r] r startup_ok show ?thesis by (simp add: session_empty_def)
qed

text \<open>C35. The thread's history is append-only over a whole session: whatever the user
  does, each rerun keeps the messages the thread had and can only add to them, so
  the messages of earlier questions stay in the context of later ones.\<close>

theorem dialogue_history_append_only:
  assumes "startup fs sec = Inr (cfg, anim, errs)" and "session_wf s" and "reruns fs sec env net s evs = Some (ps, s')"
  shows "prefix (messages (the (ss_thread s))) (messages (the (ss_thread s')))"
  using reruns_keeps [OF assms] by blast

theorem dialogue_history_append_only_witness:
  "startup files_ok secrets_valid = Inr (\<lparr>openai_api_key = ''sk'', ncbi_base_url = ''B/''\<rparr>, Some (JObject []), []) \<and>
   session_wf (init_session session_empty) \<and>
   reruns files_ok secrets_valid (env_const ''kw'') net_no_hits (init_session session_empty) [Page_load]
     = Some ([(static_head @ page_controls, [])], init_session session_empty) \<and>
   prefix (messages (the (ss_thread (init_session session_empty))))
          (messages (the (ss_thread (init_session session_empty))))"
proof -
  have r: "reruns files_ok secrets_valid (env_const ''kw'') net_no_hits (init_session session_empty) [Page_load]
     = Some ([(static_head @ page_controls, [])], init_session session_empty)"
    by (simp add: rerun_def startup_ok init_session_def session_empty_def handle_request_def
        render_page_def)
  have w: "session_wf (init_session session_empty)" by (rule init_session_wf)
  from dialogue_history_append_only [OF startup_ok w r] r w startup_ok show ?thesis by simp
qed

text \<open>C36. A failed start-up (a missing or empty secret, or a malformed animation file) is
  fatal: every rerun shows the three style sheets of the top of the script and the
  exception, before any input control is rendered, makes no request, and never creates the
  assistant or the thread.\<close>

theorem missing_secret_fatal:
  assumes "startup fs sec = Inl e"
  shows "reruns fs sec env net s evs = Some (map (\<lambda>_. (static_head @ [Exception_box e], [])) evs, foldl apply_event s evs) \<and>
         ss_assistant (foldl apply_event s evs) = ss_assistant s \<and> ss_thread (foldl apply_event s evs) = ss_thread s"
proof (induction evs arbitrary: s)
  case Nil
  then show ?case by simp
next
  case (Cons ev evs)
  then show ?case using assms by (simp add: rerun_def)
qed

theorem missing_secret_fatal_witness:
  "startup files_ok secrets_no_ncbi = Inl KeyError \<and>
   reruns files_ok secrets_no_ncbi (env_const ''kw'') net_no_hits session_empty [Page_load, Edit_text ''q'']
     = Some ([(static_head @ [Exception_box KeyError], []), (static_head @ [Exception_box KeyError], [])],
             session_empty\<lparr>ss_input := ''q'', ss_enter := Some True\<rparr>) \<and>
   ss_assistant (session_empty\<lparr>ss_input := ''q'', ss_enter := Some True\<rparr>) = None"
proof -
  have c: "startup files_ok secrets_no_ncbi = Inl KeyError"
    by (simp add: startup_def load_config_def secrets_no_ncbi_def)
  from missing_secret_fatal [OF c, of "env_const ''kw''" net_no_hits session_empty "[Page_load, Edit_text ''q'']"] c
  show ?thesis by (simp add: session_empty_def)
qed

text \<open>C37. The answer does not survive the next rerun: once a question has been
  processed, changing the complexity level reruns the script with the button not pressed
  and the Enter flag reset, so the handler does nothing and the page loses the answer, the
  summary and the cards, while no new answer is requested for the new level.\<close>

theorem answer_lost_on_next_rerun:
  assumes "startup fs sec = Inr (cfg, anim, errs)" and "rerun fs sec env net s ev = Some (p, s1, tr)" and "ss_input s1 \<noteq> []"
  shows "rerun fs sec env net s1 (Choose_level l) = Some (static_head @ errs @ page_controls, s1\<lparr>ss_level := l\<rparr>, [])"
proof -
  from rerun_ok [OF assms(1,2)] obtain pg e' th' where
    h: "handle_request env net (ncbi_base_url cfg) (the (ss_thread (init_session (apply_event s ev))))
       (ev = Click_generate) (the (ss_enter (init_session (apply_event s ev))))
       (ss_input (apply_event s ev)) (ss_level (apply_event s ev)) = Some (pg, e', th', tr)"
    and s1: "s1 = (init_session (apply_event s ev))\<lparr>ss_enter := Some e', ss_thread := Some th'\<rparr>"
    by blast
  from s1 assms(3) have "ss_input (apply_event s ev) \<noteq> []" by (simp add: init_session_def)
  from handle_request_enter_reset [OF this h] have "\<not> e'" .
  with s1 have wf: "session_wf (s1\<lparr>ss_level := l\<rparr>)" and en: "ss_enter s1 = Some False"
    and th: "ss_thread s1 = Some th'"
    using init_session_wf [of "apply_event s ev"] by (auto simp: session_wf_def)
  from init_session_id [OF wf] en th assms(1) show ?thesis
    by (simp add: rerun_def handle_request_def render_page_def)
qed

theorem answer_lost_on_next_rerun_witness:
  "\<exists>p s1 tr. startup files_ok secrets_valid = Inr (\<lparr>openai_api_key = ''sk'', ncbi_base_url = ''B/''\<rparr>, Some (JObject []), []) \<and>
     rerun files_ok secrets_valid (env_const ''kw'') net_no_hits session_empty (Edit_text ''q'') = Some (p, s1, tr) \<and>
     Markdown ''kw'' False \<in> set p \<and> ss_input s1 \<noteq> [] \<and>
     rerun files_ok secrets_valid (env_const ''kw'') net_no_hits s1 (Choose_level ''Doctor/Researcher'')
       = Some (static_head @ page_controls, s1\<lparr>ss_level := ''Doctor/Researcher''\<rparr>, [])"
proof -
  let ?th = "\<lparr>messages = [(User, opt_task ''q''), (Assistant, ''kw''), (User, kw_task ''kw''), (Assistant, ''kw''),
            (User, opt_task ''q''), (Assistant, ''kw''),
            (User, generate_prompt ''kw'' ''Parent'' (build_context [])), (Assistant, ''kw''),
            (User, text_message_prompt ''kw''), (Assistant, ''kw'')],
          runs = [Completed]\<rparr>"
  let ?s1 = "\<lparr>ss_enter = Some False, ss_history = Some init_history, ss_assistant = Some create_assistant,
             ss_thread = Some ?th, ss_input = ''q'', ss_level = ''Parent''\<rparr>"
  let ?tr = "[esearch_url ''B/'' ''kw'' 10, esearch_url ''B/'' ''kw'' 10]"
  have h: "handle_request (env_const ''kw'') net_no_hits ''B/'' create_thread False True ''q'' ''Parent''
     = Some (Answer ''kw'' ''kw'' [] True, False, ?th, ?tr)"
    by (simp add: handle_request_def extract_keywords_def optimize_question_def turn_def
      add_message_to_thread_def wait_idle.simps run_assistant_def Let_def stream_text_deltas env_const_def
      create_thread_def find_active_def py_str_simps search_ncbi_def search_attempt_def net_no_hits_def
      esearch_ids_def fetch_article_details_def generate_response_def build_context_def no_articles_msg_def)
  have r: "rerun files_ok secrets_valid (env_const ''kw'') net_no_hits session_empty (Edit_text ''q'')
     = Some (static_head @ page_controls @ render_page ''q'' (Answer ''kw'' ''kw'' [] True), ?s1, ?tr)"
    by (simp add: rerun_def startup_ok init_session_def session_empty_def h)
  have p: "Markdown ''kw'' False \<in> set (static_head @ page_controls @ render_page ''q'' (Answer ''kw'' ''kw'' [] True))"
    by (simp add: render_page_def render_answer_def)
  have i: "ss_input ?s1 \<noteq> []" by simp
  note c = answer_lost_on_next_rerun [OF startup_ok r i, of "''Doctor/Researcher''", unfolded append_Nil]
  show ?thesis
    by (rule exI [of _ "static_head @ page_controls @ render_page ''q'' (Answer ''kw'' ''kw'' [] True)"], rule exI [of _ ?s1],
        rule exI [of _ ?tr]) (intro conjI startup_ok r p i c)
qed

end
