(* ===== verification/Spec2Isabelle.thy ===== *)
theory Spec2Isabelle
  imports Session
begin

text \<open>
  A verification library for \<^verbatim>\<open>src/app.py\<close> of ParentAssistingDemo, a Streamlit page
  that turns a parenting question into a literature-backed answer: it distils the question
  and extracts keywords through an OpenAI assistant thread, searches PubMed (NCBI
  E-utilities) with them, formats the articles as a context block sorted newest first, and
  has the assistant answer from that context and then summarise the answer.

  \<^bold>\<open>Theories and what they model.\<close>
  \<^item> Prelude: the Python exceptions that escape the code (\<open>py_error\<close>) and the
    \<^verbatim>\<open>str\<close> operations it uses (\<open>py_split\<close>, \<open>py_join\<close>, \<open>py_strip\<close>,
    \<open>py_isdigit\<close>, \<open>py_contains\<close>, \<open>py_str\<close>), with the round-trip laws of split and join.
  \<^item> Streaming: class \<^verbatim>\<open>EventHandler\<close> (lines 116--140) as the record
    \<open>event_handler\<close>, its callbacks (\<open>on_text_delta\<close>, \<open>handle_event\<close>), and the draining
    of a run stream (\<open>until_done\<close>, \<open>stream_text\<close>). Properties C5--C7.
  \<^item> Turns: \<^verbatim>\<open>add_message_to_thread\<close> (lines 172--189) with its polling loop as
    \<open>wait_idle\<close>, a \<^theory_text>\<open>partial_function (option)\<close> over the successive answers of
    \<^verbatim>\<open>runs.list\<close>, and \<^verbatim>\<open>run_assistant\<close> (lines 153--165); then the protocol of the
    script and the server as the inductive relation \<open>sys_step\<close> (script steps of lines
    172--189 and 156--163, reruns that abandon the script anywhere, server steps that move
    runs to a terminal status) with \<open>reachable\<close> states and the invariant \<open>sys_inv\<close>.
    Properties C1--C4, and C26: from every polling state the server can end the active
    runs and let the message through.
  \<^item> Literature: \<^verbatim>\<open>fetch_article_details\<close> and \<^verbatim>\<open>search_ncbi\<close> (lines 491--556) with
    the network as a parameter (\<open>network\<close>), JSON and XML bodies as datatypes,
    ElementTree's path queries as functions on \<open>xml\<close>, and the URLs requested returned as a
    trace. Properties C8--C13, C27 and C38.
  \<^item> Context: the context block the request handler builds from the articles (lines
    644--648) as \<open>format_article\<close> and \<open>build_context\<close>, and what
    \<^verbatim>\<open>generate_prompt\<close> does with it (lines 383--404) as \<open>safe_sort_key\<close> and
    \<open>sort_context\<close>: split it back into blocks at blank lines and sort them by the text after
    \<^verbatim>\<open>Published: \<close>. Python's stable \<^verbatim>\<open>sorted(..., reverse=True)\<close> is
    \<open>py_sorted_desc\<close>, an insertion sort proved to be a stable descending sort (lemma
    \<open>py_sorted_desc_correct\<close>).
    The refinement C14 shows that the string round trip equals sorting the articles
    themselves by their year key, as long as no block holds a blank line or a second
    \<^verbatim>\<open>Published: \<close>; C16 shows that the year keys compare as strings, and the lemma
    \<open>blank_line_in_abstract_detaches_tail\<close> what a blank line in an abstract does.
    Properties C14--C16 and C28.
  \<^item> Pipeline: \<^verbatim>\<open>optimize_question\<close> and \<^verbatim>\<open>extract_keywords\<close> (lines 343--372),
    \<^verbatim>\<open>generate_prompt\<close> and \<^verbatim>\<open>generate_response\<close> (lines 374--489, the prompt
    templates as the literal texts of the source), and the request handler at the end of
    the script (lines 615--664) as \<open>handle_request\<close>, returning the page it shows
    (\<open>page\<close>), the new \<^verbatim>\<open>enter_pressed\<close> flag, the thread and the URL trace. The
    assistant is a record of functions of the thread history (\<open>assistant_env\<close>): the
    successive \<^verbatim>\<open>runs.list\<close> answers, the stream events of a run and its final status.
    Properties C17--C21, C24 and C25.
  \<^item> Presentation: \<^verbatim>\<open>display_article_card\<close> (lines 558--612) with its style sheet and
    card as the literal texts of the source (\<open>css_styles\<close>, \<open>article_card\<close>), and the
    elements the main logic adds to the page for each outcome of the handler
    (\<open>render_page\<close>, lines 616--664), as a list of \<open>ui_elem\<close> that records the
    \<^verbatim>\<open>unsafe_allow_html\<close> flag. Properties C29--C32.
  \<^item> Page: the static page, that is, the style sheets (lines 14--96, 203--280), the title
    and the input controls (lines 283--330) as the literal texts and widgets of the source
    (\<open>static_head\<close>, \<open>page_controls\<close>); the secrets (\<open>load_config\<close>, lines 98--102);
    \<^verbatim>\<open>load_lottiefile\<close> (lines 191--201) over a file-system parameter; and their
    composition \<open>startup\<close>. Property C23.
  \<^item> Session: \<^verbatim>\<open>create_assistant\<close> and
    \<^verbatim>\<open>create_thread\<close>, the \<^verbatim>\<open>st.session_state\<close> keys (record \<open>session\<close>,
    \<open>init_session\<close>, lines 286--287 and 333--341), the widgets and the Enter callback as
    the user actions that rerun the script (\<open>ui_event\<close>, \<open>apply_event\<close>), and one
    rerun of the whole script (\<open>rerun\<close>), the composition of all of the above, which
    returns the whole page in the order the script emits it; a
    sequence of actions is \<open>reruns\<close>. Properties C33--C37.
  \<^item> Spec2Isabelle (this theory): C22, the end-to-end property that the answer prompt
    carries the fetched articles newest first, which uses all of the above: the turn
    sequence of the handler (Pipeline, Turns), the search (Literature) and the context
    refinement (Context).

  \<^bold>\<open>Bounds and fuel.\<close> No fuel is used. The only loop that need not end, the polling loop,
  is a \<^theory_text>\<open>partial_function (option)\<close>; C1 states exactly when it returns (some later
  listing shows no active run) and that it returns the first such listing, so that it never
  returning is a theorem about the server's behaviour, not an assumption.
  The search is bounded by its structure: at most two attempts of two requests each (C8).
  Witnesses run the handler end to end on small samples: an assistant that always answers
  with the same text (\<open>env_const\<close>), a search service that finds nothing
  (\<open>net_no_hits\<close>) and one that finds two articles (\<open>net_two_hits\<close>).

  \<^bold>\<open>Not modelled.\<close> Logging and the OpenAI client object log or configure only.
  The spinner around the request (line 623) only animates while the request runs. The
  Enter-key script (lines 306--317) is modelled as the text it is, rendered in its frame.
  It runs in the iframe of \<^verbatim>\<open>components.html\<close> and cannot reach the page's
  button, so Enter works only through the text input's callback, which is modelled. A text
  edit is modelled as committing a value different from the current one, the case in which
  Streamlit runs the callback and reruns. The page is the list of elements the script
  emits in order, not their layout: the answer streamed into the empty slot appears after
  the controls. The OpenAI and NCBI services, and the file system, appear only through
  what they answer: stream events, run statuses, HTTP responses and file contents.
\<close>

section \<open>Properties across the components\<close>

text \<open>C22. End to end: in an answered request, the fourth message the script sends to the
  assistant is the template of the chosen complexity level filled with the eligible
  fetched articles, formatted and ordered newest first by their publication-year key
  (stably), whenever no eligible article has a blank line in its block or a stray
  \<^verbatim>\<open>Published: \<close> before its date. Literature lookup, context assembly, prompt
  construction and the turn sequence agree.\<close>

theorem answer_prompt_has_articles_newest_first:
  assumes "py_strip user_input \<noteq> []"
    and "handle_request env net base th g e user_input sel = Some (Answer full tm arts w, e', th', tr)"
    and "filter eligible arts \<noteq> []" and "list_all block_ok (filter eligible arts)"
  shows "\<exists>a oq1 oq2. messages th' = messages th @ a \<and>
           user_msgs a = [opt_task user_input, kw_task oq1, opt_task user_input,
             (if sel = ''Doctor/Researcher'' then doctor_prompt else parent_prompt) oq2
               (py_join blank_line (map format_article (py_sorted_desc year_key (filter eligible arts)))),
             text_message_prompt full]"
proof -
  from handle_request_answer_msgs [OF assms(1,2)] obtain a oq1 oq2 where
    m: "messages th' = messages th @ a"
       "user_msgs a = [opt_task user_input, kw_task oq1, opt_task user_input,
                       generate_prompt oq2 sel (build_context arts), text_message_prompt full]"
    by blast
  have g: "generate_prompt oq2 sel (build_context arts) =
      (if sel = ''Doctor/Researcher'' then doctor_prompt else parent_prompt) oq2
        (py_join blank_line (map format_article (py_sorted_desc year_key (filter eligible arts))))"
    by (simp add: generate_prompt_def sort_context_build_context [OF assms(3,4)])
  show ?thesis
    by (rule exI [of _ a], rule exI [of _ oq1], rule exI [of _ oq2]) (simp only: m g)
qed

theorem answer_prompt_has_articles_newest_first_witness:
  "\<exists>full tm arts w e' th' tr.
     handle_request (env_const ''kw'') net_two_hits ''B/'' thread0 True False ''q'' ''Parent''
       = Some (Answer full tm arts w, e', th', tr) \<and>
     py_strip ''q'' \<noteq> [] \<and> filter eligible arts \<noteq> [] \<and> list_all block_ok (filter eligible arts) \<and>
     (\<exists>a oq1 oq2. messages th' = messages thread0 @ a \<and>
        user_msgs a = [opt_task ''q'', kw_task oq1, opt_task ''q'',
          parent_prompt oq2 (py_join blank_line (map format_article
            (py_sorted_desc year_key (filter eligible arts)))),
          text_message_prompt full])"
proof -
  let ?arts = "[sample_article ''A'' ''2019'', sample_article ''B'' ''2023'']"
  let ?th = "\<lparr>messages = [(User, opt_task ''q''), (Assistant, ''kw''), (User, kw_task ''kw''), (Assistant, ''kw''),
            (User, opt_task ''q''), (Assistant, ''kw''),
            (User, generate_prompt ''kw'' ''Parent'' (build_context ?arts)), (Assistant, ''kw''),
            (User, text_message_prompt ''kw''), (Assistant, ''kw'')],
          runs = [Completed]\<rparr>"
  let ?tr = "[esearch_url ''B/'' ''kw'' 10, efetch_url ''B/'' [''1'', ''2'']]"
  have s: "search_ncbi net_two_hits ''B/'' [''kw''] 10 = (Inr ?arts, ?tr)"
    by (simp add: search_ncbi_def search_attempt_def net_two_hits_def esearch_ids_def fetch_article_details_def
      parse_article_def sample_pubmed_article_def sample_article_def findall_desc_def find_desc_def
      find_child_def find_desc_attr_def find_desc_child_def text_or_def pubmed_url_def
      esearch_url_def efetch_url_def py_str_simps)
  have h: "handle_request (env_const ''kw'') net_two_hits ''B/'' thread0 True False ''q'' ''Parent''
     = Some (Answer ''kw'' ''kw'' ?arts False, False, ?th, ?tr)"
    by (simp add: handle_request_def extract_keywords_def optimize_question_def turn_def
      add_message_to_thread_def wait_idle.simps run_assistant_def Let_def stream_text_deltas env_const_def
      thread0_def find_active_def py_str_simps s generate_response_context [OF build_context_not_blank])
  have q: "py_strip ''q'' \<noteq> []" by (simp add: py_str_simps)
  have ne: "filter eligible ?arts \<noteq> []" unfolding sample_articles_eligible by simp
  have sel: "(if ''Parent'' = ''Doctor/Researcher'' then doctor_prompt else parent_prompt) = parent_prompt"
    by simp
  have ok: "list_all block_ok (filter eligible ?arts)"
    unfolding sample_articles_eligible by (rule sample_articles_block_ok)
  note c = answer_prompt_has_articles_newest_first [OF q h ne ok, unfolded sel]
  show ?thesis
    by (rule exI [of _ "''kw''"], rule exI [of _ "''kw''"], rule exI [of _ ?arts], rule exI [of _ False],
        rule exI [of _ False], rule exI [of _ ?th], rule exI [of _ ?tr])
       (intro conjI h q ne ok c)
qed

end
